theory Spec2Isabelle
  imports Complex_Main "HOL-Library.AList" "HOL-Library.Char_ord" "HOL-Library.List_Lexorder"
begin

section \<open>JavaScript values used by the catalogue\<close>

text \<open>
  A JavaScript \<open>number\<close> is a double: not-a-number, the two infinities, or a finite
  value, which the model takes as a real. Comparison, \<open>Math.floor\<close> and \<open>Math.ceil\<close>
  are exact on doubles; a sum, a difference, a product and a quotient are rounded to the
  nearest double, ties to the even one. A zero is taken as \<open>+0\<close>.
\<close>

datatype number = NaN | NegInfinity | Finite real | PosInfinity

text \<open>\<open>a < b\<close> on numbers: every comparison with \<open>NaN\<close> is false.\<close>

fun num_lt :: "number \<Rightarrow> number \<Rightarrow> bool" where
  "num_lt NaN b = False"
| "num_lt a NaN = False"
| "num_lt PosInfinity b = False"
| "num_lt a NegInfinity = False"
| "num_lt NegInfinity b = True"
| "num_lt a PosInfinity = True"
| "num_lt (Finite a) (Finite b) = (a < b)"

definition num_gt :: "number \<Rightarrow> number \<Rightarrow> bool" where
  "num_gt a b = num_lt b a"

fun isNaN :: "number \<Rightarrow> bool" where
  "isNaN NaN = True"
| "isNaN a = False"

fun Math_floor :: "number \<Rightarrow> number" where
  "Math_floor (Finite r) = Finite (of_int \<lfloor>r\<rfloor>)"
| "Math_floor a = a"

text \<open>
  Rounding a real to the nearest double. \<open>bit_length n\<close> is the number of binary digits
  of a whole number, and \<open>exponent x\<close>, for a positive \<open>x\<close>, the \<open>e\<close> with
  \<open>2 ^ e \<le> x < 2 ^ (e + 1)\<close>. A double has 53 binary digits from its exponent down, and
  no exponent below \<open>- 1022\<close>; the value is rounded to a multiple of the last digit's
  weight, and is infinite from \<open>2 ^ 1024\<close> on.
\<close>

function bit_length :: "int \<Rightarrow> int" where
  "bit_length n = (if n \<le> 0 then 0 else 1 + bit_length (n div 2))"
  by auto

termination bit_length
  by (relation "measure nat") auto

declare bit_length.simps [simp del]

definition pow2 :: "int \<Rightarrow> real" where
  "pow2 k = (if 0 \<le> k then 2 ^ nat k else 1 / 2 ^ nat (- k))"

definition exponent :: "real \<Rightarrow> int" where
  "exponent x =
     (if 1 \<le> x then bit_length \<lfloor>x\<rfloor> - 1
      else (let k = bit_length \<lfloor>1 / x\<rfloor> - 1
            in if x = pow2 (- k) then - k else - k - 1))"

definition round_half_even :: "real \<Rightarrow> int" where
  "round_half_even x =
     (let f = \<lfloor>x\<rfloor>; d = x - of_int f
      in if d < 1 / 2 then f else if 1 / 2 < d then f + 1 else if even f then f else f + 1)"

definition to_double :: "real \<Rightarrow> number" where
  "to_double x =
     (if x = 0 then Finite 0
      else
        (let e = max (exponent \<bar>x\<bar>) (- 1022);
             ulp = pow2 (e - 52);
             y = of_int (round_half_even (\<bar>x\<bar> / ulp)) * ulp
         in if pow2 1024 \<le> y then (if x < 0 then NegInfinity else PosInfinity)
            else Finite (if x < 0 then - y else y)))"

text \<open>\<open>a + b\<close> on numbers: opposite infinities give \<open>NaN\<close>.\<close>

fun num_add :: "number \<Rightarrow> number \<Rightarrow> number" where
  "num_add NaN b = NaN"
| "num_add a NaN = NaN"
| "num_add PosInfinity NegInfinity = NaN"
| "num_add NegInfinity PosInfinity = NaN"
| "num_add PosInfinity b = PosInfinity"
| "num_add a PosInfinity = PosInfinity"
| "num_add NegInfinity b = NegInfinity"
| "num_add a NegInfinity = NegInfinity"
| "num_add (Finite a) (Finite b) = to_double (a + b)"

fun num_neg :: "number \<Rightarrow> number" where
  "num_neg NaN = NaN"
| "num_neg NegInfinity = PosInfinity"
| "num_neg PosInfinity = NegInfinity"
| "num_neg (Finite a) = Finite (- a)"

definition num_sub :: "number \<Rightarrow> number \<Rightarrow> number" where
  "num_sub a b = num_add a (num_neg b)"

text \<open>
  A string is a list of characters. \<open>Number.prototype.toString\<close> on a whole number
  prints its decimal digits, with a minus sign below zero.
\<close>

definition digit_char :: "nat \<Rightarrow> char" where
  "digit_char d = ''0123456789'' ! d"

fun nat_toString :: "nat \<Rightarrow> string" where
  "nat_toString n =
     (if n < 10 then [digit_char n] else nat_toString (n div 10) @ [digit_char (n mod 10)])"

definition toString :: "int \<Rightarrow> string" where
  "toString i = (if i < 0 then CHR ''-'' # nat_toString (nat (- i)) else nat_toString (nat i))"

text \<open>
  Characters are the code units below 256. \<open>String.prototype.trim\<close> removes white
  space at both ends; \<open>toLowerCase\<close> maps the capital letters, accented ones included,
  to their small forms.
\<close>

definition is_whitespace :: "char \<Rightarrow> bool" where
  "is_whitespace c = (of_char c \<in> {9::nat, 10, 11, 12, 13, 32, 160})"

definition trim :: "string \<Rightarrow> string" where
  "trim s = rev (dropWhile is_whitespace (rev (dropWhile is_whitespace s)))"

definition char_between :: "nat \<Rightarrow> nat \<Rightarrow> char \<Rightarrow> bool" where
  "char_between lo hi c = (lo \<le> of_char c \<and> of_char c \<le> hi)"

definition is_upper :: "char \<Rightarrow> bool" where
  "is_upper c = char_between 65 90 c"

definition is_lower :: "char \<Rightarrow> bool" where
  "is_lower c = char_between 97 122 c"

definition is_digit :: "char \<Rightarrow> bool" where
  "is_digit c = char_between 48 57 c"

definition toLowerCase_char :: "char \<Rightarrow> char" where
  "toLowerCase_char c =
     (if is_upper c \<or> (char_between 192 222 c \<and> of_char c \<noteq> (215::nat))
      then char_of (of_char c + (32::nat)) else c)"

definition toLowerCase :: "string \<Rightarrow> string" where
  "toLowerCase s = map toLowerCase_char s"

text \<open>
  \<open>x || d\<close> on an optional number: an absent value, \<open>NaN\<close> and zero are falsy. On an
  optional string the empty string is falsy.
\<close>

fun num_truthy :: "number \<Rightarrow> bool" where
  "num_truthy NaN = False"
| "num_truthy (Finite r) = (r \<noteq> 0)"
| "num_truthy a = True"

fun num_or :: "number option \<Rightarrow> number \<Rightarrow> number" where
  "num_or None d = d"
| "num_or (Some a) d = (if num_truthy a then a else d)"

fun str_truthy :: "string option \<Rightarrow> bool" where
  "str_truthy None = False"
| "str_truthy (Some s) = (s \<noteq> [])"

text \<open>
  Products and quotients of numbers. A quotient by zero is infinite, with the sign of
  the dividend, and \<open>NaN\<close> when the dividend is zero too.
\<close>

fun num_sign :: "number \<Rightarrow> int" where
  "num_sign NaN = 0"
| "num_sign NegInfinity = - 1"
| "num_sign PosInfinity = 1"
| "num_sign (Finite r) = (if r < 0 then - 1 else if r = 0 then 0 else 1)"

definition signed_infinity :: "int \<Rightarrow> number" where
  "signed_infinity s = (if s = 0 then NaN else if 0 < s then PosInfinity else NegInfinity)"

fun num_mul :: "number \<Rightarrow> number \<Rightarrow> number" where
  "num_mul NaN b = NaN"
| "num_mul a NaN = NaN"
| "num_mul (Finite a) (Finite b) = to_double (a * b)"
| "num_mul a b = signed_infinity (num_sign a * num_sign b)"

fun num_div :: "number \<Rightarrow> number \<Rightarrow> number" where
  "num_div NaN b = NaN"
| "num_div a NaN = NaN"
| "num_div (Finite a) (Finite b) =
     (if b = 0 then signed_infinity (num_sign (Finite a)) else to_double (a / b))"
| "num_div (Finite a) b = Finite 0"
| "num_div a (Finite b) = signed_infinity (num_sign a * (if b < 0 then - 1 else 1))"
| "num_div a b = NaN"

fun Math_ceil :: "number \<Rightarrow> number" where
  "Math_ceil (Finite r) = Finite (of_int \<lceil>r\<rceil>)"
| "Math_ceil a = a"

text \<open>JSON values, for request and response bodies.\<close>

datatype json =
    JNull
  | JBool bool
  | JNumber real
  | JString string
  | JArray "json list"
  | JObject "(string \<times> json) list"


definition int_json :: "int \<Rightarrow> json" where
  "int_json i = JNumber (of_int i)"

fun nullable_json :: "('a \<Rightarrow> json) \<Rightarrow> 'a option \<Rightarrow> json" where
  "nullable_json f None = JNull"
| "nullable_json f (Some x) = f x"

section \<open>The cart store (src/stores/cart.ts)\<close>

definition MIN_QUANTITY :: number where
  "MIN_QUANTITY = Finite 1"

definition MAX_QUANTITY :: number where
  "MAX_QUANTITY = Finite 99"

definition DEFAULT_QUANTITY :: number where
  "DEFAULT_QUANTITY = Finite 1"

definition clampQuantity :: "number \<Rightarrow> number" where
  "clampQuantity v =
     (if isNaN v \<or> num_lt v MIN_QUANTITY then MIN_QUANTITY
      else if num_gt v MAX_QUANTITY then MAX_QUANTITY
      else Math_floor v)"

text \<open>
  \<open>CartItem\<close> of src/lib/data/types.ts, and \<open>CartItemData\<close>, the same without its
  quantity.
\<close>

record CartItemData =
  item_id :: int
  item_name :: string
  item_slug :: string
  item_brand :: "string option"
  item_description :: "string option"
  item_image_url :: "string option"

record CartItem = CartItemData +
  quantity :: number

text \<open>
  The persistent map \<open>$cart\<close>: keys with their items. \<open>setKey\<close> stores an item under
  a key, and removes the key when it is given \<open>undefined\<close>.
\<close>

type_synonym cart = "(string \<times> CartItem) list"

fun setKey :: "string \<Rightarrow> CartItem option \<Rightarrow> cart \<Rightarrow> cart" where
  "setKey k (Some v) c = AList.update k v c"
| "setKey k None c = AList.delete k c"

definition with_quantity :: "CartItemData \<Rightarrow> number \<Rightarrow> CartItem" where
  "with_quantity p q =
     \<lparr> item_id = item_id p, item_name = item_name p, item_slug = item_slug p,
       item_brand = item_brand p, item_description = item_description p,
       item_image_url = item_image_url p, quantity = q \<rparr>"

text \<open>\<open>addToCart(product, quantity = DEFAULT_QUANTITY)\<close>: an absent quantity is the default.\<close>

definition addToCart :: "CartItemData \<Rightarrow> number option \<Rightarrow> cart \<Rightarrow> cart" where
  "addToCart product quantity_arg currentCart =
     (let productId = toString (item_id product);
          quantityToAdd = clampQuantity (case quantity_arg of None \<Rightarrow> DEFAULT_QUANTITY | Some q \<Rightarrow> q)
      in case map_of currentCart productId of
           Some item \<Rightarrow>
             (let newQuantity = clampQuantity (num_add (quantity item) quantityToAdd)
              in setKey productId (Some (item\<lparr>quantity := newQuantity\<rparr>)) currentCart)
         | None \<Rightarrow> setKey productId (Some (with_quantity product quantityToAdd)) currentCart)"

definition increaseQuantity :: "string \<Rightarrow> cart \<Rightarrow> cart" where
  "increaseQuantity productId currentCart =
     (case map_of currentCart productId of
        Some item \<Rightarrow>
          (let newQuantity = clampQuantity (num_add (quantity item) (Finite 1))
           in setKey productId (Some (item\<lparr>quantity := newQuantity\<rparr>)) currentCart)
      | None \<Rightarrow> currentCart)"

definition decreaseQuantity :: "string \<Rightarrow> cart \<Rightarrow> cart" where
  "decreaseQuantity productId currentCart =
     (case map_of currentCart productId of
        Some item \<Rightarrow>
          (if num_gt (quantity item) MIN_QUANTITY
           then setKey productId
                  (Some (item\<lparr>quantity := num_sub (quantity item) (Finite 1)\<rparr>)) currentCart
           else currentCart)
      | None \<Rightarrow> currentCart)"

definition setQuantity :: "string \<Rightarrow> number \<Rightarrow> cart \<Rightarrow> cart" where
  "setQuantity productId q currentCart =
     (case map_of currentCart productId of
        Some item \<Rightarrow>
          (let validQuantity = clampQuantity q
           in setKey productId (Some (item\<lparr>quantity := validQuantity\<rparr>)) currentCart)
      | None \<Rightarrow> currentCart)"

definition removeFromCart :: "string \<Rightarrow> cart \<Rightarrow> cart" where
  "removeFromCart productId currentCart = setKey productId None currentCart"

definition clearCart :: "cart \<Rightarrow> cart" where
  "clearCart currentCart = []"

text \<open>A stored quantity is in order when it is a whole number from 1 to 99.\<close>

fun valid_quantity :: "number \<Rightarrow> bool" where
  "valid_quantity (Finite r) = (of_int \<lfloor>r\<rfloor> = r \<and> 1 \<le> r \<and> r \<le> 99)"
| "valid_quantity a = False"

definition cart_quantities_valid :: "cart \<Rightarrow> bool" where
  "cart_quantities_valid c = list_all (\<lambda>entry. valid_quantity (quantity (snd entry))) c"

definition sample_item :: CartItemData where
  "sample_item =
     \<lparr> item_id = 7, item_name = ''Silla'', item_slug = ''silla'', item_brand = None,
       item_description = None, item_image_url = None \<rparr>"

definition sample_cart :: cart where
  "sample_cart = [(''7'', with_quantity sample_item (Finite 98))]"

section \<open>The hosted platform\<close>

text \<open>
  Storage, authentication and files belong to a hosted platform that the handlers call
  through its client library. The model keeps the four tables the handlers use, the list
  of calls issued to the platform, in order, and the lines written to the console. What
  the platform answers beyond the tables (a refusal, the time, a file's content, a signed
  address) is given by a \<open>world\<close>, so every statement holds for every behaviour of the
  platform.
\<close>

datatype exn = Error string | TypeError string | SyntaxError string

fun exn_message :: "exn \<Rightarrow> string" where
  "exn_message (Error m) = m"
| "exn_message (TypeError m) = m"
| "exn_message (SyntaxError m) = m"

record response =
  status :: nat
  headers :: "(string \<times> string) list"
  body :: json

definition json_headers :: "(string \<times> string) list" where
  "json_headers = [(''Content-Type'', ''application/json'')]"

definition json_response :: "nat \<Rightarrow> json \<Rightarrow> response" where
  "json_response st b = \<lparr> status = st, headers = json_headers, body = b \<rparr>"

text \<open>The rows of the tables. Columns that no handler sets or reads are left out.\<close>

record Category =
  cat_id :: int
  cat_name :: string
  cat_slug :: string
  cat_image_url :: "string option"

record Subcategory =
  sub_id :: int
  sub_category_id :: int
  sub_name :: string
  sub_slug :: string
  sub_filter_config :: json
  sub_display_order :: int

record Product =
  p_id :: int
  p_subcategory_id :: int
  p_category_id :: int
  p_name :: string
  p_slug :: string
  p_description :: "string option"
  p_price :: "real option"
  p_stock :: real
  p_brand :: "string option"
  p_attributes :: json

datatype AssetKind = Image | Video | File

datatype AssetSection = Gallery | Additional | Download

record ProductAsset =
  a_id :: int
  a_product_id :: int
  a_kind :: AssetKind
  a_section :: AssetSection
  a_storage_bucket :: string
  a_storage_path :: string
  a_title :: "string option"
  a_alt :: "string option"
  a_sort_order :: int
  a_is_primary :: bool
  a_is_secondary :: bool
  a_filename :: "string option"
  a_mime_type :: "string option"
  a_file_size_bytes :: "int option"
  a_is_public :: bool

fun section_name :: "AssetSection \<Rightarrow> string" where
  "section_name Gallery = ''gallery''"
| "section_name Additional = ''additional''"
| "section_name Download = ''download''"


text \<open>A call to the platform: a query on a table, or an operation on the file bucket.\<close>

datatype call =
    Select string
  | Insert string
  | Update string
  | Delete string
  | Storage_move string string
  | Storage_download string
  | Storage_upload string bool
  | Storage_remove "string list"
  | Storage_list string
  | Storage_createSignedUploadUrl string
  | Auth_signInWithPassword

record store =
  categories :: "Category list"
  subcategories :: "Subcategory list"
  products :: "Product list"
  product_assets :: "ProductAsset list"
  next_id :: int
  calls :: "call list"
  console :: "(string \<times> string) list"
  ticks :: nat

text \<open>
  Filters of the product listing (src/lib/data/types.ts). The type \<open>SortOption\<close> has four
  values; the listing route also lets \<open>oldest\<close> through (\<open>sort as any\<close>), which
  \<open>applyFilters\<close> orders like an absent sort.
\<close>

datatype attribute_value = One string | Many "string list"

datatype SortOption = price_asc | price_desc | name_asc | name_desc | oldest

record ProductFilters =
  attributeFilters :: "(string \<times> attribute_value) list"
  minPrice :: "number option"
  maxPrice :: "number option"
  inStock :: "bool option"
  sort :: "SortOption option"

datatype scope = By_category int | By_subcategory int

text \<open>
  A query on the products: the category or subcategory it is restricted to, the filters
  that \<open>applyFilters\<close> turns into price, stock, attribute and order clauses, and the
  range of rows asked for (none for the head query that only counts).
\<close>

record products_query =
  q_scope :: scope
  q_filters :: ProductFilters
  q_range :: "(number \<times> number) option"

text \<open>
  The answers of the platform. \<open>failure n\<close> is the error it gives to the call issued as
  the \<open>n\<close>-th, if it refuses that call. A refused call gives no data and
  changes no table. Where the code reads the error of a call it sees the refusal; where
  it reads the data alone, or nothing, it goes on without. \<open>now n\<close> is the clock at its
  \<open>n\<close>-th reading.
\<close>

record world =
  failure :: "nat \<Rightarrow> string option"
  now :: "nat \<Rightarrow> int"
  count_answer :: "products_query \<Rightarrow> number option"
  rows_answer :: "products_query \<Rightarrow> Product list option"
  file_content :: "string \<Rightarrow> string option"
  signed_upload :: "string \<Rightarrow> string \<times> string"
  listed_files :: "string \<Rightarrow> string list option"
  public_url :: "string \<Rightarrow> string \<Rightarrow> string"
  json_syntax_error :: string
  no_single_row :: string
  PAGE_SIZE :: int

definition issue :: "call \<Rightarrow> store \<Rightarrow> store" where
  "issue c s = s\<lparr>calls := calls s @ [c]\<rparr>"

definition answer_error :: "world \<Rightarrow> store \<Rightarrow> string option" where
  "answer_error w s = failure w (length (calls s))"

text \<open>The platform answers the next call, rather than refusing it.\<close>

definition answered :: "world \<Rightarrow> store \<Rightarrow> bool" where
  "answered w s = (answer_error w s = None)"

definition console_error :: "string \<Rightarrow> string \<Rightarrow> store \<Rightarrow> store" where
  "console_error tag detail s = s\<lparr>console := console s @ [(tag, detail)]\<rparr>"

text \<open>\<open>.single()\<close> gives the row when exactly one row is selected, and nothing otherwise.\<close>

fun single :: "'a list \<Rightarrow> 'a option" where
  "single [r] = Some r"
| "single rs = None"

text \<open>
  What \<open>supabase.auth.getUser()\<close> answers for a request: the user, if the request
  carries a session, and the error of the call, if any.
\<close>

record auth =
  user :: "string option"
  authError :: "string option"

text \<open>Bodies of the error answers.\<close>

definition error_only :: "string \<Rightarrow> json" where
  "error_only msg = JObject [(''error'', JString msg)]"

definition failure_body :: "string \<Rightarrow> json" where
  "failure_body msg = JObject [(''success'', JBool False), (''error'', JString msg)]"

text \<open>
  \<open>Date.now()\<close> reads the clock. \<open>request.json()\<close> gives the parsed body, or throws
  a syntax error when the body is not JSON.
\<close>

definition Date_now :: "world \<Rightarrow> store \<Rightarrow> int \<times> store" where
  "Date_now w s = (now w (ticks s), s\<lparr>ticks := Suc (ticks s)\<rparr>)"

text \<open>\<open>filename.replace(/[^a-zA-Z0-9.-]/g, "_")\<close>\<close>

definition filename_char_ok :: "char \<Rightarrow> bool" where
  "filename_char_ok c = (is_lower c \<or> is_upper c \<or> is_digit c \<or> c = CHR ''.'' \<or> c = CHR ''-'')"

definition sanitize_filename :: "string \<Rightarrow> string" where
  "sanitize_filename filename = map (\<lambda>c. if filename_char_ok c then c else CHR ''_'') filename"

text \<open>
  The \<open>catch\<close> blocks. Every handler wraps its whole body in \<open>try\<close>; what its
  \<open>catch\<close> does with the exception is one of three things. The category and subcategory
  handlers answer 500 with the exception's message and write nothing to the console; the
  product handlers that change data write a line to the console and answer 500 with the
  message; the remaining handlers write a line and answer 500 with a fixed body.
\<close>

definition catch_silent :: "(exn + response) \<times> store \<Rightarrow> response \<times> store" where
  "catch_silent r =
     (case r of
        (Inr res, s) \<Rightarrow> (res, s)
      | (Inl e, s) \<Rightarrow> (json_response 500 (failure_body (exn_message e)), s))"

definition catch_logged :: "string \<Rightarrow> (exn + response) \<times> store \<Rightarrow> response \<times> store" where
  "catch_logged line r =
     (case r of
        (Inr res, s) \<Rightarrow> (res, s)
      | (Inl e, s) \<Rightarrow>
          (json_response 500 (failure_body (exn_message e)),
           console_error line (exn_message e) s))"


text \<open>Truthiness of a JSON value, as \<open>||\<close> reads it.\<close>

fun json_truthy :: "json \<Rightarrow> bool" where
  "json_truthy JNull = False"
| "json_truthy (JBool b) = b"
| "json_truthy (JNumber r) = (r \<noteq> 0)"
| "json_truthy (JString s) = (s \<noteq> [])"
| "json_truthy j = True"

text \<open>The rows as the platform returns them in JSON.\<close>

definition category_json :: "Category \<Rightarrow> json" where
  "category_json c =
     JObject [(''id'', int_json (cat_id c)), (''name'', JString (cat_name c)),
              (''slug'', JString (cat_slug c)),
              (''image_url'', nullable_json JString (cat_image_url c))]"



definition product_json :: "Product \<Rightarrow> json" where
  "product_json p =
     JObject [(''id'', int_json (p_id p)), (''subcategory_id'', int_json (p_subcategory_id p)),
              (''category_id'', int_json (p_category_id p)), (''name'', JString (p_name p)),
              (''slug'', JString (p_slug p)),
              (''description'', nullable_json JString (p_description p)),
              (''price'', nullable_json JNumber (p_price p)),
              (''stock'', JNumber (p_stock p)),
              (''brand'', nullable_json JString (p_brand p)),
              (''attributes'', p_attributes p)]"

section \<open>Product listing (src/lib/data/products.ts)\<close>

definition MAX_PAGE_SIZE :: number where
  "MAX_PAGE_SIZE = Finite 50"

definition DEFAULT_PAGE_SIZE :: number where
  "DEFAULT_PAGE_SIZE = Finite 2"

record Pagination =
  page :: number
  pageSize :: number

text \<open>\<open>Partial<Pagination>\<close>: either field may be absent.\<close>

record PartialPagination =
  page_arg :: "number option"
  pageSize_arg :: "number option"

definition normalizePagination :: "PartialPagination \<Rightarrow> Pagination" where
  "normalizePagination pagination =
     (let page0 = num_or (page_arg pagination) (Finite 1);
          pageSize0 = num_or (pageSize_arg pagination) DEFAULT_PAGE_SIZE;
          page1 = (if num_lt page0 (Finite 1) then Finite 1 else page0);
          pageSize1 = (if num_lt pageSize0 (Finite 1) then DEFAULT_PAGE_SIZE else pageSize0);
          pageSize2 = (if num_gt pageSize1 MAX_PAGE_SIZE then MAX_PAGE_SIZE else pageSize1)
      in \<lparr> page = page1, pageSize = pageSize2 \<rparr>)"

record PaginatedProductsResponse =
  items :: "Product list"
  res_page :: number
  res_pageSize :: number
  total :: number
  totalPages :: number

text \<open>
  The body shared by \<open>getProductsByCategory\<close> and \<open>getProductsBySubcategory\<close>, which
  differ in the column the query is restricted on and in the line logged on an error.
\<close>

definition getProducts ::
  "string \<Rightarrow> world \<Rightarrow> scope \<Rightarrow> ProductFilters \<Rightarrow> PartialPagination \<Rightarrow> store \<Rightarrow>
   (exn + PaginatedProductsResponse) \<times> store" where
  "getProducts log_line w sc filters pagination s =
     (let normalized = normalizePagination pagination;
          countQuery = \<lparr> q_scope = sc, q_filters = filters, q_range = None \<rparr>;
          s1 = issue (Select ''products'') s;
          total = num_or (count_answer w countQuery) (Finite 0);
          totalPages = (if num_gt total (Finite 0)
                        then Math_ceil (num_div total (pageSize normalized)) else Finite 0)
      in if num_gt (page normalized) totalPages \<and> num_gt totalPages (Finite 0)
         then (Inr \<lparr> items = [], res_page = page normalized,
                      res_pageSize = pageSize normalized, total = total,
                      totalPages = totalPages \<rparr>, s1)
         else
           (let offset = num_mul (num_sub (page normalized) (Finite 1)) (pageSize normalized);
                query = \<lparr> q_scope = sc, q_filters = filters,
                          q_range = Some (offset,
                            num_sub (num_add offset (pageSize normalized)) (Finite 1)) \<rparr>;
                err = answer_error w s1;
                s2 = issue (Select ''products'') s1
            in case err of
                 Some e \<Rightarrow> (Inl (Error ''Failed to fetch products''), console_error log_line e s2)
               | None \<Rightarrow>
                   (Inr \<lparr> items = (case rows_answer w query of None \<Rightarrow> [] | Some rows \<Rightarrow> rows),
                          res_page = page normalized, res_pageSize = pageSize normalized,
                          total = total, totalPages = totalPages \<rparr>, s2)))"

definition getProductsByCategory ::
  "world \<Rightarrow> int \<Rightarrow> ProductFilters \<Rightarrow> PartialPagination \<Rightarrow> store \<Rightarrow>
   (exn + PaginatedProductsResponse) \<times> store" where
  "getProductsByCategory w categoryId filters pagination s =
     getProducts ''Error fetching products by category:'' w (By_category categoryId)
       filters pagination s"

definition getProductsBySubcategory ::
  "world \<Rightarrow> int \<Rightarrow> ProductFilters \<Rightarrow> PartialPagination \<Rightarrow> store \<Rightarrow>
   (exn + PaginatedProductsResponse) \<times> store" where
  "getProductsBySubcategory w subcategoryId filters pagination s =
     getProducts ''Error fetching products by subcategory:'' w (By_subcategory subcategoryId)
       filters pagination s"

text \<open>Between two numbers, both ends included.\<close>

definition num_le :: "number \<Rightarrow> number \<Rightarrow> bool" where
  "num_le a b = (num_lt a b \<or> (\<not> isNaN a \<and> a = b))"

text \<open>
  The number of pages as the specification words it: the ceiling of
  \<open>total / pageSize\<close>, the quotient of the two doubles, when \<open>total\<close> is positive, and
  zero otherwise.
\<close>

definition totalPages_spec :: "number \<Rightarrow> number \<Rightarrow> number" where
  "totalPages_spec t ps =
     (if num_gt t (Finite 0) then Math_ceil (num_div t ps) else Finite 0)"

text \<open>
  What is claimed of a listing: the normalised page is at least 1 and the normalised page
  size lies from 1 to \<open>MAX_PAGE_SIZE\<close>; a result that is returned reports the normalised
  page and page size, the count the platform gave (zero when it gave none) and the number
  of pages above; and when the normalised page lies beyond a positive number of pages,
  a result is returned, with no items and with the page that was asked for.
\<close>

definition listing_paginated ::
  "world \<Rightarrow> scope \<Rightarrow> ProductFilters \<Rightarrow> PartialPagination \<Rightarrow>
   (exn + PaginatedProductsResponse) \<times> store \<Rightarrow> bool" where
  "listing_paginated w sc filters pagination result =
     (let n = normalizePagination pagination;
          t = num_or (count_answer w \<lparr> q_scope = sc, q_filters = filters, q_range = None \<rparr>)
                (Finite 0);
          tp = totalPages_spec t (pageSize n)
      in num_le (Finite 1) (page n) \<and>
         num_le (Finite 1) (pageSize n) \<and> num_le (pageSize n) MAX_PAGE_SIZE \<and>
         (case fst result of
            Inl e \<Rightarrow> True
          | Inr r \<Rightarrow> res_page r = page n \<and> res_pageSize r = pageSize n \<and>
                    total r = t \<and> totalPages r = tp) \<and>
         (num_gt (page n) tp \<and> num_gt tp (Finite 0) \<longrightarrow>
            fst result = Inr \<lparr> items = [], res_page = page n, res_pageSize = pageSize n,
                               total = t, totalPages = tp \<rparr> \<and>
            page_arg pagination = Some (page n)))"

definition sample_filters :: ProductFilters where
  "sample_filters =
     \<lparr> attributeFilters = [], minPrice = None, maxPrice = None, inStock = None, sort = None \<rparr>"

definition sample_world :: world where
  "sample_world =
     \<lparr> failure = (\<lambda>n. None), now = (\<lambda>n. 1700000000000),
       count_answer = (\<lambda>q. Some (Finite 5)), rows_answer = (\<lambda>q. Some []),
       file_content = (\<lambda>p. Some ''data''),
       signed_upload = (\<lambda>p. (''https://files.example/'' @ p, ''tok'')),
       listed_files = (\<lambda>p. Some []),
       public_url = (\<lambda>b p. ''https://files.example/public/'' @ b @ ''/'' @ p),
       json_syntax_error = ''Unexpected end of JSON input'',
       no_single_row = ''JSON object requested, multiple (or no) rows returned'',
       PAGE_SIZE = 24 \<rparr>"

text \<open>The double nearest to 1.2, and a platform that counts six products.\<close>

definition double_1_2 :: real where
  "double_1_2 = 5404319552844595 / 4503599627370496"

definition six_world :: world where
  "six_world = sample_world\<lparr> count_answer := (\<lambda>q. Some (Finite 6)) \<rparr>"

definition empty_store :: store where
  "empty_store =
     \<lparr> categories = [], subcategories = [], products = [], product_assets = [],
       next_id = 1, calls = [], console = [], ticks = 0 \<rparr>"

section \<open>Signed upload addresses (the upload-url route)\<close>

record UploadUrlRequest =
  filename :: "string option"
  contentType :: "string option"
  upload_section :: "string option"
  tempUploadId :: "string option"

definition validSections :: "string list" where
  "validSections = [''gallery'', ''additional'', ''download'']"

definition imageTypes :: "string list" where
  "imageTypes = [''image/jpeg'', ''image/png'', ''image/webp'', ''image/gif'']"

definition videoTypes :: "string list" where
  "videoTypes = [''video/mp4'', ''video/webm'']"

definition documentTypes :: "string list" where
  "documentTypes =
     [''application/pdf'', ''application/zip'', ''application/msword'',
      ''application/vnd.openxmlformats-officedocument.wordprocessingml.document'',
      ''application/vnd.ms-excel'',
      ''application/vnd.openxmlformats-officedocument.spreadsheetml.sheet'']"

definition allowedTypes :: "(string \<times> string list) list" where
  "allowedTypes =
     [(''gallery'', imageTypes @ videoTypes),
      (''additional'', imageTypes @ videoTypes),
      (''download'', imageTypes @ videoTypes @ documentTypes)]"

definition invalid_section_message :: string where
  "invalid_section_message = ''Secci'' @ [CHR 0xF3] @ ''n inv'' @ [CHR 0xE1] @ ''lida''"

definition upload_url_POST_try ::
  "world \<Rightarrow> auth \<Rightarrow> UploadUrlRequest option \<Rightarrow> store \<Rightarrow> (exn + response) \<times> store" where
  "upload_url_POST_try w a request_json s =
     (if authError a \<noteq> None \<or> user a = None
      then (Inr (json_response 401 (error_only ''No autorizado'')), s)
      else case request_json of
        None \<Rightarrow> (Inl (SyntaxError (json_syntax_error w)), s)
      | Some b \<Rightarrow>
          if \<not> str_truthy (filename b) \<or> \<not> str_truthy (contentType b) \<or>
             \<not> str_truthy (upload_section b) \<or> \<not> str_truthy (tempUploadId b)
          then (Inr (json_response 400 (error_only ''Faltan campos requeridos'')), s)
          else if the (upload_section b) \<notin> set validSections
          then (Inr (json_response 400 (error_only invalid_section_message)), s)
          else case map_of allowedTypes (the (upload_section b)) of
            None \<Rightarrow> (Inl (TypeError ''Cannot read properties of undefined''), s)
          | Some allowed \<Rightarrow>
              if the (contentType b) \<notin> set allowed
              then (Inr (json_response 400
                      (error_only (''Tipo de archivo no permitido para '' @ the (upload_section b)
                         @ '': '' @ the (contentType b)))), s)
              else
                (let (timestamp, s1) = Date_now w s;
                     sanitizedFilename = sanitize_filename (the (filename b));
                     storagePath = ''temp/'' @ the (tempUploadId b) @ ''/'' @ the (upload_section b)
                        @ ''/'' @ toString timestamp @ ''-'' @ sanitizedFilename;
                     err = answer_error w s1;
                     s2 = issue (Storage_createSignedUploadUrl storagePath) s1
                 in case err of
                      Some e \<Rightarrow>
                        (Inr (json_response 500 (error_only ''Error al crear URL de subida'')),
                         console_error ''Error creating signed URL:'' e s2)
                    | None \<Rightarrow>
                        (Inr (json_response 200
                           (JObject [(''signedUrl'', JString (fst (signed_upload w storagePath))),
                                     (''token'', JString (snd (signed_upload w storagePath))),
                                     (''path'', JString storagePath)])), s2)))"

definition upload_url_POST ::
  "world \<Rightarrow> auth \<Rightarrow> UploadUrlRequest option \<Rightarrow> store \<Rightarrow> response \<times> store" where
  "upload_url_POST w a request_json s =
     (case upload_url_POST_try w a request_json s of
        (Inr res, s') \<Rightarrow> (res, s')
      | (Inl e, s') \<Rightarrow>
          (json_response 500 (error_only ''Error interno del servidor''),
           console_error ''Upload URL error:'' (exn_message e) s'))"

text \<open>
  The content types the specification allows for a section: images and videos for the
  gallery and the additional files, documents as well for the downloads.
\<close>

definition allowed_for_section :: "string \<Rightarrow> string list" where
  "allowed_for_section sec =
     (if sec = ''gallery'' \<or> sec = ''additional'' then imageTypes @ videoTypes
      else if sec = ''download'' then imageTypes @ videoTypes @ documentTypes
      else [])"

definition authenticated :: "auth \<Rightarrow> bool" where
  "authenticated a = (user a \<noteq> None \<and> authError a = None)"

definition sample_auth :: auth where
  "sample_auth = \<lparr> user = Some ''admin'', authError = None \<rparr>"

definition sample_upload :: UploadUrlRequest where
  "sample_upload =
     \<lparr> filename = Some ''mi foto(1).png'', contentType = Some ''image/png'',
       upload_section = Some ''gallery'', tempUploadId = Some ''t1'' \<rparr>"

definition sample_bad_upload :: UploadUrlRequest where
  "sample_bad_upload =
     \<lparr> filename = Some ''manual.pdf'', contentType = Some ''application/pdf'',
       upload_section = Some ''gallery'', tempUploadId = Some ''t1'' \<rparr>"

section \<open>Categories and subcategories (the admin routes)\<close>

text \<open>
  The bodies of the requests. A field is absent or \<open>null\<close> (\<open>None\<close>) or present. An
  absent slug, and a route parameter \<open>id\<close> that \<open>parseInt\<close> does not read as a number
  (\<open>None\<close>), select no row.
\<close>

record category_body =
  cb_name :: "string option"
  cb_slug :: "string option"
  cb_image_url :: "string option"


definition name_blank :: "string option \<Rightarrow> bool" where
  "name_blank n = (\<not> str_truthy (map_option trim n))"

definition unauthorized :: response where
  "unauthorized = json_response 401 (failure_body ''No autorizado'')"

definition name_required :: response where
  "name_required = json_response 400 (failure_body ''El nombre es requerido'')"

definition category_slug_taken :: string where
  "category_slug_taken = ''Ya existe una categor'' @ [CHR 0xED] @ ''a con ese slug''"




definition category_required :: string where
  "category_required = ''La categor'' @ [CHR 0xED] @ ''a es requerida''"

definition has_subcategories :: string where
  "has_subcategories = ''No se puede eliminar: hay subcategor'' @ [CHR 0xED] @ ''as asociadas''"

definition has_products :: string where
  "has_products =
     ''No se puede eliminar: hay productos asociados. Mu'' @ [CHR 0xE9]
       @ ''velos a otra subcategor'' @ [CHR 0xED] @ ''a primero.''"

definition undefined_toLowerCase :: exn where
  "undefined_toLowerCase = TypeError ''Cannot read properties of undefined (reading toLowerCase)''"

subsection \<open>/api/admin/categories\<close>



definition categories_POST_try ::
  "world \<Rightarrow> auth \<Rightarrow> category_body option \<Rightarrow> store \<Rightarrow> (exn + response) \<times> store" where
  "categories_POST_try w a request_json s =
     (if user a = None then (Inr unauthorized, s)
      else case request_json of
        None \<Rightarrow> (Inl (SyntaxError (json_syntax_error w)), s)
      | Some b \<Rightarrow>
          if name_blank (cb_name b) then (Inr name_required, s)
          else
            (let existing = (if answered w s
                             then single (filter (\<lambda>c. Some (cat_slug c) = cb_slug b)
                                            (categories s))
                             else None);
                 s1 = issue (Select ''categories'') s
             in if existing \<noteq> None
                then (Inr (json_response 400 (failure_body category_slug_taken)), s1)
                else case cb_slug b of
                  None \<Rightarrow> (Inl undefined_toLowerCase, s1)
                | Some slug \<Rightarrow>
                    (let category = \<lparr> cat_id = next_id s1, cat_name = trim (the (cb_name b)),
                                       cat_slug = trim (toLowerCase slug),
                                       cat_image_url =
                                         (if str_truthy (cb_image_url b) then cb_image_url b
                                          else None) \<rparr>;
                         err = answer_error w s1;
                         s2 = issue (Insert ''categories'') s1
                     in case err of
                          Some e \<Rightarrow> (Inl (Error e), s2)
                        | None \<Rightarrow>
                            (Inr (json_response 201
                               (JObject [(''success'', JBool True),
                                         (''category'', category_json category)])),
                             s2\<lparr>categories := categories s2 @ [category],
                                next_id := next_id s2 + 1\<rparr>))))"

definition categories_POST ::
  "world \<Rightarrow> auth \<Rightarrow> category_body option \<Rightarrow> store \<Rightarrow> response \<times> store" where
  "categories_POST w a request_json s = catch_silent (categories_POST_try w a request_json s)"

subsection \<open>/api/admin/categories/[id]\<close>



definition category_DELETE_try ::
  "world \<Rightarrow> auth \<Rightarrow> int option \<Rightarrow> store \<Rightarrow> (exn + response) \<times> store" where
  "category_DELETE_try w a rid s =
     (if user a = None then (Inr unauthorized, s)
      else
        (let subcats = (if answered w s
                        then Some (take 1 (filter (\<lambda>sc. Some (sub_category_id sc) = rid)
                                             (subcategories s)))
                        else None);
             s1 = issue (Select ''subcategories'') s
         in if (case subcats of None \<Rightarrow> False | Some rows \<Rightarrow> length rows > 0)
            then (Inr (json_response 400 (failure_body has_subcategories)), s1)
            else
              (let err = answer_error w s1;
                   s2 = issue (Delete ''categories'') s1
               in case err of
                    Some e \<Rightarrow> (Inl (Error e), s2)
                  | None \<Rightarrow>
                      (Inr (json_response 200 (JObject [(''success'', JBool True)])),
                       s2\<lparr>categories := filter (\<lambda>c. Some (cat_id c) \<noteq> rid) (categories s2)\<rparr>))))"

definition category_DELETE ::
  "world \<Rightarrow> auth \<Rightarrow> int option \<Rightarrow> store \<Rightarrow> response \<times> store" where
  "category_DELETE w a rid s = catch_silent (category_DELETE_try w a rid s)"

subsection \<open>/api/admin/subcategories\<close>








subsection \<open>/api/admin/subcategories/[id]\<close>



definition subcategory_DELETE_try ::
  "world \<Rightarrow> auth \<Rightarrow> int option \<Rightarrow> store \<Rightarrow> (exn + response) \<times> store" where
  "subcategory_DELETE_try w a rid s =
     (if user a = None then (Inr unauthorized, s)
      else
        (let prods = (if answered w s
                      then Some (take 1 (filter (\<lambda>p. Some (p_subcategory_id p) = rid)
                                           (products s)))
                      else None);
             s1 = issue (Select ''products'') s
         in if (case prods of None \<Rightarrow> False | Some rows \<Rightarrow> length rows > 0)
            then (Inr (json_response 400 (failure_body has_products)), s1)
            else
              (let err = answer_error w s1;
                   s2 = issue (Delete ''subcategories'') s1
               in case err of
                    Some e \<Rightarrow> (Inl (Error e), s2)
                  | None \<Rightarrow>
                      (Inr (json_response 200 (JObject [(''success'', JBool True)])),
                       s2\<lparr>subcategories :=
                            filter (\<lambda>sc. Some (sub_id sc) \<noteq> rid) (subcategories s2)\<rparr>))))"

definition subcategory_DELETE ::
  "world \<Rightarrow> auth \<Rightarrow> int option \<Rightarrow> store \<Rightarrow> response \<times> store" where
  "subcategory_DELETE w a rid s = catch_silent (subcategory_DELETE_try w a rid s)"

definition sample_category :: Category where
  "sample_category =
     \<lparr> cat_id = 1, cat_name = ''Sillas'', cat_slug = ''sillas'', cat_image_url = None \<rparr>"

definition sample_subcategory :: Subcategory where
  "sample_subcategory =
     \<lparr> sub_id = 2, sub_category_id = 1, sub_name = ''De oficina'', sub_slug = ''oficina'',
       sub_filter_config = JArray [], sub_display_order = 0 \<rparr>"

definition sample_product :: Product where
  "sample_product =
     \<lparr> p_id = 3, p_subcategory_id = 2, p_category_id = 1, p_name = ''Silla Eames'',
       p_slug = ''silla-eames'', p_description = None, p_price = Some 120, p_stock = 4,
       p_brand = None, p_attributes = JObject [] \<rparr>"

definition sample_store :: store where
  "sample_store =
     empty_store\<lparr> categories := [sample_category], subcategories := [sample_subcategory],
                  products := [sample_product], next_id := 10 \<rparr>"

definition sample_category_body :: category_body where
  "sample_category_body =
     \<lparr> cb_name = Some ''Sillas de comedor'', cb_slug = Some ''sillas'', cb_image_url = None \<rparr>"

definition anonymous :: auth where
  "anonymous = \<lparr> user = None, authError = Some ''Auth session missing!'' \<rparr>"

section \<open>The admin library (src/lib/data/admin.ts)\<close>

text \<open>
  \<open>ProductFormData\<close>, and \<open>Partial<ProductFormData>\<close> in which every field may be
  absent. A description, a price and a brand may also be \<open>null\<close>.
\<close>

record ProductFormData =
  pf_name :: string
  pf_slug :: string
  pf_description :: "string option"
  pf_price :: "real option"
  pf_stock :: real
  pf_brand :: "string option"
  pf_category_id :: int
  pf_subcategory_id :: int
  pf_attributes :: json

record PartialProductFormData =
  pp_name :: "string option"
  pp_slug :: "string option"
  pp_description :: "string option option"
  pp_price :: "real option option"
  pp_stock :: "real option"
  pp_brand :: "string option option"
  pp_category_id :: "int option"
  pp_subcategory_id :: "int option"
  pp_attributes :: "json option"

subsection \<open>Utilities\<close>

text \<open>
  \<open>generateSlug\<close>: small letters, accents removed (the canonical decomposition followed
  by the removal of the combining marks), every run of other characters replaced by one
  hyphen, hyphens removed at both ends, at most 100 characters.
\<close>

definition strip_accent :: "char \<Rightarrow> char" where
  "strip_accent c =
     (if char_between 224 229 c then CHR ''a''
      else if char_between 231 231 c then CHR ''c''
      else if char_between 232 235 c then CHR ''e''
      else if char_between 236 239 c then CHR ''i''
      else if char_between 241 241 c then CHR ''n''
      else if char_between 242 246 c then CHR ''o''
      else if char_between 249 252 c then CHR ''u''
      else if char_between 253 253 c \<or> char_between 255 255 c then CHR ''y''
      else c)"

definition slug_char :: "char \<Rightarrow> bool" where
  "slug_char c = (is_lower c \<or> is_digit c)"

fun hyphenate_from :: "bool \<Rightarrow> string \<Rightarrow> string" where
  "hyphenate_from in_run [] = []"
| "hyphenate_from in_run (c # cs) =
     (if slug_char c then c # hyphenate_from False cs
      else if in_run then hyphenate_from True cs
      else CHR ''-'' # hyphenate_from True cs)"

definition hyphenate :: "string \<Rightarrow> string" where
  "hyphenate s = hyphenate_from False s"

definition strip_hyphens :: "string \<Rightarrow> string" where
  "strip_hyphens s =
     rev (dropWhile (\<lambda>c. c = CHR ''-'') (rev (dropWhile (\<lambda>c. c = CHR ''-'') s)))"

definition generateSlug :: "string \<Rightarrow> string" where
  "generateSlug n = take 100 (strip_hyphens (hyphenate (map strip_accent (toLowerCase n))))"

definition slug_pattern :: "string \<Rightarrow> bool" where
  "slug_pattern s = (s \<noteq> [] \<and> list_all (\<lambda>c. is_lower c \<or> is_digit c \<or> c = CHR ''-'') s)"

definition slug_pattern_message :: string where
  "slug_pattern_message =
     ''El slug solo puede contener letras min'' @ [CHR 0xFA] @ ''sculas, n'' @ [CHR 0xFA]
       @ ''meros y guiones''"

definition subcategory_required :: string where
  "subcategory_required = ''La subcategor'' @ [CHR 0xED] @ ''a es requerida''"

definition validateProductData :: "PartialProductFormData \<Rightarrow> string list" where
  "validateProductData d =
     (if name_blank (pp_name d) then [''El nombre es requerido'']
      else if length (the (pp_name d)) > 200
      then [''El nombre no puede exceder 200 caracteres''] else [])
     @ (if name_blank (pp_slug d) then [''El slug es requerido'']
        else if \<not> slug_pattern (the (pp_slug d)) then [slug_pattern_message] else [])
     @ (case pp_price d of
          Some (Some price) \<Rightarrow> if price < 0 then [''El precio no puede ser negativo''] else []
        | _ \<Rightarrow> [])
     @ (case pp_stock d of
          Some stock \<Rightarrow> if stock < 0 then [''El stock no puede ser negativo''] else []
        | None \<Rightarrow> [])
     @ (if pp_category_id d = None \<or> pp_category_id d = Some 0 then [category_required] else [])
     @ (if pp_subcategory_id d = None \<or> pp_subcategory_id d = Some 0
        then [subcategory_required] else [])"

text \<open>\<open>x?.trim() || null\<close> on a text that may be \<open>null\<close>.\<close>

definition trim_or_null :: "string option \<Rightarrow> string option" where
  "trim_or_null x = (if str_truthy (map_option trim x) then map_option trim x else None)"

subsection \<open>Products\<close>

definition product_slug_taken :: string where
  "product_slug_taken = ''Ya existe un producto con ese slug''"

definition createProduct :: "world \<Rightarrow> ProductFormData \<Rightarrow> store \<Rightarrow> (exn + Product) \<times> store" where
  "createProduct w d s =
     (let existing = (if answered w s
                      then single (filter (\<lambda>p. p_slug p = pf_slug d) (products s))
                      else None);
          s1 = issue (Select ''products'') s
      in if existing \<noteq> None then (Inl (Error product_slug_taken), s1)
         else
           (let product = \<lparr> p_id = next_id s1, p_subcategory_id = pf_subcategory_id d,
                             p_category_id = pf_category_id d, p_name = trim (pf_name d),
                             p_slug = trim (toLowerCase (pf_slug d)),
                             p_description = trim_or_null (pf_description d),
                             p_price = pf_price d, p_stock = pf_stock d,
                             p_brand = trim_or_null (pf_brand d),
                             p_attributes = pf_attributes d \<rparr>;
                err = answer_error w s1;
                s2 = issue (Insert ''products'') s1
            in case err of
                 Some e \<Rightarrow> (Inl (Error (''Error creating product: '' @ e)), s2)
               | None \<Rightarrow>
                   (Inr product,
                    s2\<lparr>products := products s2 @ [product], next_id := next_id s2 + 1\<rparr>)))"



text \<open>
  \<open>deleteProduct\<close> removes the files of the product's assets, bucket by bucket, and
  then the product; the table removes the assets of a removed product with it.
\<close>

fun group_by_bucket :: "ProductAsset list \<Rightarrow> (string \<times> string list) list \<Rightarrow> (string \<times> string list) list" where
  "group_by_bucket [] groups = groups"
| "group_by_bucket (a # as) groups =
     group_by_bucket as
       (AList.update (a_storage_bucket a)
          ((case map_of groups (a_storage_bucket a) of None \<Rightarrow> [] | Some paths \<Rightarrow> paths)
             @ [a_storage_path a]) groups)"

definition deleteProduct :: "world \<Rightarrow> int \<Rightarrow> store \<Rightarrow> (exn + unit) \<times> store" where
  "deleteProduct w productId s =
     (let assets = (if answered w s
                    then filter (\<lambda>a. a_product_id a = productId) (product_assets s)
                    else []);
          s1 = issue (Select ''product_assets'') s;
          s2 = foldl (\<lambda>st g. issue (Storage_remove (snd g)) st) s1 (group_by_bucket assets []);
          err = answer_error w s2;
          s3 = issue (Delete ''products'') s2
      in case err of
           Some e \<Rightarrow> (Inl (Error (''Error deleting product: '' @ e)), s3)
         | None \<Rightarrow>
             (Inr (),
              s3\<lparr>products := filter (\<lambda>p. p_id p \<noteq> productId) (products s3),
                 product_assets :=
                   filter (\<lambda>a. a_product_id a \<noteq> productId) (product_assets s3)\<rparr>))"

subsection \<open>Assets\<close>

text \<open>The greatest \<open>sort_order\<close> among rows, if there is a row.\<close>

fun last_sort_order :: "ProductAsset list \<Rightarrow> int option" where
  "last_sort_order [] = None"
| "last_sort_order (a # as) =
     Some (case last_sort_order as of None \<Rightarrow> a_sort_order a
           | Some m \<Rightarrow> max (a_sort_order a) m)"

definition nextSortOrder :: "world \<Rightarrow> int \<Rightarrow> AssetSection \<Rightarrow> store \<Rightarrow> int" where
  "nextSortOrder w productId sec s =
     (case (if answered w s
            then last_sort_order
                   (filter (\<lambda>a. a_product_id a = productId \<and> a_section a = sec)
                      (product_assets s))
            else None) of
        None \<Rightarrow> 0 | Some m \<Rightarrow> m) + 1"

text \<open>
  \<open>update({ is_primary: false }).eq("product_id", productId).eq("section", "gallery")\<close>,
  and the same for \<open>is_secondary\<close>. The code never reads the answer of these updates:
  when the platform refuses one, the flags stay and the code goes on.
\<close>

definition unset_primary :: "int \<Rightarrow> ProductAsset list \<Rightarrow> ProductAsset list" where
  "unset_primary productId assets =
     map (\<lambda>a. if a_product_id a = productId \<and> a_section a = Gallery
               then a\<lparr>a_is_primary := False\<rparr> else a) assets"

definition unset_secondary :: "int \<Rightarrow> ProductAsset list \<Rightarrow> ProductAsset list" where
  "unset_secondary productId assets =
     map (\<lambda>a. if a_product_id a = productId \<and> a_section a = Gallery
               then a\<lparr>a_is_secondary := False\<rparr> else a) assets"

definition clear_primary :: "world \<Rightarrow> int \<Rightarrow> store \<Rightarrow> store" where
  "clear_primary w productId s =
     (if answered w s
      then (issue (Update ''product_assets'') s)
             \<lparr>product_assets := unset_primary productId (product_assets s)\<rparr>
      else issue (Update ''product_assets'') s)"

definition clear_secondary :: "world \<Rightarrow> int \<Rightarrow> store \<Rightarrow> store" where
  "clear_secondary w productId s =
     (if answered w s
      then (issue (Update ''product_assets'') s)
             \<lparr>product_assets := unset_secondary productId (product_assets s)\<rparr>
      else issue (Update ''product_assets'') s)"

text \<open>\<open>update({ is_primary: true }).eq("id", assetId)\<close>, and the same for \<open>is_secondary\<close>.\<close>

definition set_primary :: "int \<Rightarrow> ProductAsset list \<Rightarrow> ProductAsset list" where
  "set_primary assetId assets =
     map (\<lambda>a. if a_id a = assetId then a\<lparr>a_is_primary := True\<rparr> else a) assets"

definition set_secondary :: "int \<Rightarrow> ProductAsset list \<Rightarrow> ProductAsset list" where
  "set_secondary assetId assets =
     map (\<lambda>a. if a_id a = assetId then a\<lparr>a_is_secondary := True\<rparr> else a) assets"

text \<open>
  \<open>update({ sort_order: i }).eq("id", assetId).eq("product_id", productId).eq("section", section)\<close>
\<close>

definition set_sort_order ::
  "int \<Rightarrow> int \<Rightarrow> AssetSection \<Rightarrow> int \<Rightarrow> ProductAsset list \<Rightarrow> ProductAsset list" where
  "set_sort_order assetId productId sec i assets =
     map (\<lambda>a. if a_id a = assetId \<and> a_product_id a = productId \<and> a_section a = sec
               then a\<lparr>a_sort_order := i\<rparr> else a) assets"

record File_object =
  file_name :: string
  file_type :: string
  file_size :: int

record upload_options =
  uo_kind :: AssetKind
  uo_section :: AssetSection
  uo_title :: "string option"
  uo_alt :: "string option"
  uo_is_primary :: "bool option"

definition uploadProductAsset ::
  "world \<Rightarrow> int \<Rightarrow> File_object \<Rightarrow> upload_options \<Rightarrow> store \<Rightarrow> (exn + ProductAsset) \<times> store" where
  "uploadProductAsset w productId file opts s =
     (let bucket = ''products'';
          (timestamp, s1) = Date_now w s;
          sanitizedName = sanitize_filename (file_name file);
          path = toString productId @ ''/'' @ section_name (uo_section opts) @ ''/''
                   @ toString timestamp @ ''-'' @ sanitizedName;
          uploadError = answer_error w s1;
          s2 = issue (Storage_upload path False) s1
      in case uploadError of
           Some e \<Rightarrow> (Inl (Error (''Error uploading file: '' @ e)), s2)
         | None \<Rightarrow>
             (let s3 = (if uo_is_primary opts = Some True \<and> uo_section opts = Gallery
                        then clear_primary w productId s2 else s2);
                  order = nextSortOrder w productId (uo_section opts) s3;
                  s4 = issue (Select ''product_assets'') s3;
                  asset = \<lparr> a_id = next_id s4, a_product_id = productId,
                            a_kind = uo_kind opts, a_section = uo_section opts,
                            a_storage_bucket = bucket, a_storage_path = path,
                            a_title = (if str_truthy (uo_title opts) then uo_title opts else None),
                            a_alt = (if str_truthy (uo_alt opts) then uo_alt opts else None),
                            a_sort_order = order,
                            a_is_primary = (uo_is_primary opts = Some True),
                            a_is_secondary = False,
                            a_filename = Some (file_name file),
                            a_mime_type = Some (file_type file),
                            a_file_size_bytes = Some (file_size file),
                            a_is_public = True \<rparr>;
                  dbError = answer_error w s4;
                  s5 = issue (Insert ''product_assets'') s4
              in case dbError of
                   Some e \<Rightarrow>
                     (Inl (Error (''Error saving asset: '' @ e)), issue (Storage_remove [path]) s5)
                 | None \<Rightarrow>
                     (Inr asset,
                      s5\<lparr>product_assets := product_assets s5 @ [asset],
                         next_id := next_id s5 + 1\<rparr>)))"

definition deleteProductAsset :: "world \<Rightarrow> int \<Rightarrow> store \<Rightarrow> (exn + unit) \<times> store" where
  "deleteProductAsset w assetId s =
     (let fetchError = answer_error w s;
          asset = single (filter (\<lambda>a. a_id a = assetId) (product_assets s));
          s1 = issue (Select ''product_assets'') s
      in if fetchError \<noteq> None \<or> asset = None then (Inl (Error ''Asset not found''), s1)
         else
           (let storageError = answer_error w s1;
                s2 = issue (Storage_remove [a_storage_path (the asset)]) s1;
                s3 = (case storageError of
                        Some e \<Rightarrow> console_error ''Error removing from storage:'' e s2
                      | None \<Rightarrow> s2);
                dbError = answer_error w s3;
                s4 = issue (Delete ''product_assets'') s3
            in case dbError of
                 Some e \<Rightarrow> (Inl (Error (''Error deleting asset: '' @ e)), s4)
               | None \<Rightarrow>
                   (Inr (),
                    s4\<lparr>product_assets :=
                         filter (\<lambda>a. a_id a \<noteq> assetId) (product_assets s4)\<rparr>)))"

text \<open>\<open>updateAssetOrder\<close>: the loop over the identifiers, from position \<open>i\<close> on.\<close>

fun updateAssetOrder_from ::
  "world \<Rightarrow> int \<Rightarrow> AssetSection \<Rightarrow> int \<Rightarrow> int list \<Rightarrow> store \<Rightarrow> (exn + unit) \<times> store" where
  "updateAssetOrder_from w productId sec i [] s = (Inr (), s)"
| "updateAssetOrder_from w productId sec i (assetId # rest) s =
     (let err = answer_error w s;
          s1 = issue (Update ''product_assets'') s
      in case err of
           Some e \<Rightarrow> (Inl (Error (''Error updating asset order: '' @ e)), s1)
         | None \<Rightarrow>
             updateAssetOrder_from w productId sec (i + 1) rest
               (s1\<lparr>product_assets :=
                    set_sort_order assetId productId sec i (product_assets s1)\<rparr>))"

definition updateAssetOrder ::
  "world \<Rightarrow> int \<Rightarrow> AssetSection \<Rightarrow> int list \<Rightarrow> store \<Rightarrow> (exn + unit) \<times> store" where
  "updateAssetOrder w productId sec assetIds s =
     updateAssetOrder_from w productId sec 0 assetIds s"

definition setAssetAsPrimary :: "world \<Rightarrow> int \<Rightarrow> store \<Rightarrow> (exn + unit) \<times> store" where
  "setAssetAsPrimary w assetId s =
     (let fetchError = answer_error w s;
          asset = single (filter (\<lambda>a. a_id a = assetId) (product_assets s));
          s1 = issue (Select ''product_assets'') s
      in if fetchError \<noteq> None \<or> asset = None then (Inl (Error ''Asset not found''), s1)
         else if a_section (the asset) \<noteq> Gallery
         then (Inl (Error ''Only gallery assets can be primary''), s1)
         else
           (let s2 = clear_primary w (a_product_id (the asset)) s1;
                err = answer_error w s2;
                s3 = issue (Update ''product_assets'') s2
            in case err of
                 Some e \<Rightarrow> (Inl (Error (''Error setting primary: '' @ e)), s3)
               | None \<Rightarrow>
                   (Inr (),
                    s3\<lparr>product_assets := set_primary assetId (product_assets s3)\<rparr>)))"

text \<open>\<open>assetId\<close> is a number or \<open>null\<close>; \<open>null\<close> and zero set no new secondary asset.\<close>

definition setAssetAsSecondary ::
  "world \<Rightarrow> int option \<Rightarrow> int \<Rightarrow> store \<Rightarrow> (exn + unit) \<times> store" where
  "setAssetAsSecondary w assetId productId s =
     (let s1 = clear_secondary w productId s
      in if assetId = None \<or> assetId = Some 0 then (Inr (), s1)
         else
           (let err = answer_error w s1;
                s2 = issue (Update ''product_assets'') s1
            in case err of
                 Some e \<Rightarrow> (Inl (Error (''Error setting secondary: '' @ e)), s2)
               | None \<Rightarrow>
                   (Inr (),
                    s2\<lparr>product_assets :=
                         set_secondary (the assetId) (product_assets s2)\<rparr>)))"

section \<open>Products (the admin product routes)\<close>

record UploadedFile =
  uf_storage_path :: string
  uf_kind :: AssetKind
  uf_filename :: string
  uf_mime_type :: string
  uf_file_size_bytes :: int
  uf_is_primary :: "bool option"
  uf_is_secondary :: "bool option"

record uploaded_files =
  gallery :: "UploadedFile list option"
  additional :: "UploadedFile list option"
  download :: "UploadedFile list option"

text \<open>
  \<open>RequestBody\<close> of both routes; the last three fields are read by the update only.
\<close>

record RequestBody =
  rb_name :: "string option"
  rb_slug :: "string option"
  rb_description :: "string option option"
  rb_brand :: "string option option"
  rb_price :: "real option option"
  rb_stock :: "real option"
  rb_category_id :: "int option"
  rb_subcategory_id :: "int option"
  rb_attributes :: "json option"
  rb_temp_upload_id :: "string option"
  rb_uploaded_files :: "uploaded_files option"
  rb_delete_assets :: "int list option"
  rb_set_primary_asset :: "int option"
  rb_set_secondary_asset :: "int option option"

subsection \<open>Moving an uploaded file and recording it as an asset\<close>

text \<open>
  \<open>moveFileAndCreateAsset\<close> is declared inside both handlers, with the same text but for
  the product's id and name, which are arguments here. Its two halves are written apart:
  the move of the file in the bucket, with its fallback, and the record of the asset in
  the table.
\<close>

definition move_file :: "world \<Rightarrow> string \<Rightarrow> string \<Rightarrow> string \<Rightarrow> store \<Rightarrow> (exn + unit) \<times> store" where
  "move_file w oldPath newPath name s =
     (let moveError = answer_error w s;
          s1 = issue (Storage_move oldPath newPath) s
      in case moveError of
           None \<Rightarrow> (Inr (), s1)
         | Some e \<Rightarrow>
             (let s2 = console_error
                         (''Error moving file '' @ oldPath @ '' to '' @ newPath @ '':'') e s1;
                  fileData = file_content w oldPath;
                  s3 = issue (Storage_download oldPath) s2
              in case fileData of
                   Some d \<Rightarrow>
                     (Inr (),
                      issue (Storage_remove [oldPath]) (issue (Storage_upload newPath True) s3))
                 | None \<Rightarrow> (Inl (Error (''Failed to move file: '' @ name)), s3)))"

definition create_asset_record ::
  "world \<Rightarrow> int \<Rightarrow> string \<Rightarrow> UploadedFile \<Rightarrow> AssetSection \<Rightarrow> string \<Rightarrow> bool \<Rightarrow> bool \<Rightarrow> store \<Rightarrow>
   (exn + unit) \<times> store" where
  "create_asset_record w productId productName file sec newPath isPrimary isSecondary s =
     (let order = nextSortOrder w productId sec s;
          s1 = issue (Select ''product_assets'') s;
          s2 = (if isPrimary then clear_primary w productId s1 else s1);
          s3 = (if isSecondary then clear_secondary w productId s2 else s2);
          asset = \<lparr> a_id = next_id s3, a_product_id = productId,
                    a_kind = uf_kind file, a_section = sec,
                    a_storage_bucket = ''products'', a_storage_path = newPath,
                    a_title = (if sec = Download then Some (uf_filename file) else None),
                    a_alt = (if sec \<noteq> Download then Some productName else None),
                    a_sort_order = order,
                    a_is_primary = isPrimary, a_is_secondary = isSecondary,
                    a_filename = Some (uf_filename file),
                    a_mime_type = Some (uf_mime_type file),
                    a_file_size_bytes = Some (uf_file_size_bytes file),
                    a_is_public = True \<rparr>;
          dbError = answer_error w s3;
          s4 = issue (Insert ''product_assets'') s3
      in case dbError of
           Some e \<Rightarrow>
             (Inl (Error (''Error saving asset: '' @ e)),
              console_error ''Error creating asset record:'' e s4)
         | None \<Rightarrow>
             (Inr (),
              s4\<lparr>product_assets := product_assets s4 @ [asset], next_id := next_id s4 + 1\<rparr>))"

definition moveFileAndCreateAsset ::
  "world \<Rightarrow> int \<Rightarrow> string \<Rightarrow> UploadedFile \<Rightarrow> AssetSection \<Rightarrow> bool \<Rightarrow> bool \<Rightarrow> store \<Rightarrow>
   (exn + unit) \<times> store" where
  "moveFileAndCreateAsset w productId productName file sec isPrimary isSecondary s =
     (let oldPath = uf_storage_path file;
          (timestamp, s1) = Date_now w s;
          sanitizedName = sanitize_filename (uf_filename file);
          newPath = toString productId @ ''/'' @ section_name sec @ ''/''
                      @ toString timestamp @ ''-'' @ sanitizedName
      in case move_file w oldPath newPath (uf_filename file) s1 of
           (Inl e, s2) \<Rightarrow> (Inl e, s2)
         | (Inr u, s2) \<Rightarrow>
             create_asset_record w productId productName file sec newPath isPrimary isSecondary s2)"

text \<open>
  The loops over the uploaded files: each file in its own \<open>try\<close>, whose \<open>catch\<close> writes
  a line to the console and goes on. Gallery files pass their flags; the other sections
  leave both flags at their default, false.
\<close>

fun process_files ::
  "world \<Rightarrow> int \<Rightarrow> string \<Rightarrow> AssetSection \<Rightarrow> string \<Rightarrow> UploadedFile list \<Rightarrow> store \<Rightarrow> store" where
  "process_files w productId productName sec line [] s = s"
| "process_files w productId productName sec line (file # files) s =
     (case moveFileAndCreateAsset w productId productName file sec
             (sec = Gallery \<and> uf_is_primary file = Some True)
             (sec = Gallery \<and> uf_is_secondary file = Some True) s of
        (Inl e, s') \<Rightarrow>
          process_files w productId productName sec line files
            (console_error line (exn_message e) s')
      | (Inr u, s') \<Rightarrow> process_files w productId productName sec line files s')"

text \<open>Removal of what is left under the temporary folder.\<close>

definition clean_temp :: "world \<Rightarrow> string \<Rightarrow> store \<Rightarrow> store" where
  "clean_temp w temp_upload_id s =
     (let prefix = ''temp/'' @ temp_upload_id;
          s1 = issue (Storage_list prefix) s
      in case listed_files w prefix of
           None \<Rightarrow> s1
         | Some names \<Rightarrow>
             if length names > 0
             then issue (Storage_remove (map (\<lambda>n. prefix @ ''/'' @ n) names)) s1
             else s1)"

fun join_comma :: "string list \<Rightarrow> string" where
  "join_comma [] = []"
| "join_comma [x] = x"
| "join_comma (x # xs) = x @ '', '' @ join_comma xs"

definition not_iterable :: exn where
  "not_iterable = TypeError ''undefined is not iterable''"

definition text_or_null :: "string option \<Rightarrow> string option" where
  "text_or_null x = (if str_truthy x then x else None)"


subsection \<open>POST /api/admin/products\<close>

text \<open>The data validated and stored by the creation, from the body of the request.\<close>

definition productData :: "RequestBody \<Rightarrow> string \<Rightarrow> PartialProductFormData" where
  "productData b slug =
     \<lparr> pp_name = rb_name b, pp_slug = Some slug,
       pp_description = Some (case rb_description b of None \<Rightarrow> None | Some d \<Rightarrow> text_or_null d),
       pp_price = rb_price b,
       pp_stock = Some (case rb_stock b of None \<Rightarrow> 0 | Some st \<Rightarrow> st),
       pp_brand = Some (case rb_brand b of None \<Rightarrow> None | Some d \<Rightarrow> text_or_null d),
       pp_category_id = rb_category_id b, pp_subcategory_id = rb_subcategory_id b,
       pp_attributes = Some (case rb_attributes b of
                               None \<Rightarrow> JObject []
                             | Some j \<Rightarrow> if json_truthy j then j else JObject []) \<rparr>"

text \<open>
  Validated data has a name, a slug, a category and a subcategory; \<open>complete\<close> reads it
  at the type \<open>createProduct\<close> declares.
\<close>

definition complete :: "PartialProductFormData \<Rightarrow> ProductFormData option" where
  "complete d =
     (case (pp_name d, pp_slug d, pp_category_id d, pp_subcategory_id d) of
        (Some n, Some sl, Some c, Some sc) \<Rightarrow>
          Some \<lparr> pf_name = n, pf_slug = sl,
                 pf_description = (case pp_description d of Some x \<Rightarrow> x | None \<Rightarrow> None),
                 pf_price = (case pp_price d of Some x \<Rightarrow> x | None \<Rightarrow> None),
                 pf_stock = (case pp_stock d of Some x \<Rightarrow> x | None \<Rightarrow> 0),
                 pf_brand = (case pp_brand d of Some x \<Rightarrow> x | None \<Rightarrow> None),
                 pf_category_id = c, pf_subcategory_id = sc,
                 pf_attributes = (case pp_attributes d of Some x \<Rightarrow> x | None \<Rightarrow> JObject []) \<rparr>
      | _ \<Rightarrow> None)"

definition products_POST_try ::
  "world \<Rightarrow> auth \<Rightarrow> RequestBody option \<Rightarrow> store \<Rightarrow> (exn + response) \<times> store" where
  "products_POST_try w a request_json s =
     (if user a = None then (Inr unauthorized, s)
      else case request_json of
        None \<Rightarrow> (Inl (SyntaxError (json_syntax_error w)), s)
      | Some b \<Rightarrow>
          if \<not> str_truthy (rb_slug b) \<and> rb_name b = None
          then (Inl (TypeError ''Cannot read properties of undefined (reading toLowerCase)''), s)
          else
            (let slug = (if str_truthy (rb_slug b) then the (rb_slug b)
                         else generateSlug (the (rb_name b)));
                 d = productData b slug;
                 errors = validateProductData d
             in if length errors > 0
                then (Inr (json_response 400 (failure_body (join_comma errors))), s)
                else case complete d of
                  None \<Rightarrow> (Inl (TypeError ''Cannot read properties of undefined''), s)
                | Some formData \<Rightarrow>
                    (case createProduct w formData s of
                       (Inl e, s1) \<Rightarrow> (Inl e, s1)
                     | (Inr product, s1) \<Rightarrow>
                         (case rb_uploaded_files b of
                            None \<Rightarrow> (Inl (TypeError ''Cannot read properties of undefined''), s1)
                          | Some files \<Rightarrow>
                              (case gallery files of
                                 None \<Rightarrow> (Inl not_iterable, s1)
                               | Some gs \<Rightarrow>
                                   (let s2 = process_files w (p_id product) (p_name product)
                                               Gallery ''Error processing gallery file:'' gs s1
                                    in case additional files of
                                         None \<Rightarrow> (Inl not_iterable, s2)
                                       | Some ads \<Rightarrow>
                                           (let s3 = process_files w (p_id product) (p_name product)
                                                       Additional
                                                       ''Error processing additional file:'' ads s2
                                            in case download files of
                                                 None \<Rightarrow> (Inl not_iterable, s3)
                                               | Some ds \<Rightarrow>
                                                   (let s4 = process_files w (p_id product)
                                                               (p_name product) Download
                                                               ''Error processing download file:''
                                                               ds s3;
                                                        s5 = clean_temp w
                                                               (case rb_temp_upload_id b of
                                                                  None \<Rightarrow> ''undefined''
                                                                | Some t \<Rightarrow> t) s4
                                                    in (Inr (json_response 201
                                                          (JObject
                                                            [(''success'', JBool True),
                                                             (''product'', product_json product)])),
                                                        s5)))))))))"

definition products_POST ::
  "world \<Rightarrow> auth \<Rightarrow> RequestBody option \<Rightarrow> store \<Rightarrow> response \<times> store" where
  "products_POST w a request_json s =
     catch_logged ''Error creating product:'' (products_POST_try w a request_json s)"

subsection \<open>/api/admin/products/[id]\<close>














text \<open>The slug of a creation request: the one given, or the one made from the name.\<close>

definition effective_slug :: "RequestBody \<Rightarrow> string" where
  "effective_slug b =
     (if str_truthy (rb_slug b) then the (rb_slug b) else generateSlug (the (rb_name b)))"

definition no_files :: uploaded_files where
  "no_files = \<lparr> gallery = Some [], additional = Some [], download = Some [] \<rparr>"

definition sample_body :: RequestBody where
  "sample_body =
     \<lparr> rb_name = Some ''Silla Eames'', rb_slug = None, rb_description = None,
       rb_brand = None, rb_price = Some (Some 150), rb_stock = Some 2,
       rb_category_id = Some 1, rb_subcategory_id = Some 2, rb_attributes = None,
       rb_temp_upload_id = Some ''t1'', rb_uploaded_files = Some no_files,
       rb_delete_assets = None, rb_set_primary_asset = None,
       rb_set_secondary_asset = None \<rparr>"

text \<open>The calls on the file bucket among the calls issued from a store on.\<close>

fun is_storage_call :: "call \<Rightarrow> bool" where
  "is_storage_call (Select t) = False"
| "is_storage_call (Insert t) = False"
| "is_storage_call (Update t) = False"
| "is_storage_call (Delete t) = False"
| "is_storage_call Auth_signInWithPassword = False"
| "is_storage_call c = True"

definition calls_since :: "store \<Rightarrow> store \<Rightarrow> call list" where
  "calls_since s s' = drop (length (calls s)) (calls s')"

definition final_path :: "world \<Rightarrow> int \<Rightarrow> UploadedFile \<Rightarrow> AssetSection \<Rightarrow> store \<Rightarrow> string" where
  "final_path w productId file sec s =
     toString productId @ ''/'' @ section_name sec @ ''/'' @ toString (now w (ticks s))
       @ ''-'' @ sanitize_filename (uf_filename file)"

text \<open>The store when \<open>moveFileAndCreateAsset\<close> has moved the file, or has given up.\<close>

definition moved :: "world \<Rightarrow> int \<Rightarrow> UploadedFile \<Rightarrow> AssetSection \<Rightarrow> store \<Rightarrow> store" where
  "moved w productId file sec s =
     snd (move_file w (uf_storage_path file) (final_path w productId file sec s)
            (uf_filename file) (snd (Date_now w s)))"

definition sample_file :: UploadedFile where
  "sample_file =
     \<lparr> uf_storage_path = ''temp/t1/gallery/1-a.png'', uf_kind = Image,
       uf_filename = ''a.png'', uf_mime_type = ''image/png'', uf_file_size_bytes = 2048,
       uf_is_primary = Some True, uf_is_secondary = None \<rparr>"

text \<open>A platform that refuses the first call it is given and has lost the file.\<close>

definition failing_world :: world where
  "failing_world =
     sample_world\<lparr> failure := (\<lambda>n. if n = 0 then Some ''Object not found'' else None),
                    file_content := (\<lambda>p. None) \<rparr>"

definition refusing_world :: world where
  "refusing_world =
     sample_world\<lparr> failure := (\<lambda>n. if n = 0 then Some ''The resource already exists'' else None) \<rparr>"

section \<open>The primary image of a gallery\<close>

text \<open>The gallery assets of a product that carry \<open>is_primary\<close>.\<close>

definition gallery_primaries :: "int \<Rightarrow> ProductAsset list \<Rightarrow> ProductAsset list" where
  "gallery_primaries productId assets =
     filter (\<lambda>a. a_product_id a = productId \<and> a_section a = Gallery \<and> a_is_primary a) assets"

text \<open>At most one primary gallery asset for every product that has assets.\<close>

definition one_primary :: "ProductAsset list \<Rightarrow> bool" where
  "one_primary assets =
     list_all (\<lambda>productId. length (gallery_primaries productId assets) \<le> 1)
       (remdups (map a_product_id assets))"

text \<open>
  The table gives every asset an identifier of its own, below the next one it will give.
  The invariant of the assets: identifiers in order, and at most one primary gallery asset
  for every product.
\<close>

definition assets_ok :: "int \<Rightarrow> ProductAsset list \<Rightarrow> bool" where
  "assets_ok n assets =
     (distinct (map a_id assets) \<and> list_all (\<lambda>a. a_id a < n) assets \<and> one_primary assets)"

definition primary_invariant :: "store \<Rightarrow> bool" where
  "primary_invariant s = assets_ok (next_id s) (product_assets s)"

definition sample_asset :: ProductAsset where
  "sample_asset =
     \<lparr> a_id = 5, a_product_id = 3, a_kind = Image, a_section = Gallery,
       a_storage_bucket = ''products'', a_storage_path = ''3/gallery/1-front.png'',
       a_title = None, a_alt = Some ''Silla Eames'', a_sort_order = 1,
       a_is_primary = True, a_is_secondary = False, a_filename = Some ''front.png'',
       a_mime_type = Some ''image/png'', a_file_size_bytes = Some 1024, a_is_public = True \<rparr>"

definition sample_asset2 :: ProductAsset where
  "sample_asset2 =
     sample_asset\<lparr> a_id := 6, a_storage_path := ''3/gallery/2-side.png'', a_sort_order := 2,
                    a_is_primary := False, a_filename := Some ''side.png'' \<rparr>"

definition sample_manual :: ProductAsset where
  "sample_manual =
     sample_asset\<lparr> a_id := 7, a_kind := File, a_section := Download,
                    a_storage_path := ''3/download/3-manual.pdf'', a_alt := None,
                    a_title := Some ''manual.pdf'', a_is_primary := False,
                    a_filename := Some ''manual.pdf'', a_mime_type := Some ''application/pdf'' \<rparr>"

definition asset_store :: store where
  "asset_store = sample_store\<lparr> product_assets := [sample_asset, sample_asset2, sample_manual] \<rparr>"

text \<open>The gallery assets of a product that carry \<open>is_secondary\<close>.\<close>

definition gallery_secondaries :: "int \<Rightarrow> ProductAsset list \<Rightarrow> ProductAsset list" where
  "gallery_secondaries productId assets =
     filter (\<lambda>a. a_product_id a = productId \<and> a_section a = Gallery \<and> a_is_secondary a) assets"

section \<open>The product listing route\<close>






subsection \<open>src/lib/data/categories.ts\<close>





subsection \<open>\<open>enrichProductsWithImages\<close> (src/lib/data/products.ts)\<close>






subsection \<open>The route\<close>










section \<open>Sign in (src/pages/api/auth/signin.ts)\<close>

text \<open>
  \<open>request.formData()\<close> gives the fields of the form, or throws when the body is not a
  form; the fields are texts. The answers carry no header of their own, so the platform
  marks their body as plain text.
\<close>

definition text_response :: "nat \<Rightarrow> json \<Rightarrow> response" where
  "text_response st b =
     \<lparr> status = st, headers = [(''Content-Type'', ''text/plain;charset=UTF-8'')], body = b \<rparr>"

definition signin_body :: "bool \<Rightarrow> string \<Rightarrow> json" where
  "signin_body ok msg = JObject [(''success'', JBool ok), (''message'', JString msg)]"




section \<open>The catch blocks of the route handlers\<close>

text \<open>The message of an error body: its \<open>error\<close> field, or else its \<open>message\<close> field.\<close>

definition text_field :: "string \<Rightarrow> (string \<times> json) list \<Rightarrow> string option" where
  "text_field key row =
     (case map_of row key of
        Some (JString m) \<Rightarrow> Some m
      | other \<Rightarrow> None)"

definition error_message :: "json \<Rightarrow> string option" where
  "error_message b =
     (case b of
        JObject row \<Rightarrow>
          (case text_field ''error'' row of
             Some m \<Rightarrow> Some m
           | None \<Rightarrow> text_field ''message'' row)
      | other \<Rightarrow> None)"



definition late_failing_world :: world where
  "late_failing_world =
     sample_world\<lparr> failure := (\<lambda>n. if n = 1 then Some ''connection reset'' else None) \<rparr>"

text \<open>A platform that refuses the third call it is given.\<close>

definition third_failing_world :: world where
  "third_failing_world =
     sample_world\<lparr> failure := (\<lambda>n. if n = 2 then Some ''connection reset'' else None) \<rparr>"
section \<open>Rounding to a double\<close>

lemma bit_length_bound: "n < 2 ^ k \<Longrightarrow> bit_length n \<le> int k"
proof (induction k arbitrary: n)
  case 0
  then show ?case by (simp add: bit_length.simps [of n])
next
  case (Suc k)
  show ?case
  proof (cases "n \<le> 0")
    case True
    then show ?thesis by (simp add: bit_length.simps [of n])
  next
    case False
    from Suc.prems have "n div 2 < 2 ^ k" by simp
    from Suc.IH [OF this] False show ?thesis by (simp add: bit_length.simps [of n])
  qed
qed

lemma bit_length_pos: "0 < n \<Longrightarrow> 1 \<le> bit_length n"
proof -
  assume n: "0 < n"
  have "0 \<le> bit_length m" for m
    by (induction m rule: bit_length.induct) (simp add: bit_length.simps)
  from this [of "n div 2"] n show ?thesis by (simp add: bit_length.simps [of n])
qed

lemma round_half_even_of_int [simp]: "round_half_even (of_int m) = m"
  by (simp add: round_half_even_def)

text \<open>A whole number below \<open>2 ^ 53\<close> is a double.\<close>

lemma to_double_positive:
  assumes "0 < i" "i < 2 ^ 53"
  shows "to_double (of_int i) = Finite (of_int i)"
proof -
  define b where "b = bit_length i"
  have b: "1 \<le> b" "b \<le> 53"
    using bit_length_pos [OF assms(1)] bit_length_bound [OF assms(2)] by (simp_all add: b_def)
  have a: "(1::real) \<le> of_int i" using assms(1) by simp
  have e: "exponent \<bar>of_int i\<bar> = b - 1"
    using a assms(1) by (simp add: exponent_def b_def)
  define k where "k = nat (53 - b)"
  have ulp: "pow2 (max (b - 1) (- 1022) - 52) = 1 / 2 ^ k"
    using b by (auto simp: pow2_def k_def max_def)
  have q: "\<bar>real_of_int i\<bar> / (1 / 2 ^ k) = of_int (i * 2 ^ k)"
    using assms(1) by simp
  have small: "\<not> pow2 1024 \<le> real_of_int i"
  proof -
    have "real_of_int i < 2 ^ 53" using assms(2) by (metis of_int_less_numeral_power_cancel_iff)
    also have "\<dots> \<le> (2::real) ^ 1024" by (rule power_increasing) simp_all
    finally show ?thesis by (simp add: pow2_def)
  qed
  have y: "of_int (round_half_even (\<bar>real_of_int i\<bar> / (1 / 2 ^ k))) * (1 / 2 ^ k) = real_of_int i"
    unfolding q round_half_even_of_int by simp
  show ?thesis
    using assms(1) small
    unfolding to_double_def e ulp Let_def y by simp
qed

lemma to_double_of_int:
  assumes "\<bar>i\<bar> < 2 ^ 53"
  shows "to_double (of_int i) = Finite (of_int i)"
proof (cases "i = 0")
  case True
  then show ?thesis by (simp add: to_double_def)
next
  case False
  show ?thesis
  proof (cases "0 < i")
    case True
    with assms show ?thesis by (simp add: to_double_positive)
  next
    case neg: False
    with False assms have p: "0 < - i" "- i < 2 ^ 53" by simp_all
    have "to_double (- of_int (- i)) = Finite (of_int i)"
      using to_double_positive [OF p] p(1)
      by (simp add: to_double_def Let_def split: if_splits)
    then show ?thesis by simp
  qed
qed

section \<open>Properties of the cart\<close>

lemma clampQuantity_valid: "valid_quantity (clampQuantity v)"
proof (cases v)
  case (Finite r)
  have "of_int \<lfloor>r\<rfloor> \<le> r" by simp
  moreover have "1 \<le> r \<Longrightarrow> (1::real) \<le> of_int \<lfloor>r\<rfloor>"
    by (metis of_int_1 of_int_le_iff le_floor_iff)
  ultimately show ?thesis using Finite
    by (auto simp: clampQuantity_def MIN_QUANTITY_def MAX_QUANTITY_def num_gt_def)
qed (simp_all add: clampQuantity_def MIN_QUANTITY_def MAX_QUANTITY_def num_gt_def)

lemma update_quantities_valid:
  "cart_quantities_valid c \<Longrightarrow> valid_quantity (quantity v) \<Longrightarrow>
   cart_quantities_valid (AList.update k v c)"
  by (induction c) (auto simp: cart_quantities_valid_def)

lemma delete_quantities_valid:
  "cart_quantities_valid c \<Longrightarrow> cart_quantities_valid (AList.delete k c)"
  by (induction c) (auto simp: cart_quantities_valid_def)

lemma map_of_quantity_valid:
  "cart_quantities_valid c \<Longrightarrow> map_of c k = Some item \<Longrightarrow> valid_quantity (quantity item)"
  by (induction c) (auto simp: cart_quantities_valid_def split: if_splits)

lemma decrement_valid:
  "valid_quantity q \<Longrightarrow> num_gt q MIN_QUANTITY \<Longrightarrow> valid_quantity (num_sub q (Finite 1))"
proof (cases q)
  case (Finite r)
  assume v: "valid_quantity q" and g: "num_gt q MIN_QUANTITY"
  from v Finite obtain n :: int where n: "r = of_int n" "1 \<le> r" "r \<le> 99"
    by (metis valid_quantity.simps(1))
  from g Finite n have "1 < n" by (simp add: num_gt_def MIN_QUANTITY_def)
  then have "(1::real) \<le> of_int (n - 1)" by simp
  moreover have "\<lfloor>(of_int (n - 1))::real\<rfloor> = n - 1" by (rule floor_of_int)
  moreover have "to_double (of_int n + - 1) = Finite (of_int (n - 1))"
  proof -
    from n have "\<bar>n - 1\<bar> < 2 ^ 53" by simp
    from to_double_of_int [OF this] show ?thesis by simp
  qed
  ultimately show ?thesis using Finite n
    by (simp add: num_sub_def)
qed simp_all

lemma addToCart_valid:
  "cart_quantities_valid c \<Longrightarrow> cart_quantities_valid (addToCart p q c)"
  by (auto simp: addToCart_def Let_def with_quantity_def clampQuantity_valid
      intro!: update_quantities_valid split: option.splits)

lemma increaseQuantity_valid:
  "cart_quantities_valid c \<Longrightarrow> cart_quantities_valid (increaseQuantity k c)"
  by (auto simp: increaseQuantity_def Let_def clampQuantity_valid
      intro!: update_quantities_valid split: option.splits)

lemma decreaseQuantity_valid:
  "cart_quantities_valid c \<Longrightarrow> cart_quantities_valid (decreaseQuantity k c)"
  by (auto simp: decreaseQuantity_def
      intro!: update_quantities_valid decrement_valid
      dest: map_of_quantity_valid split: option.splits)

lemma setQuantity_valid:
  "cart_quantities_valid c \<Longrightarrow> cart_quantities_valid (setQuantity k q c)"
  by (auto simp: setQuantity_def Let_def clampQuantity_valid
      intro!: update_quantities_valid split: option.splits)

text \<open>
  Claim C7. \<open>clampQuantity\<close> returns a whole number from \<open>MIN_QUANTITY = 1\<close> to
  \<open>MAX_QUANTITY = 99\<close> for every number, \<open>NaN\<close> and the infinities included; and when
  every quantity stored in the cart is a whole number from 1 to 99, it is so again after
  \<open>addToCart\<close>, \<open>increaseQuantity\<close>, \<open>decreaseQuantity\<close>, \<open>setQuantity\<close>,
  \<open>removeFromCart\<close> and \<open>clearCart\<close>, whatever their arguments.
\<close>

theorem cart_quantity_invariant:
  "valid_quantity (clampQuantity v) \<and>
   (cart_quantities_valid c \<longrightarrow>
      cart_quantities_valid (addToCart p qa c) \<and>
      cart_quantities_valid (increaseQuantity k c) \<and>
      cart_quantities_valid (decreaseQuantity k c) \<and>
      cart_quantities_valid (setQuantity k q c) \<and>
      cart_quantities_valid (removeFromCart k c) \<and>
      cart_quantities_valid (clearCart c))"
proof (intro conjI impI)
  show "valid_quantity (clampQuantity v)" by (rule clampQuantity_valid)
next
  assume ok: "cart_quantities_valid c"
  show "cart_quantities_valid (addToCart p qa c)" using ok by (rule addToCart_valid)
  show "cart_quantities_valid (increaseQuantity k c)" using ok by (rule increaseQuantity_valid)
  show "cart_quantities_valid (decreaseQuantity k c)" using ok by (rule decreaseQuantity_valid)
  show "cart_quantities_valid (setQuantity k q c)" using ok by (rule setQuantity_valid)
  show "cart_quantities_valid (removeFromCart k c)"
    using ok by (simp add: removeFromCart_def delete_quantities_valid)
  show "cart_quantities_valid (clearCart c)"
    by (simp add: clearCart_def cart_quantities_valid_def)
qed

theorem cart_quantity_invariant_witness:
  "valid_quantity (clampQuantity NaN) \<and>
   cart_quantities_valid sample_cart \<and>
   cart_quantities_valid (addToCart sample_item (Some (Finite 5)) sample_cart) \<and>
   cart_quantities_valid (increaseQuantity ''7'' sample_cart) \<and>
   cart_quantities_valid (decreaseQuantity ''7'' sample_cart) \<and>
   cart_quantities_valid (setQuantity ''7'' PosInfinity sample_cart) \<and>
   cart_quantities_valid (removeFromCart ''7'' sample_cart) \<and>
   cart_quantities_valid (clearCart sample_cart)"
proof -
  have ok: "cart_quantities_valid sample_cart"
    by (simp add: sample_cart_def cart_quantities_valid_def with_quantity_def)
  show ?thesis
    using ok
      cart_quantity_invariant [of NaN sample_cart sample_item "Some (Finite 5)" "''7''" PosInfinity]
    by simp
qed

section \<open>Effects on the store\<close>

lemma calls_issue [simp]: "calls (issue c s) = calls s @ [c]"
  by (simp add: issue_def)

lemma tables_issue [simp]:
  "categories (issue c s) = categories s"
  "subcategories (issue c s) = subcategories s"
  "products (issue c s) = products s"
  "product_assets (issue c s) = product_assets s"
  "next_id (issue c s) = next_id s"
  "console (issue c s) = console s"
  "ticks (issue c s) = ticks s"
  by (simp_all add: issue_def)

lemma calls_console_error [simp]: "calls (console_error l d s) = calls s"
  by (simp add: console_error_def)

lemma tables_console_error [simp]:
  "categories (console_error l d s) = categories s"
  "subcategories (console_error l d s) = subcategories s"
  "products (console_error l d s) = products s"
  "product_assets (console_error l d s) = product_assets s"
  "next_id (console_error l d s) = next_id s"
  "console (console_error l d s) = console s @ [(l, d)]"
  "ticks (console_error l d s) = ticks s"
  by (simp_all add: console_error_def)

lemma calls_clear_primary [simp]:
  "calls (clear_primary w pid s) = calls s @ [Update ''product_assets'']"
  by (simp add: clear_primary_def)

lemma calls_clear_secondary [simp]:
  "calls (clear_secondary w pid s) = calls s @ [Update ''product_assets'']"
  by (simp add: clear_secondary_def)

lemma next_id_clear [simp]:
  "next_id (clear_primary w pid s) = next_id s"
  "next_id (clear_secondary w pid s) = next_id s"
  by (simp_all add: clear_primary_def clear_secondary_def)

lemma console_clear [simp]:
  "console (clear_primary w pid s) = console s"
  "console (clear_secondary w pid s) = console s"
  by (simp_all add: clear_primary_def clear_secondary_def)

lemma assets_clear:
  "product_assets (clear_primary w pid s) =
     (if answered w s then unset_primary pid (product_assets s) else product_assets s)"
  "product_assets (clear_secondary w pid s) =
     (if answered w s then unset_secondary pid (product_assets s) else product_assets s)"
  by (simp_all add: clear_primary_def clear_secondary_def)

lemma calls_since_append [simp]: "calls_since s (s'\<lparr>calls := calls s @ cs\<rparr>) = cs"
  by (simp add: calls_since_def)

section \<open>Properties of the product listing\<close>

lemma pageSize_normalized:
  "\<exists>r. pageSize (normalizePagination pg) = Finite r \<and> 1 \<le> r \<and> r \<le> 50"
proof (cases "pageSize_arg pg")
  case None
  then show ?thesis
    by (simp add: normalizePagination_def Let_def DEFAULT_PAGE_SIZE_def MAX_PAGE_SIZE_def num_gt_def)
next
  case (Some a)
  then show ?thesis
    by (cases a)
       (auto simp: normalizePagination_def Let_def DEFAULT_PAGE_SIZE_def MAX_PAGE_SIZE_def num_gt_def)
qed

lemma page_normalized:
  "num_le (Finite 1) (page (normalizePagination pg))"
proof (cases "page_arg pg")
  case None
  then show ?thesis
    by (simp add: normalizePagination_def Let_def num_le_def)
next
  case (Some a)
  then show ?thesis
    by (cases a) (auto simp: normalizePagination_def Let_def num_le_def)
qed

lemma page_requested:
  "num_gt (page (normalizePagination pg)) (Finite 1) \<Longrightarrow>
   page_arg pg = Some (page (normalizePagination pg))"
proof (cases "page_arg pg")
  case None
  assume "num_gt (page (normalizePagination pg)) (Finite 1)"
  with None show ?thesis
    by (simp add: normalizePagination_def Let_def num_gt_def)
next
  case (Some a)
  assume "num_gt (page (normalizePagination pg)) (Finite 1)"
  with Some show ?thesis
    by (cases a) (auto simp: normalizePagination_def Let_def num_gt_def split: if_splits)
qed

lemma above_ceiling_above_one:
  assumes "num_gt (Math_ceil q) (Finite 0)" and "num_gt p (Math_ceil q)"
  shows "num_gt p (Finite 1)"
proof (cases q)
  case (Finite z)
  with assms(1) have "0 < \<lceil>z\<rceil>" by (simp add: num_gt_def)
  then have c: "(1::real) \<le> of_int \<lceil>z\<rceil>" by linarith
  show ?thesis
  proof (cases p)
    case (Finite y)
    with assms(2) \<open>q = Finite z\<close> have "of_int \<lceil>z\<rceil> < y" by (simp add: num_gt_def)
    with c have "1 < y" by linarith
    with Finite show ?thesis by (simp add: num_gt_def)
  qed (use assms(2) \<open>q = Finite z\<close> in \<open>simp_all add: num_gt_def\<close>)
next
  case NaN
  with assms(1) show ?thesis by (simp add: num_gt_def)
next
  case NegInfinity
  with assms(1) show ?thesis by (simp add: num_gt_def)
next
  case PosInfinity
  with assms(2) show ?thesis by (cases p) (simp_all add: num_gt_def)
qed

lemma beyond_pages_above_one:
  assumes "num_gt p (totalPages_spec t ps)" "num_gt (totalPages_spec t ps) (Finite 0)"
  shows "num_gt p (Finite 1)"
proof (cases "num_gt t (Finite 0)")
  case True
  with assms above_ceiling_above_one [of "num_div t ps" p] show ?thesis
    by (simp add: totalPages_spec_def)
next
  case False
  with assms(2) show ?thesis by (simp add: totalPages_spec_def num_gt_def)
qed

lemma getProducts_reports:
  "fst (getProducts line w sc f pg s) = Inr r \<Longrightarrow>
   res_page r = page (normalizePagination pg) \<and>
   res_pageSize r = pageSize (normalizePagination pg) \<and>
   total r = num_or (count_answer w \<lparr> q_scope = sc, q_filters = f, q_range = None \<rparr>) (Finite 0) \<and>
   totalPages r =
     totalPages_spec
       (num_or (count_answer w \<lparr> q_scope = sc, q_filters = f, q_range = None \<rparr>) (Finite 0))
       (pageSize (normalizePagination pg))"
  by (auto simp: getProducts_def Let_def totalPages_spec_def split: if_splits option.splits)

lemma getProducts_beyond:
  "num_gt (page (normalizePagination pg))
     (totalPages_spec
       (num_or (count_answer w \<lparr> q_scope = sc, q_filters = f, q_range = None \<rparr>) (Finite 0))
       (pageSize (normalizePagination pg))) \<Longrightarrow>
   num_gt
     (totalPages_spec
       (num_or (count_answer w \<lparr> q_scope = sc, q_filters = f, q_range = None \<rparr>) (Finite 0))
       (pageSize (normalizePagination pg))) (Finite 0) \<Longrightarrow>
   fst (getProducts line w sc f pg s) =
     Inr \<lparr> items = [], res_page = page (normalizePagination pg),
           res_pageSize = pageSize (normalizePagination pg),
           total = num_or (count_answer w \<lparr> q_scope = sc, q_filters = f, q_range = None \<rparr>)
                     (Finite 0),
           totalPages =
             totalPages_spec
               (num_or (count_answer w \<lparr> q_scope = sc, q_filters = f, q_range = None \<rparr>)
                  (Finite 0))
               (pageSize (normalizePagination pg)) \<rparr>"
  by (simp add: getProducts_def Let_def totalPages_spec_def)

lemma getProducts_paginated:
  "listing_paginated w sc f pg (getProducts line w sc f pg s)"
proof -
  obtain r where r: "pageSize (normalizePagination pg) = Finite r" "1 \<le> r" "r \<le> 50"
    using pageSize_normalized by blast
  have bounds: "num_le (Finite 1) (pageSize (normalizePagination pg))"
    "num_le (pageSize (normalizePagination pg)) MAX_PAGE_SIZE"
    using r by (auto simp: num_le_def MAX_PAGE_SIZE_def)
  show ?thesis
    unfolding listing_paginated_def Let_def
  proof (intro conjI impI)
    show "num_le (Finite 1) (page (normalizePagination pg))" by (rule page_normalized)
    show "num_le (Finite 1) (pageSize (normalizePagination pg))" by (rule bounds)
    show "num_le (pageSize (normalizePagination pg)) MAX_PAGE_SIZE" by (rule bounds)
    show "case fst (getProducts line w sc f pg s) of
            Inl e \<Rightarrow> True
          | Inr ra \<Rightarrow>
              res_page ra = page (normalizePagination pg) \<and>
              res_pageSize ra = pageSize (normalizePagination pg) \<and>
              total ra =
                num_or (count_answer w \<lparr> q_scope = sc, q_filters = f, q_range = None \<rparr>)
                  (Finite 0) \<and>
              totalPages ra =
                totalPages_spec
                  (num_or (count_answer w \<lparr> q_scope = sc, q_filters = f, q_range = None \<rparr>)
                     (Finite 0))
                  (pageSize (normalizePagination pg))"
      using getProducts_reports [of line w sc f pg s] by (simp split: sum.splits)
  next
    assume a: "num_gt (page (normalizePagination pg))
        (totalPages_spec
          (num_or (count_answer w \<lparr> q_scope = sc, q_filters = f, q_range = None \<rparr>) (Finite 0))
          (pageSize (normalizePagination pg))) \<and>
       num_gt
        (totalPages_spec
          (num_or (count_answer w \<lparr> q_scope = sc, q_filters = f, q_range = None \<rparr>) (Finite 0))
          (pageSize (normalizePagination pg))) (Finite 0)"
    then show "fst (getProducts line w sc f pg s) =
       Inr \<lparr> items = [], res_page = page (normalizePagination pg),
             res_pageSize = pageSize (normalizePagination pg),
             total = num_or (count_answer w \<lparr> q_scope = sc, q_filters = f, q_range = None \<rparr>)
                       (Finite 0),
             totalPages =
               totalPages_spec
                 (num_or (count_answer w \<lparr> q_scope = sc, q_filters = f, q_range = None \<rparr>)
                    (Finite 0))
                 (pageSize (normalizePagination pg)) \<rparr>"
      by (simp add: getProducts_beyond)
    from a show "page_arg pg = Some (page (normalizePagination pg))"
      using beyond_pages_above_one page_requested by blast
  qed
qed

text \<open>
  Claim C3. For every call of \<open>getProductsByCategory\<close> and of
  \<open>getProductsBySubcategory\<close>: the normalised page is at least 1 and the normalised page
  size lies from 1 to 50; a returned result reports the number of pages as the ceiling of
  \<open>total / pageSize\<close>, the quotient being the one of doubles, when the total is positive
  and as 0 otherwise; and whenever the normalised page exceeds a positive number of pages,
  the call returns a result with no items, the page that was asked for, the normalised
  page size, the total and the number of pages.
\<close>

theorem listing_pagination:
  "listing_paginated w (By_category categoryId) filters pagination
     (getProductsByCategory w categoryId filters pagination s) \<and>
   listing_paginated w (By_subcategory subcategoryId) filters pagination
     (getProductsBySubcategory w subcategoryId filters pagination s)"
  by (simp add: getProductsByCategory_def getProductsBySubcategory_def getProducts_paginated)

lemma five_halves: "to_double (5 / 2) = Finite (5 / 2)"
proof -
  have e: "exponent (5 / 2) = 1"
    by (simp add: exponent_def bit_length.simps [of 2] bit_length.simps [of 1]
        bit_length.simps [of 0])
  have "\<not> (2::real) ^ 1024 \<le> 5 / 2"
  proof -
    have "(2::real) ^ 2 \<le> 2 ^ 1024" by (rule power_increasing) simp_all
    then show ?thesis by simp
  qed
  then show ?thesis
    by (simp add: to_double_def e pow2_def round_half_even_def Let_def)
qed

lemma six_by_1_2: "to_double (6 / double_1_2) = Finite 5"
proof -
  have e: "exponent (27021597764222976 / 5404319552844595) = 2"
    by (simp add: exponent_def bit_length.simps [of 5] bit_length.simps [of 2]
        bit_length.simps [of 1] bit_length.simps [of 0])
  have "\<not> (2::real) ^ 1024 \<le> 5"
  proof -
    have "(2::real) ^ 3 \<le> 2 ^ 1024" by (rule power_increasing) simp_all
    then show ?thesis by simp
  qed
  then show ?thesis
    by (simp add: double_1_2_def to_double_def e pow2_def round_half_even_def Let_def)
qed

theorem listing_pagination_witness:
  "fst (getProductsByCategory sample_world 3 sample_filters
          \<lparr> page_arg = Some (Finite 4), pageSize_arg = Some (Finite 2) \<rparr> empty_store) =
     Inr \<lparr> items = [], res_page = Finite 4, res_pageSize = Finite 2,
           total = Finite 5, totalPages = Finite 3 \<rparr> \<and>
   fst (getProductsByCategory six_world 3 sample_filters
          \<lparr> page_arg = Some (Finite 6), pageSize_arg = Some (Finite double_1_2) \<rparr>
          empty_store) =
     Inr \<lparr> items = [], res_page = Finite 6, res_pageSize = Finite double_1_2,
           total = Finite 6, totalPages = Finite 5 \<rparr> \<and>
   page (normalizePagination \<lparr> page_arg = Some (Finite 0), pageSize_arg = Some (Finite 500) \<rparr>)
     = Finite 1 \<and>
   pageSize (normalizePagination \<lparr> page_arg = Some (Finite 0), pageSize_arg = Some (Finite 500) \<rparr>)
     = Finite 50"
proof -
  have d: "1 \<le> double_1_2" "double_1_2 \<le> 50" "double_1_2 \<noteq> 0"
    by (simp_all add: double_1_2_def)
  show ?thesis
    using d
      listing_pagination [of sample_world 3 sample_filters
        "\<lparr> page_arg = Some (Finite 4), pageSize_arg = Some (Finite 2) \<rparr>" empty_store]
      listing_pagination [of six_world 3 sample_filters
        "\<lparr> page_arg = Some (Finite 6), pageSize_arg = Some (Finite double_1_2) \<rparr>"
        empty_store]
    by (simp add: listing_paginated_def Let_def normalizePagination_def sample_world_def
        six_world_def totalPages_spec_def num_gt_def DEFAULT_PAGE_SIZE_def MAX_PAGE_SIZE_def
        five_halves six_by_1_2)
qed
section \<open>Properties of the category and subcategory routes\<close>

lemma filter_unique_key:
  "distinct (map f xs) \<Longrightarrow> x \<in> set xs \<Longrightarrow> filter (\<lambda>y. f y = f x) xs = [x]"
proof (induction xs)
  case Nil
  then show ?case by simp
next
  case (Cons y ys)
  show ?case
  proof (cases "y = x")
    case True
    from Cons.prems(1) have "f y \<notin> f ` set ys" by simp
    then have "\<forall>z \<in> set ys. f z \<noteq> f y" by (metis imageI)
    then have "filter (\<lambda>z. f z = f y) ys = []" by (simp add: filter_empty_conv)
    with True show ?thesis by simp
  next
    case False
    with Cons.prems have x: "x \<in> set ys" by simp
    with Cons.prems(1) have "f y \<noteq> f x" by force
    with Cons x show ?thesis by simp
  qed
qed

text \<open>
  Claim C1, as amended. For every POST to the admin categories route by an authenticated
  user, with a parsed body whose name is not blank: when the platform answers the lookup
  of the request's slug and exactly one category has that slug, the handler answers 400
  with the body \<open>{success: false, error: "Ya existe una categoria con ese slug"}\<close> (the
  message with its accented letter), and the only call it issues is the slug lookup: no
  row is inserted and the tables are unchanged.
\<close>

theorem duplicate_category_slug_refused:
  assumes "user a \<noteq> None"
    and "\<not> name_blank (cb_name b)"
    and "cb_slug b = Some slug"
    and "failure w (length (calls s)) = None"
    and "filter (\<lambda>c. cat_slug c = slug) (categories s) = [c]"
  shows "categories_POST w a (Some b) s =
           (json_response 400 (failure_body category_slug_taken), issue (Select ''categories'') s)"
  using assms
  by (auto simp: categories_POST_def categories_POST_try_def catch_silent_def Let_def
      answered_def answer_error_def)

lemma sample_texts:
  "trim ''Sillas de comedor'' = ''Sillas de comedor''"
  "trim (toLowerCase ''sillas'') = ''sillas''"
  "trim ''  '' = []"
  by code_simp+

text \<open>
  The claim without its amendment fails in three ways. With a blank name the handler
  answers 400 for the name, before it looks the slug up. When the platform refuses the
  lookup the handler reads no error, takes the slug as free and inserts a second category
  with it. And in the table that this leaves, where two categories have the slug, the
  lookup of a single row gives none, and the handler inserts a third.
\<close>

theorem duplicate_category_slug_accepted:
  "user sample_auth = Some ''admin'' \<and>
   map cat_slug (categories sample_store) = [''sillas''] \<and>
   fst (categories_POST sample_world sample_auth
          (Some \<lparr> cb_name = Some ''  '', cb_slug = Some ''sillas'', cb_image_url = None \<rparr>)
          sample_store) =
     json_response 400 (failure_body ''El nombre es requerido'') \<and>
   failure_body ''El nombre es requerido'' \<noteq> failure_body category_slug_taken \<and>
   failure failing_world (length (calls sample_store)) = Some ''Object not found'' \<and>
   status (fst (categories_POST failing_world sample_auth (Some sample_category_body)
                  sample_store)) = 201 \<and>
   map cat_slug
     (categories (snd (categories_POST failing_world sample_auth (Some sample_category_body)
                         sample_store))) = [''sillas'', ''sillas''] \<and>
   status (fst (categories_POST sample_world sample_auth (Some sample_category_body)
                  (snd (categories_POST failing_world sample_auth (Some sample_category_body)
                          sample_store)))) = 201 \<and>
   map cat_slug
     (categories (snd (categories_POST sample_world sample_auth (Some sample_category_body)
                         (snd (categories_POST failing_world sample_auth
                                 (Some sample_category_body) sample_store))))) =
     [''sillas'', ''sillas'', ''sillas'']"
proof -
  have blank: "name_blank (Some ''  '')" "\<not> name_blank (Some ''Sillas de comedor'')"
    by (simp_all add: name_blank_def sample_texts)
  have w: "failure failing_world 0 = Some ''Object not found''" "failure failing_world (Suc 0) = None"
    "failure sample_world n = None" for n
    by (simp_all add: failing_world_def sample_world_def)
  have s: "calls sample_store = []" "categories sample_store = [sample_category]"
    by (simp_all add: sample_store_def empty_store_def)
  have c: "cat_slug sample_category = ''sillas''" "user sample_auth = Some ''admin''"
    by (simp_all add: sample_category_def sample_auth_def)
  have d: "failure_body ''El nombre es requerido'' \<noteq> failure_body category_slug_taken"
    by (simp add: failure_body_def category_slug_taken_def)
  show ?thesis
    using d
    by (simp add: categories_POST_def categories_POST_try_def catch_silent_def Let_def
        answered_def answer_error_def blank w s c sample_category_body_def sample_texts
        name_required_def json_response_def)
qed

theorem duplicate_category_slug_refused_witness:
  "user sample_auth \<noteq> None \<and>
   \<not> name_blank (cb_name sample_category_body) \<and>
   cb_slug sample_category_body = Some ''sillas'' \<and>
   failure sample_world (length (calls sample_store)) = None \<and>
   filter (\<lambda>c. cat_slug c = ''sillas'') (categories sample_store) = [sample_category] \<and>
   categories_POST sample_world sample_auth (Some sample_category_body) sample_store =
     (json_response 400 (failure_body category_slug_taken),
      issue (Select ''categories'') sample_store)"
proof -
  have 1: "user sample_auth \<noteq> None" by (simp add: sample_auth_def)
  have 2: "\<not> name_blank (cb_name sample_category_body)"
    by (simp add: name_blank_def sample_category_body_def sample_texts)
  have 3: "cb_slug sample_category_body = Some ''sillas''"
    by (simp add: sample_category_body_def)
  have 4: "failure sample_world (length (calls sample_store)) = None"
    by (simp add: sample_world_def)
  have 5: "filter (\<lambda>c. cat_slug c = ''sillas'') (categories sample_store) = [sample_category]"
    by (simp add: sample_store_def sample_category_def)
  show ?thesis
    using 1 2 3 4 5 duplicate_category_slug_refused [OF 1 2 3 4 5]
    by simp
qed

lemma take_1_filter_nonempty:
  "x \<in> set xs \<Longrightarrow> P x \<Longrightarrow> 0 < length (take 1 (filter P xs))"
proof -
  assume "x \<in> set xs" "P x"
  then have "filter P xs \<noteq> []" by (auto simp: filter_empty_conv)
  then show ?thesis by (cases "filter P xs") simp_all
qed

text \<open>
  Claim C5, as amended. For every DELETE by an authenticated user of a category that still
  has a subcategory, and of a subcategory that still has a product, when the platform
  answers the guard's lookup, the handler answers 400 with \<open>success: false\<close>, and the only
  call it issues is that lookup: no delete is issued and the tables are unchanged.
\<close>

theorem delete_guards_refuse:
  assumes "user a \<noteq> None" and "failure w (length (calls s)) = None"
  shows
    "(sc \<in> set (subcategories s) \<and> sub_category_id sc = i \<longrightarrow>
        category_DELETE w a (Some i) s =
          (json_response 400 (failure_body has_subcategories),
           issue (Select ''subcategories'') s)) \<and>
     (p \<in> set (products s) \<and> p_subcategory_id p = j \<longrightarrow>
        subcategory_DELETE w a (Some j) s =
          (json_response 400 (failure_body has_products), issue (Select ''products'') s))"
proof (intro conjI impI)
  assume h: "sc \<in> set (subcategories s) \<and> sub_category_id sc = i"
  then have "0 < length (take 1 (filter (\<lambda>sc. Some (sub_category_id sc) = Some i) (subcategories s)))"
    by (intro take_1_filter_nonempty [of sc]) simp_all
  with assms show "category_DELETE w a (Some i) s =
          (json_response 400 (failure_body has_subcategories),
           issue (Select ''subcategories'') s)"
    by (auto simp: category_DELETE_def category_DELETE_try_def catch_silent_def Let_def
        answered_def answer_error_def)
next
  assume h: "p \<in> set (products s) \<and> p_subcategory_id p = j"
  then have "0 < length (take 1 (filter (\<lambda>p. Some (p_subcategory_id p) = Some j) (products s)))"
    by (intro take_1_filter_nonempty [of p]) simp_all
  with assms show "subcategory_DELETE w a (Some j) s =
          (json_response 400 (failure_body has_products), issue (Select ''products'') s)"
    by (auto simp: subcategory_DELETE_def subcategory_DELETE_try_def catch_silent_def Let_def
        answered_def answer_error_def)
qed

theorem delete_guards_refuse_witness:
  "user sample_auth \<noteq> None \<and>
   failure sample_world (length (calls sample_store)) = None \<and>
   sample_subcategory \<in> set (subcategories sample_store) \<and>
   sub_category_id sample_subcategory = 1 \<and>
   sample_product \<in> set (products sample_store) \<and>
   p_subcategory_id sample_product = 2 \<and>
   category_DELETE sample_world sample_auth (Some 1) sample_store =
     (json_response 400 (failure_body has_subcategories),
      issue (Select ''subcategories'') sample_store) \<and>
   subcategory_DELETE sample_world sample_auth (Some 2) sample_store =
     (json_response 400 (failure_body has_products), issue (Select ''products'') sample_store) \<and>
   categories (issue (Select ''subcategories'') sample_store) = [sample_category] \<and>
   subcategories (issue (Select ''products'') sample_store) = [sample_subcategory]"
proof -
  have 1: "user sample_auth \<noteq> None" by (simp add: sample_auth_def)
  have 0: "failure sample_world (length (calls sample_store)) = None"
    by (simp add: sample_world_def)
  have 2: "sample_subcategory \<in> set (subcategories sample_store)"
    "sub_category_id sample_subcategory = 1"
    "sample_product \<in> set (products sample_store)"
    "p_subcategory_id sample_product = 2"
    by (simp_all add: sample_store_def sample_subcategory_def sample_product_def)
  have 3: "categories (issue (Select ''subcategories'') sample_store) = [sample_category]"
    "subcategories (issue (Select ''products'') sample_store) = [sample_subcategory]"
    by (simp_all add: issue_def sample_store_def)
  show ?thesis
    using 0 1 2 3
      delete_guards_refuse [OF 1 0, of sample_subcategory 1 sample_product 2]
    by simp
qed

text \<open>
  The claim without its amendment fails in two ways. Without a signed-in user the answer
  is 401, whatever the category still holds. And when the platform refuses the guard's
  lookup, the handler, which does not read the error of that call, takes the category as
  empty and deletes it, and its subcategory stays behind; likewise for a subcategory and
  its product.
\<close>

theorem delete_guard_skipped:
  "sample_subcategory \<in> set (subcategories sample_store) \<and>
   sub_category_id sample_subcategory = 1 \<and>
   status (fst (category_DELETE sample_world anonymous (Some 1) sample_store)) = 401 \<and>
   failure failing_world (length (calls sample_store)) = Some ''Object not found'' \<and>
   category_DELETE failing_world sample_auth (Some 1) sample_store =
     (json_response 200 (JObject [(''success'', JBool True)]),
      (issue (Delete ''categories'') (issue (Select ''subcategories'') sample_store))
        \<lparr>categories := []\<rparr>) \<and>
   sample_product \<in> set (products sample_store) \<and>
   p_subcategory_id sample_product = 2 \<and>
   subcategory_DELETE failing_world sample_auth (Some 2) sample_store =
     (json_response 200 (JObject [(''success'', JBool True)]),
      (issue (Delete ''subcategories'') (issue (Select ''products'') sample_store))
        \<lparr>subcategories := []\<rparr>)"
proof -
  have w: "failure failing_world 0 = Some ''Object not found''" "failure failing_world (Suc 0) = None"
    by (simp_all add: failing_world_def)
  have s: "calls sample_store = []" "categories sample_store = [sample_category]"
    "subcategories sample_store = [sample_subcategory]" "products sample_store = [sample_product]"
    by (simp_all add: sample_store_def empty_store_def)
  have c: "cat_id sample_category = 1" "sub_id sample_subcategory = 2"
    "sub_category_id sample_subcategory = 1" "p_subcategory_id sample_product = 2"
    "user sample_auth = Some ''admin''" "user anonymous = None"
    by (simp_all add: sample_category_def sample_subcategory_def sample_product_def
        sample_auth_def anonymous_def)
  show ?thesis
    by (simp add: category_DELETE_def category_DELETE_try_def subcategory_DELETE_def
        subcategory_DELETE_try_def catch_silent_def Let_def answered_def answer_error_def
        w s c unauthorized_def json_response_def)
qed
section \<open>Properties of the upload-url route\<close>

lemma allowedTypes_lookup:
  "sec \<in> {''gallery'', ''additional'', ''download''} \<Longrightarrow>
   map_of allowedTypes sec = Some (allowed_for_section sec)"
  by (auto simp: allowedTypes_def allowed_for_section_def)

lemma upload_url_refused:
  assumes "authenticated a"
    and "\<not> str_truthy (filename b) \<or> \<not> str_truthy (contentType b) \<or>
         \<not> str_truthy (upload_section b) \<or> \<not> str_truthy (tempUploadId b) \<or>
         (\<exists>sec. upload_section b = Some sec \<and> sec \<notin> {''gallery'', ''additional'', ''download''}) \<or>
         (\<exists>sec ct. upload_section b = Some sec \<and> contentType b = Some ct \<and>
            ct \<notin> set (allowed_for_section sec))"
  shows "status (fst (upload_url_POST w a (Some b) s)) = 400"
proof (cases "\<not> str_truthy (filename b) \<or> \<not> str_truthy (contentType b) \<or>
         \<not> str_truthy (upload_section b) \<or> \<not> str_truthy (tempUploadId b)")
  case True
  with assms(1) show ?thesis
    by (simp add: upload_url_POST_def upload_url_POST_try_def authenticated_def json_response_def)
next
  case False
  then obtain sec ct where v: "upload_section b = Some sec" "contentType b = Some ct"
    by (cases "upload_section b"; cases "contentType b") auto
  show ?thesis
  proof (cases "sec \<in> {''gallery'', ''additional'', ''download''}")
    case out: False
    with False v assms(1) show ?thesis
      by (simp add: upload_url_POST_def upload_url_POST_try_def authenticated_def
          json_response_def validSections_def)
  next
    case True
    with assms(2) False v have "ct \<notin> set (allowed_for_section sec)" by auto
    with True False v assms(1) allowedTypes_lookup [OF True] show ?thesis
      by (simp add: upload_url_POST_def upload_url_POST_try_def authenticated_def
          json_response_def validSections_def)
  qed
qed

lemma upload_url_granted:
  assumes "authenticated a"
    and "filename b = Some f" "f \<noteq> []" "contentType b = Some ct"
    and "upload_section b = Some sec" "tempUploadId b = Some t" "t \<noteq> []"
    and sec: "sec \<in> {''gallery'', ''additional'', ''download''}"
    and "ct \<in> set (allowed_for_section sec)"
    and "failure w (length (calls s)) = None"
  shows "fst (upload_url_POST w a (Some b) s) =
     json_response 200
       (JObject
          [(''signedUrl'', JString (fst (signed_upload w
              (''temp/'' @ t @ ''/'' @ sec @ ''/'' @ toString (now w (ticks s)) @ ''-'' @ sanitize_filename f)))),
           (''token'', JString (snd (signed_upload w
              (''temp/'' @ t @ ''/'' @ sec @ ''/'' @ toString (now w (ticks s)) @ ''-'' @ sanitize_filename f)))),
           (''path'', JString
              (''temp/'' @ t @ ''/'' @ sec @ ''/'' @ toString (now w (ticks s)) @ ''-'' @ sanitize_filename f))])"
proof -
  have ne: "ct \<noteq> []" "sec \<noteq> []"
    using assms(9) sec
    by (auto simp: allowed_for_section_def imageTypes_def videoTypes_def documentTypes_def
        split: if_splits)
  show ?thesis
    using assms ne allowedTypes_lookup [OF sec]
    by (auto simp: upload_url_POST_def upload_url_POST_try_def authenticated_def
        validSections_def Date_now_def answer_error_def Let_def)
qed

text \<open>
  Claim C6. For every POST to the upload-url route by an authenticated user, with a parsed
  body: if \<open>filename\<close>, \<open>contentType\<close>, \<open>section\<close> or \<open>tempUploadId\<close> is missing (absent
  or empty, the condition the handler itself reports as missing fields), or the section is
  not one of gallery, additional and download, or the content type is not among those
  allowed for the section, the answer has status 400; otherwise, when the platform grants
  the signed address, the answer has status 200 and carries \<open>signedUrl\<close>, \<open>token\<close> and
  the path \<open>temp/{tempUploadId}/{section}/{timestamp}-{sanitized filename}\<close>, where
  \<open>sanitize_filename\<close> puts an underscore for every character outside \<open>[a-zA-Z0-9.-]\<close>.
\<close>

theorem upload_url_answers:
  assumes "authenticated a"
  shows
    "((\<not> str_truthy (filename b) \<or> \<not> str_truthy (contentType b) \<or>
       \<not> str_truthy (upload_section b) \<or> \<not> str_truthy (tempUploadId b) \<or>
       (\<exists>sec. upload_section b = Some sec \<and> sec \<notin> {''gallery'', ''additional'', ''download''}) \<or>
       (\<exists>sec ct. upload_section b = Some sec \<and> contentType b = Some ct \<and>
          ct \<notin> set (allowed_for_section sec))) \<longrightarrow>
      status (fst (upload_url_POST w a (Some b) s)) = 400) \<and>
     (\<forall>f ct sec t.
        filename b = Some f \<and> f \<noteq> [] \<and> contentType b = Some ct \<and>
        upload_section b = Some sec \<and> tempUploadId b = Some t \<and> t \<noteq> [] \<and>
        sec \<in> {''gallery'', ''additional'', ''download''} \<and>
        ct \<in> set (allowed_for_section sec) \<and>
        failure w (length (calls s)) = None \<longrightarrow>
        fst (upload_url_POST w a (Some b) s) =
          json_response 200
            (JObject
              [(''signedUrl'', JString (fst (signed_upload w
                  (''temp/'' @ t @ ''/'' @ sec @ ''/'' @ toString (now w (ticks s)) @ ''-''
                     @ sanitize_filename f)))),
               (''token'', JString (snd (signed_upload w
                  (''temp/'' @ t @ ''/'' @ sec @ ''/'' @ toString (now w (ticks s)) @ ''-''
                     @ sanitize_filename f)))),
               (''path'', JString
                  (''temp/'' @ t @ ''/'' @ sec @ ''/'' @ toString (now w (ticks s)) @ ''-''
                     @ sanitize_filename f))]))"
proof (intro conjI impI allI)
  assume "\<not> str_truthy (filename b) \<or> \<not> str_truthy (contentType b) \<or>
       \<not> str_truthy (upload_section b) \<or> \<not> str_truthy (tempUploadId b) \<or>
       (\<exists>sec. upload_section b = Some sec \<and> sec \<notin> {''gallery'', ''additional'', ''download''}) \<or>
       (\<exists>sec ct. upload_section b = Some sec \<and> contentType b = Some ct \<and>
          ct \<notin> set (allowed_for_section sec))"
  with assms show "status (fst (upload_url_POST w a (Some b) s)) = 400"
    by (rule upload_url_refused)
next
  fix f ct sec t
  assume h: "filename b = Some f \<and> f \<noteq> [] \<and> contentType b = Some ct \<and>
        upload_section b = Some sec \<and> tempUploadId b = Some t \<and> t \<noteq> [] \<and>
        sec \<in> {''gallery'', ''additional'', ''download''} \<and>
        ct \<in> set (allowed_for_section sec) \<and>
        failure w (length (calls s)) = None"
  have p: "filename b = Some f" "f \<noteq> []" "contentType b = Some ct"
    "upload_section b = Some sec" "tempUploadId b = Some t" "t \<noteq> []"
    "sec \<in> {''gallery'', ''additional'', ''download''}"
    "ct \<in> set (allowed_for_section sec)" "failure w (length (calls s)) = None"
    using h by blast+
  show "fst (upload_url_POST w a (Some b) s) =
          json_response 200
            (JObject
              [(''signedUrl'', JString (fst (signed_upload w
                  (''temp/'' @ t @ ''/'' @ sec @ ''/'' @ toString (now w (ticks s)) @ ''-''
                     @ sanitize_filename f)))),
               (''token'', JString (snd (signed_upload w
                  (''temp/'' @ t @ ''/'' @ sec @ ''/'' @ toString (now w (ticks s)) @ ''-''
                     @ sanitize_filename f)))),
               (''path'', JString
                  (''temp/'' @ t @ ''/'' @ sec @ ''/'' @ toString (now w (ticks s)) @ ''-''
                     @ sanitize_filename f))])"
    by (rule upload_url_granted [OF assms p])
qed

theorem upload_url_answers_witness:
  "authenticated sample_auth \<and>
   fst (upload_url_POST sample_world sample_auth (Some sample_upload) empty_store) =
     json_response 200
       (JObject
         [(''signedUrl'', JString ''https://files.example/temp/t1/gallery/1700000000000-mi_foto_1_.png''),
          (''token'', JString ''tok''),
          (''path'', JString ''temp/t1/gallery/1700000000000-mi_foto_1_.png'')]) \<and>
   status (fst (upload_url_POST sample_world sample_auth (Some sample_bad_upload) empty_store)) = 400"
proof -
  have a: "authenticated sample_auth"
    by (simp add: authenticated_def sample_auth_def)
  have t: "toString 1700000000000 = ''1700000000000''"
    by (simp add: toString_def digit_char_def)
  have f: "sanitize_filename ''mi foto(1).png'' = ''mi_foto_1_.png''"
    by (simp add: sanitize_filename_def filename_char_ok_def is_lower_def is_upper_def
        is_digit_def char_between_def)
  have good: "fst (upload_url_POST sample_world sample_auth (Some sample_upload) empty_store) =
     json_response 200
       (JObject
         [(''signedUrl'', JString ''https://files.example/temp/t1/gallery/1700000000000-mi_foto_1_.png''),
          (''token'', JString ''tok''),
          (''path'', JString ''temp/t1/gallery/1700000000000-mi_foto_1_.png'')])"
    using upload_url_answers [OF a, of sample_upload sample_world empty_store] t f
    by (simp add: sample_upload_def sample_world_def empty_store_def allowed_for_section_def
        imageTypes_def videoTypes_def)
  have bad: "status (fst (upload_url_POST sample_world sample_auth (Some sample_bad_upload) empty_store)) = 400"
    using upload_url_answers [OF a, of sample_bad_upload sample_world empty_store]
    by (simp add: sample_bad_upload_def allowed_for_section_def imageTypes_def videoTypes_def)
  from a good bad show ?thesis by simp
qed

section \<open>Properties of the product routes\<close>

lemma validated_complete:
  assumes "validateProductData d = []"
  shows "\<exists>f. complete d = Some f \<and> Some (pf_slug f) = pp_slug d"
proof -
  from assms have "\<not> name_blank (pp_name d)" "\<not> name_blank (pp_slug d)"
    "pp_category_id d \<noteq> None" "pp_subcategory_id d \<noteq> None"
    by (auto simp: validateProductData_def split: if_splits)
  then obtain n sl c sc where "pp_name d = Some n" "pp_slug d = Some sl"
    "pp_category_id d = Some c" "pp_subcategory_id d = Some sc"
    by (cases "pp_name d"; cases "pp_slug d") (auto simp: name_blank_def)
  then show ?thesis by (simp add: complete_def)
qed

text \<open>
  Claim C9, as amended. For every POST of a product by an authenticated user whose data
  pass \<open>validateProductData\<close>: when the platform answers the lookup of the slug and
  exactly one product has that slug, the \<open>try\<close> block ends with the exception that
  \<open>createProduct\<close> throws, and the handler's \<open>catch\<close> answers with status 500,
  \<open>success: false\<close> and the error "Ya existe un producto con ese slug", after writing the
  line to the console; the only call issued is the slug lookup.
\<close>

theorem duplicate_product_slug_is_500:
  assumes "user a \<noteq> None"
    and "validateProductData (productData b (effective_slug b)) = []"
    and "failure w (length (calls s)) = None"
    and "filter (\<lambda>q. p_slug q = effective_slug b) (products s) = [p]"
  shows "fst (products_POST_try w a (Some b) s) = Inl (Error ''Ya existe un producto con ese slug'') \<and>
         products_POST w a (Some b) s =
           (json_response 500 (failure_body ''Ya existe un producto con ese slug''),
            console_error ''Error creating product:'' ''Ya existe un producto con ese slug''
              (issue (Select ''products'') s))"
proof -
  from assms(2) have nb: "\<not> name_blank (rb_name b)"
    by (auto simp: validateProductData_def productData_def split: if_splits)
  then have name: "rb_name b \<noteq> None" by (cases "rb_name b") (auto simp: name_blank_def)
  obtain f where f: "complete (productData b (effective_slug b)) = Some f"
    "pf_slug f = effective_slug b"
    using validated_complete [OF assms(2)] by (auto simp: productData_def)
  have dup: "createProduct w f s = (Inl (Error product_slug_taken), issue (Select ''products'') s)"
    using f(2) assms(3,4) by (simp add: createProduct_def Let_def answered_def answer_error_def)
  show ?thesis
    using assms(1,2) name f(1) dup
    by (auto simp: products_POST_def products_POST_try_def catch_logged_def Let_def
        effective_slug_def product_slug_taken_def)
qed

lemma sample_slug: "effective_slug sample_body = ''silla-eames''"
  by code_simp

lemma sample_valid: "validateProductData (productData sample_body ''silla-eames'') = []"
  by code_simp

theorem duplicate_product_slug_is_500_witness:
  "user sample_auth \<noteq> None \<and>
   validateProductData (productData sample_body (effective_slug sample_body)) = [] \<and>
   failure sample_world (length (calls sample_store)) = None \<and>
   filter (\<lambda>q. p_slug q = effective_slug sample_body) (products sample_store) =
     [sample_product] \<and>
   status (fst (products_POST sample_world sample_auth (Some sample_body) sample_store)) = 500 \<and>
   body (fst (products_POST sample_world sample_auth (Some sample_body) sample_store)) =
     JObject [(''success'', JBool False), (''error'', JString ''Ya existe un producto con ese slug'')]"
proof -
  have 1: "user sample_auth \<noteq> None" by (simp add: sample_auth_def)
  have 2: "validateProductData (productData sample_body (effective_slug sample_body)) = []"
    by (simp add: sample_slug sample_valid)
  have 3: "failure sample_world (length (calls sample_store)) = None"
    by (simp add: sample_world_def)
  have 4: "filter (\<lambda>q. p_slug q = effective_slug sample_body) (products sample_store) =
      [sample_product]"
    by (simp add: sample_slug sample_product_def sample_store_def)
  show ?thesis
    using 1 2 3 4 duplicate_product_slug_is_500 [OF 1 2 3 4]
    by (simp add: json_response_def failure_body_def)
qed

lemma sample_complete:
  "complete (productData sample_body ''silla-eames'') =
     Some \<lparr> pf_name = ''Silla Eames'', pf_slug = ''silla-eames'', pf_description = None,
            pf_price = Some 150, pf_stock = 2, pf_brand = None, pf_category_id = 1,
            pf_subcategory_id = 2, pf_attributes = JObject [] \<rparr>"
  by (simp add: complete_def productData_def sample_body_def)

lemma sample_product_texts:
  "trim ''Silla Eames'' = ''Silla Eames''"
  "trim (toLowerCase ''silla-eames'') = ''silla-eames''"
  by code_simp+

lemma sample_creation:
  assumes "failure w (Suc (length (calls s))) = None"
    and "single (if failure w (length (calls s)) = None
                 then filter (\<lambda>p. p_slug p = ''silla-eames'') (products s) else []) = None"
    and "listed_files w ''temp/t1'' = Some []"
  shows "status (fst (products_POST w sample_auth (Some sample_body) s)) = 201 \<and>
         map p_slug (products (snd (products_POST w sample_auth (Some sample_body) s))) =
           map p_slug (products s) @ [''silla-eames''] \<and>
         calls (snd (products_POST w sample_auth (Some sample_body) s)) =
           calls s @ [Select ''products'', Insert ''products'', Storage_list ''temp/t1'']"
proof -
  have u: "user sample_auth \<noteq> None" by (simp add: sample_auth_def)
  have b: "rb_slug sample_body = None" "rb_name sample_body = Some ''Silla Eames''"
    "rb_uploaded_files sample_body = Some no_files" "rb_temp_upload_id sample_body = Some ''t1''"
    by (simp_all add: sample_body_def)
  have g: "generateSlug ''Silla Eames'' = ''silla-eames''"
    using sample_slug by (simp add: effective_slug_def b)
  obtain product where c:
    "createProduct w \<lparr> pf_name = ''Silla Eames'', pf_slug = ''silla-eames'', pf_description = None,
            pf_price = Some 150, pf_stock = 2, pf_brand = None, pf_category_id = 1,
            pf_subcategory_id = 2, pf_attributes = JObject [] \<rparr> s =
       (Inr product,
        (issue (Insert ''products'') (issue (Select ''products'') s))
          \<lparr>products := products s @ [product], next_id := next_id s + 1\<rparr>)"
    "p_slug product = ''silla-eames''"
    using assms(1,2)
    by (cases "failure w (length (calls s))")
       (simp_all add: createProduct_def Let_def answered_def answer_error_def
          sample_product_texts)
  show ?thesis
    using u assms(3)
    by (simp add: products_POST_def products_POST_try_def catch_logged_def Let_def b g
        sample_valid sample_complete c no_files_def clean_temp_def json_response_def)
qed

lemma single_of_two:
  "map f xs = [k, k] \<Longrightarrow> single (filter (\<lambda>p. f p = k) xs) = None"
  by (auto simp: map_eq_Cons_conv)

text \<open>
  The claim without its amendment fails in two ways. When the platform refuses the lookup
  of the slug, \<open>createProduct\<close> reads no error, takes the slug as free and inserts a
  second product with it: the answer is 201. And in the table that this leaves, where two
  products have the slug, the lookup of a single row gives none, and a third is inserted.
\<close>

theorem duplicate_product_slug_created:
  "user sample_auth = Some ''admin'' \<and>
   validateProductData (productData sample_body (effective_slug sample_body)) = [] \<and>
   effective_slug sample_body = ''silla-eames'' \<and>
   map p_slug (products sample_store) = [''silla-eames''] \<and>
   failure failing_world (length (calls sample_store)) = Some ''Object not found'' \<and>
   status (fst (products_POST failing_world sample_auth (Some sample_body) sample_store)) = 201 \<and>
   map p_slug
     (products (snd (products_POST failing_world sample_auth (Some sample_body) sample_store))) =
     [''silla-eames'', ''silla-eames''] \<and>
   status (fst (products_POST sample_world sample_auth (Some sample_body)
                  (snd (products_POST failing_world sample_auth (Some sample_body)
                          sample_store)))) = 201 \<and>
   map p_slug
     (products (snd (products_POST sample_world sample_auth (Some sample_body)
                       (snd (products_POST failing_world sample_auth (Some sample_body)
                               sample_store))))) =
     [''silla-eames'', ''silla-eames'', ''silla-eames'']"
proof -
  have w: "failure failing_world 0 = Some ''Object not found''" "failure failing_world (Suc 0) = None"
    "failure sample_world n = None"
    "listed_files failing_world ''temp/t1'' = Some []"
    "listed_files sample_world ''temp/t1'' = Some []" for n
    by (simp_all add: failing_world_def sample_world_def)
  have s: "calls sample_store = []" "products sample_store = [sample_product]"
    by (simp_all add: sample_store_def empty_store_def)
  have c: "p_slug sample_product = ''silla-eames''" "user sample_auth = Some ''admin''"
    by (simp_all add: sample_product_def sample_auth_def)
  let ?s1 = "snd (products_POST failing_world sample_auth (Some sample_body) sample_store)"
  have 1: "status (fst (products_POST failing_world sample_auth (Some sample_body) sample_store)) =
        201 \<and>
      map p_slug (products ?s1) = map p_slug (products sample_store) @ [''silla-eames''] \<and>
      calls ?s1 = calls sample_store @
        [Select ''products'', Insert ''products'', Storage_list ''temp/t1'']"
    by (rule sample_creation) (simp_all add: w s)
  then have two: "map p_slug (products ?s1) = [''silla-eames'', ''silla-eames'']"
    by (simp add: s c)
  have 2: "status (fst (products_POST sample_world sample_auth (Some sample_body) ?s1)) = 201 \<and>
      map p_slug (products (snd (products_POST sample_world sample_auth (Some sample_body) ?s1))) =
        map p_slug (products ?s1) @ [''silla-eames''] \<and>
      calls (snd (products_POST sample_world sample_auth (Some sample_body) ?s1)) =
        calls ?s1 @ [Select ''products'', Insert ''products'', Storage_list ''temp/t1'']"
    by (rule sample_creation) (simp_all add: w single_of_two [OF two])
  show ?thesis
    using 1 2 two by (simp add: w s c sample_slug sample_valid)
qed

lemma Date_now_calls [simp]:
  "calls (snd (Date_now w s)) = calls s"
  "product_assets (snd (Date_now w s)) = product_assets s"
  "next_id (snd (Date_now w s)) = next_id s"
  "fst (Date_now w s) = now w (ticks s)"
  by (simp_all add: Date_now_def)

lemma move_file_no_data:
  assumes "failure w (length (calls s)) = Some e" and "file_content w oldPath = None"
  shows "move_file w oldPath newPath name s =
           (Inl (Error (''Failed to move file: '' @ name)),
            issue (Storage_download oldPath)
              (console_error (''Error moving file '' @ oldPath @ '' to '' @ newPath @ '':'') e
                 (issue (Storage_move oldPath newPath) s)))"
  using assms by (simp add: move_file_def Let_def answer_error_def)

lemma move_file_with_data:
  assumes "failure w (length (calls s)) = Some e" and "file_content w oldPath = Some d"
  shows "move_file w oldPath newPath name s =
           (Inr (),
            issue (Storage_remove [oldPath]) (issue (Storage_upload newPath True)
              (issue (Storage_download oldPath)
                (console_error (''Error moving file '' @ oldPath @ '' to '' @ newPath @ '':'') e
                   (issue (Storage_move oldPath newPath) s)))))"
  using assms by (simp add: move_file_def Let_def answer_error_def)

lemma create_asset_record_calls:
  "calls (snd (create_asset_record w productId productName file sec newPath isPrimary isSecondary s)) =
     calls s @ [Select ''product_assets''] @
       (if isPrimary then [Update ''product_assets''] else []) @
       (if isSecondary then [Update ''product_assets''] else []) @
       [Insert ''product_assets'']"
  by (simp add: create_asset_record_def Let_def split: option.splits)

lemma moveFileAndCreateAsset_unfold:
  "moveFileAndCreateAsset w productId productName file sec isPrimary isSecondary s =
     (case move_file w (uf_storage_path file) (final_path w productId file sec s)
             (uf_filename file) (snd (Date_now w s)) of
        (Inl e, s2) \<Rightarrow> (Inl e, s2)
      | (Inr u, s2) \<Rightarrow>
          create_asset_record w productId productName file sec (final_path w productId file sec s)
            isPrimary isSecondary s2)"
  unfolding moveFileAndCreateAsset_def final_path_def Let_def Date_now_def by simp

lemma move_failed_no_data:
  assumes "failure w (length (calls s)) = Some e"
    and "file_content w (uf_storage_path file) = None"
  shows "fst (moveFileAndCreateAsset w productId productName file sec isPrimary isSecondary s) =
           Inl (Error (''Failed to move file: '' @ uf_filename file)) \<and>
         calls_since s (snd (moveFileAndCreateAsset w productId productName file sec isPrimary isSecondary s)) =
           [Storage_move (uf_storage_path file) (final_path w productId file sec s),
            Storage_download (uf_storage_path file)] \<and>
         product_assets (snd (moveFileAndCreateAsset w productId productName file sec isPrimary isSecondary s)) =
           product_assets s"
proof -
  have f: "failure w (length (calls (snd (Date_now w s)))) = Some e"
    using assms(1) by simp
  show ?thesis
    unfolding moveFileAndCreateAsset_unfold move_file_no_data [OF f assms(2)]
    by (simp add: calls_since_def)
qed

lemma move_failed_with_data_calls:
  assumes "failure w (length (calls s)) = Some e"
    and "file_content w (uf_storage_path file) = Some d"
  shows "calls (snd (moveFileAndCreateAsset w productId productName file sec isPrimary isSecondary s)) =
           calls s @
           [Storage_move (uf_storage_path file) (final_path w productId file sec s),
            Storage_download (uf_storage_path file),
            Storage_upload (final_path w productId file sec s) True,
            Storage_remove [uf_storage_path file],
            Select ''product_assets''] @
           (if isPrimary then [Update ''product_assets''] else []) @
           (if isSecondary then [Update ''product_assets''] else []) @
           [Insert ''product_assets'']"
proof -
  have f: "failure w (length (calls (snd (Date_now w s)))) = Some e"
    using assms(1) by simp
  show ?thesis
    unfolding moveFileAndCreateAsset_unfold move_file_with_data [OF f assms(2)]
    by (simp add: create_asset_record_calls)
qed

text \<open>
  Claim C2. In \<open>moveFileAndCreateAsset\<close>, the function both product handlers declare
  and call for every uploaded file: when the platform refuses the move, the calls on the
  file bucket are, once each and in this order, the move, a download of the old path and,
  if the download gave data, an upload to the new path with \<open>upsert\<close> and the removal of
  the old path; and if the download gave no data, the function throws
  "Failed to move file: " followed by the file's name, after the move and the download
  only: no asset row is inserted.
\<close>

theorem file_move_fallback:
  assumes "failure w (length (calls s)) = Some e"
  shows
    "(file_content w (uf_storage_path file) = None \<longrightarrow>
        fst (moveFileAndCreateAsset w productId productName file sec isPrimary isSecondary s) =
          Inl (Error (''Failed to move file: '' @ uf_filename file)) \<and>
        calls_since s
          (snd (moveFileAndCreateAsset w productId productName file sec isPrimary isSecondary s)) =
          [Storage_move (uf_storage_path file) (final_path w productId file sec s),
           Storage_download (uf_storage_path file)] \<and>
        product_assets
          (snd (moveFileAndCreateAsset w productId productName file sec isPrimary isSecondary s)) =
          product_assets s) \<and>
     (file_content w (uf_storage_path file) \<noteq> None \<longrightarrow>
        filter is_storage_call
          (calls_since s
             (snd (moveFileAndCreateAsset w productId productName file sec isPrimary isSecondary s))) =
          [Storage_move (uf_storage_path file) (final_path w productId file sec s),
           Storage_download (uf_storage_path file),
           Storage_upload (final_path w productId file sec s) True,
           Storage_remove [uf_storage_path file]])"
proof (intro conjI impI)
  assume none: "file_content w (uf_storage_path file) = None"
  note r = move_failed_no_data [OF assms none, where productId = productId and productName = productName
      and sec = sec and isPrimary = isPrimary and isSecondary = isSecondary]
  from r show "fst (moveFileAndCreateAsset w productId productName file sec isPrimary isSecondary s) =
          Inl (Error (''Failed to move file: '' @ uf_filename file))" by blast
  from r show "calls_since s
          (snd (moveFileAndCreateAsset w productId productName file sec isPrimary isSecondary s)) =
          [Storage_move (uf_storage_path file) (final_path w productId file sec s),
           Storage_download (uf_storage_path file)]" by blast
  from r show "product_assets
          (snd (moveFileAndCreateAsset w productId productName file sec isPrimary isSecondary s)) =
          product_assets s" by blast
next
  assume "file_content w (uf_storage_path file) \<noteq> None"
  then obtain d where d: "file_content w (uf_storage_path file) = Some d" by blast
  show "filter is_storage_call
          (calls_since s
             (snd (moveFileAndCreateAsset w productId productName file sec isPrimary isSecondary s))) =
          [Storage_move (uf_storage_path file) (final_path w productId file sec s),
           Storage_download (uf_storage_path file),
           Storage_upload (final_path w productId file sec s) True,
           Storage_remove [uf_storage_path file]]"
    unfolding calls_since_def move_failed_with_data_calls [OF assms d]
    by simp
qed


lemma sample_final_path:
  "final_path sample_world 3 sample_file Gallery empty_store = ''3/gallery/1700000000000-a.png''"
  by (simp add: final_path_def sample_world_def empty_store_def sample_file_def toString_def
      digit_char_def sanitize_filename_def filename_char_ok_def is_lower_def is_upper_def
      is_digit_def char_between_def)

theorem file_move_fallback_witness:
  "failure failing_world (length (calls empty_store)) = Some ''Object not found'' \<and>
   file_content failing_world (uf_storage_path sample_file) = None \<and>
   fst (moveFileAndCreateAsset failing_world 3 ''Silla Eames'' sample_file Gallery True False
          empty_store) = Inl (Error ''Failed to move file: a.png'') \<and>
   product_assets (snd (moveFileAndCreateAsset failing_world 3 ''Silla Eames'' sample_file
          Gallery True False empty_store)) = [] \<and>
   failure refusing_world (length (calls empty_store)) = Some ''The resource already exists'' \<and>
   file_content refusing_world (uf_storage_path sample_file) \<noteq> None \<and>
   filter is_storage_call
     (calls_since empty_store
        (snd (moveFileAndCreateAsset refusing_world 3 ''Silla Eames'' sample_file Gallery True
                False empty_store))) =
     [Storage_move ''temp/t1/gallery/1-a.png'' ''3/gallery/1700000000000-a.png'',
      Storage_download ''temp/t1/gallery/1-a.png'',
      Storage_upload ''3/gallery/1700000000000-a.png'' True,
      Storage_remove [''temp/t1/gallery/1-a.png'']]"
proof -
  have f1: "failure failing_world (length (calls empty_store)) = Some ''Object not found''"
    by (simp add: failing_world_def empty_store_def)
  have n1: "file_content failing_world (uf_storage_path sample_file) = None"
    by (simp add: failing_world_def)
  have f2: "failure refusing_world (length (calls empty_store)) = Some ''The resource already exists''"
    by (simp add: refusing_world_def empty_store_def)
  have n2: "file_content refusing_world (uf_storage_path sample_file) \<noteq> None"
    by (simp add: refusing_world_def sample_world_def)
  have p: "final_path refusing_world 3 sample_file Gallery empty_store =
      ''3/gallery/1700000000000-a.png''"
    using sample_final_path by (simp add: final_path_def refusing_world_def)
  have a: "product_assets empty_store = []" by (simp add: empty_store_def)
  have x: "uf_storage_path sample_file = ''temp/t1/gallery/1-a.png''"
    "uf_filename sample_file = ''a.png''"
    by (simp_all add: sample_file_def)
  show ?thesis
    using f1 n1 f2 n2 a
      file_move_fallback [OF f1, of sample_file 3 "''Silla Eames''" Gallery True False]
      file_move_fallback [OF f2, of sample_file 3 "''Silla Eames''" Gallery True False]
    by (simp add: p x)
qed

section \<open>Primary and secondary gallery assets\<close>


lemma one_primary_iff:
  "one_primary xs \<longleftrightarrow> (\<forall>p. length (gallery_primaries p xs) \<le> 1)"
proof
  assume h: "one_primary xs"
  show "\<forall>p. length (gallery_primaries p xs) \<le> 1"
  proof
    fix p
    show "length (gallery_primaries p xs) \<le> 1"
    proof (cases "p \<in> a_product_id ` set xs")
      case True
      with h show ?thesis by (auto simp: one_primary_def list_all_iff)
    next
      case False
      then have "gallery_primaries p xs = []"
        by (auto simp: gallery_primaries_def filter_empty_conv)
      then show ?thesis by simp
    qed
  qed
next
  assume "\<forall>p. length (gallery_primaries p xs) \<le> 1"
  then show "one_primary xs" by (simp add: one_primary_def list_all_iff)
qed

lemma count_unique_key:
  "distinct (map f xs) \<Longrightarrow> (\<And>x. x \<in> set xs \<Longrightarrow> Q x \<Longrightarrow> f x = k) \<Longrightarrow> length (filter Q xs) \<le> 1"
proof (induction xs)
  case Nil
  then show ?case by simp
next
  case (Cons y ys)
  show ?case
  proof (cases "Q y")
    case True
    with Cons.prems have k: "f y = k" by simp
    have "filter Q ys = []"
    proof (rule ccontr)
      assume "filter Q ys \<noteq> []"
      then obtain z where z: "z \<in> set ys" "Q z" by (auto simp: filter_empty_conv)
      with Cons.prems(2) have "f z = k" by simp
      moreover from Cons.prems(1) have "f y \<notin> f ` set ys" by simp
      ultimately show False using k z(1) by (metis imageI)
    qed
    with True show ?thesis by simp
  next
    case False
    with Cons show ?thesis by simp
  qed
qed

text \<open>Identifiers are untouched by the updates of flags and order.\<close>

lemma ids_unchanged [simp]:
  "map a_id (unset_primary p xs) = map a_id xs"
  "map a_id (unset_secondary p xs) = map a_id xs"
  "map a_id (set_primary k xs) = map a_id xs"
  "map a_id (set_secondary k xs) = map a_id xs"
  "map a_id (set_sort_order k p sec i xs) = map a_id xs"
  by (simp_all add: unset_primary_def unset_secondary_def set_primary_def set_secondary_def
      set_sort_order_def comp_def cong: if_cong)

lemma ids_bounded_unchanged [simp]:
  "list_all (\<lambda>a. a_id a < n) (unset_primary p xs) = list_all (\<lambda>a. a_id a < n) xs"
  "list_all (\<lambda>a. a_id a < n) (unset_secondary p xs) = list_all (\<lambda>a. a_id a < n) xs"
  "list_all (\<lambda>a. a_id a < n) (set_primary k xs) = list_all (\<lambda>a. a_id a < n) xs"
  "list_all (\<lambda>a. a_id a < n) (set_secondary k xs) = list_all (\<lambda>a. a_id a < n) xs"
  "list_all (\<lambda>a. a_id a < n) (set_sort_order k p sec i xs) = list_all (\<lambda>a. a_id a < n) xs"
  by (induction xs)
     (simp_all add: unset_primary_def unset_secondary_def set_primary_def set_secondary_def
      set_sort_order_def)

lemma primaries_unset_same [simp]: "gallery_primaries p (unset_primary p xs) = []"
  by (induction xs) (auto simp: gallery_primaries_def unset_primary_def)

lemma primaries_unset_other:
  "q \<noteq> p \<Longrightarrow> gallery_primaries q (unset_primary p xs) = gallery_primaries q xs"
  by (induction xs) (simp_all add: gallery_primaries_def unset_primary_def)

lemma primaries_unset_secondary [simp]:
  "length (gallery_primaries q (unset_secondary p xs)) = length (gallery_primaries q xs)"
  by (induction xs) (simp_all add: gallery_primaries_def unset_secondary_def)

lemma primaries_set_secondary [simp]:
  "length (gallery_primaries q (set_secondary k xs)) = length (gallery_primaries q xs)"
  by (induction xs) (simp_all add: gallery_primaries_def set_secondary_def)

lemma primaries_set_sort_order [simp]:
  "length (gallery_primaries q (set_sort_order k p sec i xs)) = length (gallery_primaries q xs)"
  by (induction xs) (simp_all add: gallery_primaries_def set_sort_order_def)

lemma primaries_filter:
  "length (gallery_primaries q (filter P xs)) \<le> length (gallery_primaries q xs)"
  by (induction xs) (simp_all add: gallery_primaries_def)

lemma primaries_append [simp]:
  "gallery_primaries q (xs @ ys) = gallery_primaries q xs @ gallery_primaries q ys"
  by (simp add: gallery_primaries_def)

lemma one_primary_unset: "one_primary xs \<Longrightarrow> one_primary (unset_primary p xs)"
  unfolding one_primary_iff
proof
  fix q
  assume h: "\<forall>p. length (gallery_primaries p xs) \<le> 1"
  show "length (gallery_primaries q (unset_primary p xs)) \<le> 1"
    using h by (cases "q = p") (simp_all add: primaries_unset_other)
qed

lemma one_primary_unset_secondary: "one_primary xs \<Longrightarrow> one_primary (unset_secondary p xs)"
  by (simp add: one_primary_iff)

lemma one_primary_set_secondary: "one_primary xs \<Longrightarrow> one_primary (set_secondary k xs)"
  by (simp add: one_primary_iff)

lemma one_primary_set_sort_order: "one_primary xs \<Longrightarrow> one_primary (set_sort_order k p sec i xs)"
  by (simp add: one_primary_iff)

lemma one_primary_filter: "one_primary xs \<Longrightarrow> one_primary (filter P xs)"
  unfolding one_primary_iff using primaries_filter order_trans by blast

text \<open>A new asset: primary only where the product's gallery has no primary asset left.\<close>

lemma one_primary_append:
  assumes "one_primary xs"
    and "a_section a = Gallery \<and> a_is_primary a \<longrightarrow> gallery_primaries (a_product_id a) xs = []"
  shows "one_primary (xs @ [a])"
  unfolding one_primary_iff
proof
  fix q
  from assms(1) have q: "length (gallery_primaries q xs) \<le> 1" by (simp add: one_primary_iff)
  show "length (gallery_primaries q (xs @ [a])) \<le> 1"
  proof (cases "a_product_id a = q \<and> a_section a = Gallery \<and> a_is_primary a")
    case True
    with assms(2) have "gallery_primaries q xs = []" by auto
    then show ?thesis by (simp add: gallery_primaries_def)
  next
    case False
    with q show ?thesis by (auto simp: gallery_primaries_def)
  qed
qed

text \<open>Setting the flag on one identifier, after the gallery of its product was cleared.\<close>

lemma one_primary_set_primary:
  assumes d: "distinct (map a_id xs)"
    and one: "one_primary xs"
    and a: "a \<in> set xs" "a_id a = k"
    and cleared: "gallery_primaries (a_product_id a) xs = []"
  shows "one_primary (set_primary k xs)"
  unfolding one_primary_iff
proof
  fix q
  have row: "\<And>x. x \<in> set xs \<Longrightarrow> a_id x = k \<Longrightarrow> x = a"
    using d a by (metis distinct_map inj_onD)
  have len: "length (gallery_primaries q (set_primary k xs)) =
      length (filter (\<lambda>x. a_product_id x = q \<and> a_section x = Gallery \<and>
                         (a_id x = k \<or> a_is_primary x)) xs)"
    by (induction xs) (simp_all add: gallery_primaries_def set_primary_def)
  show "length (gallery_primaries q (set_primary k xs)) \<le> 1"
  proof (cases "q = a_product_id a")
    case True
    have "\<And>x. x \<in> set xs \<Longrightarrow>
        a_product_id x = q \<and> a_section x = Gallery \<and> (a_id x = k \<or> a_is_primary x) \<Longrightarrow>
        a_id x = k"
    proof -
      fix x assume x: "x \<in> set xs"
        "a_product_id x = q \<and> a_section x = Gallery \<and> (a_id x = k \<or> a_is_primary x)"
      show "a_id x = k"
      proof (rule ccontr)
        assume "a_id x \<noteq> k"
        with x True have "x \<in> set (gallery_primaries (a_product_id a) xs)"
          by (simp add: gallery_primaries_def)
        with cleared show False by simp
      qed
    qed
    with d show ?thesis unfolding len by (rule count_unique_key)
  next
    case False
    have "filter (\<lambda>x. a_product_id x = q \<and> a_section x = Gallery \<and>
                         (a_id x = k \<or> a_is_primary x)) xs = gallery_primaries q xs"
      unfolding gallery_primaries_def
      using row False by (intro filter_cong) auto
    with one show ?thesis unfolding len by (simp add: one_primary_iff)
  qed
qed


lemma primaries_unset_both:
  "gallery_primaries p (unset_secondary p (unset_primary p xs)) = []"
proof -
  have "length (gallery_primaries p (unset_secondary p (unset_primary p xs))) = 0"
    by simp
  then show ?thesis by (simp only: length_0_conv)
qed

lemma assets_ok_unset_primary: "assets_ok n xs \<Longrightarrow> assets_ok n (unset_primary p xs)"
  by (simp add: assets_ok_def one_primary_unset)

lemma assets_ok_unset_secondary: "assets_ok n xs \<Longrightarrow> assets_ok n (unset_secondary p xs)"
  by (simp add: assets_ok_def one_primary_unset_secondary)

lemma assets_ok_set_secondary: "assets_ok n xs \<Longrightarrow> assets_ok n (set_secondary k xs)"
  by (simp add: assets_ok_def one_primary_set_secondary)

lemma assets_ok_set_sort_order: "assets_ok n xs \<Longrightarrow> assets_ok n (set_sort_order k p sec i xs)"
  by (simp add: assets_ok_def one_primary_set_sort_order)

lemma assets_ok_filter: "assets_ok n xs \<Longrightarrow> assets_ok n (filter P xs)"
  by (auto simp: assets_ok_def one_primary_filter distinct_map_filter list_all_iff)

lemma assets_ok_append:
  assumes "assets_ok n xs" "a_id a = n"
    and "a_section a = Gallery \<and> a_is_primary a \<longrightarrow> gallery_primaries (a_product_id a) xs = []"
  shows "assets_ok (n + 1) (xs @ [a])"
proof -
  from assms(1) have d: "distinct (map a_id xs)" and b: "\<forall>x \<in> set xs. a_id x < n"
    and one: "one_primary xs"
    by (simp_all add: assets_ok_def list_all_iff)
  from b assms(2) have "a_id a \<notin> a_id ` set xs" by auto
  with d have "distinct (map a_id (xs @ [a]))" by simp
  moreover from b assms(2) have "list_all (\<lambda>x. a_id x < n + 1) (xs @ [a])"
    by (auto simp: list_all_iff)
  moreover from one assms(3) have "one_primary (xs @ [a])" by (rule one_primary_append)
  ultimately show ?thesis by (simp add: assets_ok_def)
qed

lemma assets_ok_set_primary:
  assumes "assets_ok n xs" "a \<in> set xs" "a_id a = k" "a_section a = Gallery"
  shows "assets_ok n (set_primary k (unset_primary (a_product_id a) xs))"
proof -
  let ?ys = "unset_primary (a_product_id a) xs"
  from assms(1) have ok: "assets_ok n ?ys" by (rule assets_ok_unset_primary)
  then have d: "distinct (map a_id ?ys)" and one: "one_primary ?ys"
    by (simp_all add: assets_ok_def)
  from assms(2,4) have "a\<lparr>a_is_primary := False\<rparr> \<in> set ?ys"
    by (force simp: unset_primary_def)
  moreover have "a_id (a\<lparr>a_is_primary := False\<rparr>) = k"
    "gallery_primaries (a_product_id (a\<lparr>a_is_primary := False\<rparr>)) ?ys = []"
    using assms(3) by simp_all
  ultimately have "one_primary (set_primary k ?ys)"
    using d one by (intro one_primary_set_primary [where a = "a\<lparr>a_is_primary := False\<rparr>"])
  with ok show ?thesis by (simp add: assets_ok_def)
qed

lemma set_primary_absent: "k \<notin> a_id ` set xs \<Longrightarrow> set_primary k xs = xs"
  by (induction xs) (auto simp: set_primary_def)

lemma primaries_after_set:
  assumes "distinct (map a_id xs)" "a \<in> set xs" "a_id a = k" "a_section a = Gallery"
  shows "gallery_primaries (a_product_id a) (set_primary k (unset_primary (a_product_id a) xs)) =
           [a\<lparr>a_is_primary := True\<rparr>]"
  using assms
proof (induction xs)
  case Nil
  then show ?case by simp
next
  case (Cons y ys)
  show ?case
  proof (cases "y = a")
    case True
    with Cons.prems have "k \<notin> a_id ` set (unset_primary (a_product_id a) ys)"
      by (metis distinct.simps(2) ids_unchanged(1) list.simps(9) set_map)
    then have "set_primary k (unset_primary (a_product_id a) ys) = unset_primary (a_product_id a) ys"
      by (rule set_primary_absent)
    then have rest: "gallery_primaries (a_product_id a)
        (set_primary k (unset_primary (a_product_id a) ys)) = []"
      by simp
    have head: "set_primary k (unset_primary (a_product_id a) (a # ys)) =
        a\<lparr>a_is_primary := True\<rparr> # set_primary k (unset_primary (a_product_id a) ys)"
      using Cons.prems(3,4) by (simp add: set_primary_def unset_primary_def)
    show ?thesis
      unfolding True head using rest Cons.prems(4)
      by (simp add: gallery_primaries_def)
  next
    case False
    with Cons.prems have a: "a \<in> set ys" by simp
    with Cons.prems have "a_id y \<noteq> k" by force
    then have "gallery_primaries (a_product_id a)
        (set_primary k (unset_primary (a_product_id a) (y # ys))) =
        gallery_primaries (a_product_id a) (set_primary k (unset_primary (a_product_id a) ys))"
      by (auto simp: gallery_primaries_def set_primary_def unset_primary_def)
    with Cons a show ?thesis by simp
  qed
qed

lemma secondaries_unset_same [simp]: "gallery_secondaries p (unset_secondary p xs) = []"
  by (induction xs) (auto simp: gallery_secondaries_def unset_secondary_def)

lemma assets_ok_mono: "assets_ok n xs \<Longrightarrow> n \<le> m \<Longrightarrow> assets_ok m xs"
  by (auto simp: assets_ok_def list_all_iff)


lemma invariant_console [simp]:
  "primary_invariant (console_error l d s) = primary_invariant s"
  "primary_invariant (issue c s) = primary_invariant s"
  by (simp_all add: primary_invariant_def)

lemma clear_primary_invariant:
  "primary_invariant s \<Longrightarrow> primary_invariant (clear_primary w p s)"
  by (simp add: primary_invariant_def assets_clear assets_ok_unset_primary)

lemma clear_secondary_invariant:
  "primary_invariant s \<Longrightarrow> primary_invariant (clear_secondary w p s)"
  by (simp add: primary_invariant_def assets_clear assets_ok_unset_secondary)

lemma primary_ids_unset_secondary [simp]:
  "map a_id (gallery_primaries q (unset_secondary p xs)) = map a_id (gallery_primaries q xs)"
  by (induction xs) (simp_all add: gallery_primaries_def unset_secondary_def)

lemma secondary_ids_unset_primary [simp]:
  "map a_id (gallery_secondaries q (unset_primary p xs)) = map a_id (gallery_secondaries q xs)"
  by (induction xs) (simp_all add: gallery_secondaries_def unset_primary_def)

lemma no_primaries_unset_secondary [simp]:
  "gallery_primaries q (unset_secondary p xs) = [] \<longleftrightarrow> gallery_primaries q xs = []"
  using primaries_unset_secondary [of q p xs] by (metis length_0_conv)

lemma setAssetAsSecondary_invariant:
  assumes "primary_invariant s"
  shows "primary_invariant (snd (setAssetAsSecondary w assetId productId s))"
proof -
  have c: "primary_invariant (clear_secondary w productId s)"
    using assms by (rule clear_secondary_invariant)
  then have "assets_ok (next_id s) (product_assets (clear_secondary w productId s))"
    by (simp add: primary_invariant_def)
  then have "assets_ok (next_id s)
      (set_secondary k (product_assets (clear_secondary w productId s)))" for k
    by (rule assets_ok_set_secondary)
  with c show ?thesis
    by (auto simp: setAssetAsSecondary_def Let_def primary_invariant_def split: option.splits)
qed

lemma updateAssetOrder_from_invariant:
  "primary_invariant s \<Longrightarrow> primary_invariant (snd (updateAssetOrder_from w productId sec i ids s))"
proof (induction ids arbitrary: i s)
  case Nil
  then show ?case by simp
next
  case (Cons k ks)
  have step: "primary_invariant
      ((issue (Update ''product_assets'') s)
         \<lparr>product_assets := set_sort_order k productId sec i
             (product_assets (issue (Update ''product_assets'') s))\<rparr>)"
    using Cons.prems
    by (simp add: primary_invariant_def assets_ok_set_sort_order)
  have err: "primary_invariant (issue (Update ''product_assets'') s)"
    using Cons.prems by (simp add: primary_invariant_def)
  show ?case
    using Cons.IH [OF step] err by (simp add: Let_def split: option.splits)
qed

lemma deleteProductAsset_invariant:
  "primary_invariant s \<Longrightarrow> primary_invariant (snd (deleteProductAsset w assetId s))"
  by (auto simp: deleteProductAsset_def Let_def primary_invariant_def
      assets_ok_filter split: option.splits)

lemma removals_tables [simp]:
  "product_assets (foldl (\<lambda>st g. issue (Storage_remove (snd g)) st) s gs) = product_assets s"
  "next_id (foldl (\<lambda>st g. issue (Storage_remove (snd g)) st) s gs) = next_id s"
  by (induction gs arbitrary: s) simp_all

lemma deleteProduct_invariant:
  "primary_invariant s \<Longrightarrow> primary_invariant (snd (deleteProduct w productId s))"
  by (auto simp: deleteProduct_def Let_def primary_invariant_def
      assets_ok_filter split: option.splits)

text \<open>\<open>setAssetAsPrimary\<close> on a gallery asset that the lookup finds.\<close>

lemma setAssetAsPrimary_found:
  assumes "filter (\<lambda>x. a_id x = assetId) (product_assets s) = [a]"
    and "failure w (length (calls s)) = None" and "a_section a = Gallery"
  shows "setAssetAsPrimary w assetId s =
           (let s2 = clear_primary w (a_product_id a) (issue (Select ''product_assets'') s);
                s3 = issue (Update ''product_assets'') s2
            in case failure w (Suc (Suc (length (calls s)))) of
                 Some e \<Rightarrow> (Inl (Error (''Error setting primary: '' @ e)), s3)
               | None \<Rightarrow>
                   (Inr (), s3\<lparr>product_assets := set_primary assetId (product_assets s2)\<rparr>))"
  using assms
  by (simp add: setAssetAsPrimary_def Let_def answer_error_def split: option.splits)

lemma setAssetAsPrimary_absent:
  assumes "single (filter (\<lambda>x. a_id x = assetId) (product_assets s)) = None"
  shows "setAssetAsPrimary w assetId s =
           (Inl (Error ''Asset not found''), issue (Select ''product_assets'') s)"
  using assms by (simp add: setAssetAsPrimary_def Let_def)

lemma setAssetAsPrimary_refused:
  assumes "single (filter (\<lambda>x. a_id x = assetId) (product_assets s)) = Some a"
    and "failure w (length (calls s)) \<noteq> None \<or> a_section a \<noteq> Gallery"
  shows "setAssetAsPrimary w assetId s =
           (Inl (Error (if failure w (length (calls s)) = None
                        then ''Only gallery assets can be primary'' else ''Asset not found'')),
            issue (Select ''product_assets'') s)"
  using assms by (auto simp: setAssetAsPrimary_def Let_def answer_error_def)

lemma single_Some_filter:
  "single xs = Some a \<Longrightarrow> xs = [a]"
  by (cases xs rule: single.cases) simp_all

lemma setAssetAsPrimary_invariant:
  assumes "primary_invariant s"
    and "failure w (Suc (length (calls s))) = None \<or> fst (setAssetAsPrimary w assetId s) \<noteq> Inr ()"
  shows "primary_invariant (snd (setAssetAsPrimary w assetId s))"
proof (cases "single (filter (\<lambda>x. a_id x = assetId) (product_assets s))")
  case None
  with assms(1) show ?thesis by (simp add: setAssetAsPrimary_absent)
next
  case (Some a)
  then have f: "filter (\<lambda>x. a_id x = assetId) (product_assets s) = [a]"
    by (rule single_Some_filter)
  then have "a \<in> set (filter (\<lambda>x. a_id x = assetId) (product_assets s))" by simp
  then have a: "a \<in> set (product_assets s)" "a_id a = assetId" by simp_all
  show ?thesis
  proof (cases "failure w (length (calls s)) = None \<and> a_section a = Gallery")
    case False
    then have "failure w (length (calls s)) \<noteq> None \<or> a_section a \<noteq> Gallery" by simp
    from setAssetAsPrimary_refused [OF Some this] assms(1) show ?thesis by simp
  next
    case True
    then have g: "failure w (length (calls s)) = None" "a_section a = Gallery" by simp_all
    let ?s2 = "clear_primary w (a_product_id a) (issue (Select ''product_assets'') s)"
    have inv2: "primary_invariant ?s2"
      using assms(1) by (simp add: clear_primary_invariant)
    show ?thesis
    proof (cases "failure w (Suc (Suc (length (calls s))))")
      case (Some e)
      with inv2 show ?thesis
        by (simp add: setAssetAsPrimary_found [OF f g] Let_def)
    next
      case None
      then have ok: "fst (setAssetAsPrimary w assetId s) = Inr ()"
        by (simp add: setAssetAsPrimary_found [OF f g] Let_def)
      with assms(2) have ans: "failure w (Suc (length (calls s))) = None" by simp
      then have p2: "product_assets ?s2 = unset_primary (a_product_id a) (product_assets s)"
        by (simp add: assets_clear answered_def answer_error_def)
      from assms(1) have "assets_ok (next_id s) (product_assets s)"
        by (simp add: primary_invariant_def)
      then have "assets_ok (next_id s)
          (set_primary assetId (unset_primary (a_product_id a) (product_assets s)))"
        using a g(2) by (rule assets_ok_set_primary)
      with None p2 show ?thesis
        by (simp add: setAssetAsPrimary_found [OF f g] Let_def primary_invariant_def)
    qed
  qed
qed


lemma uploadProductAsset_invariant:
  assumes "primary_invariant s"
    and "uo_is_primary opts = Some True \<and> uo_section opts = Gallery \<longrightarrow>
           failure w (Suc (length (calls s))) = None"
  shows "primary_invariant (snd (uploadProductAsset w productId fl opts s))"
proof -
  from assms(1) have ok: "assets_ok (next_id s) (product_assets s)"
    by (simp add: primary_invariant_def)
  show ?thesis
  proof (cases "uo_is_primary opts = Some True \<and> uo_section opts = Gallery")
    case True
    with assms(2) have ans: "failure w (Suc (length (calls s))) = None" by simp
    have "assets_ok (next_id s + 1) (unset_primary productId (product_assets s) @ [a])"
      if "a_product_id a = productId" "a_id a = next_id s" for a
      using ok that by (intro assets_ok_append assets_ok_unset_primary) auto
    then show ?thesis
      using True ok ans
      by (auto simp: uploadProductAsset_def Let_def Date_now_def primary_invariant_def
          assets_ok_unset_primary assets_clear answered_def answer_error_def
          split: option.splits)
  next
    case False
    have "assets_ok (next_id s + 1) (product_assets s @ [a])"
      if "\<not> (a_section a = Gallery \<and> a_is_primary a)" "a_id a = next_id s" for a
      using ok that by (intro assets_ok_append) auto
    then show ?thesis
      using False ok
      by (auto simp: uploadProductAsset_def Let_def Date_now_def primary_invariant_def
          split: option.splits)
  qed
qed

lemma move_file_tables [simp]:
  "product_assets (snd (move_file w oldPath newPath name s)) = product_assets s"
  "next_id (snd (move_file w oldPath newPath name s)) = next_id s"
  by (simp_all add: move_file_def Let_def split: option.splits)

lemma moved_tables [simp]:
  "product_assets (moved w productId fl sec s) = product_assets s"
  "next_id (moved w productId fl sec s) = next_id s"
  by (simp_all add: moved_def)

text \<open>The table when \<open>create_asset_record\<close> has issued its clearing updates.\<close>

lemma create_asset_record_result:
  "(\<exists>e. fst (create_asset_record w productId productName fl sec newPath isPrimary isSecondary s) = Inl e \<and>
        next_id (snd (create_asset_record w productId productName fl sec newPath isPrimary isSecondary s)) =
          next_id s \<and>
        product_assets (snd (create_asset_record w productId productName fl sec newPath isPrimary isSecondary s)) =
          product_assets
            ((if isSecondary then clear_secondary w productId else (\<lambda>st. st))
               ((if isPrimary then clear_primary w productId else (\<lambda>st. st))
                  (issue (Select ''product_assets'') s)))) \<or>
   (\<exists>a. fst (create_asset_record w productId productName fl sec newPath isPrimary isSecondary s) = Inr () \<and>
        next_id (snd (create_asset_record w productId productName fl sec newPath isPrimary isSecondary s)) =
          next_id s + 1 \<and>
        product_assets (snd (create_asset_record w productId productName fl sec newPath isPrimary isSecondary s)) =
          product_assets
            ((if isSecondary then clear_secondary w productId else (\<lambda>st. st))
               ((if isPrimary then clear_primary w productId else (\<lambda>st. st))
                  (issue (Select ''product_assets'') s))) @ [a] \<and>
        a_id a = next_id s \<and> a_product_id a = productId \<and> a_section a = sec \<and>
        a_is_primary a = isPrimary \<and> a_is_secondary a = isSecondary \<and>
        a_storage_path a = newPath)"
  by (cases isPrimary; cases isSecondary)
     (simp_all add: create_asset_record_def Let_def split: option.splits)

lemma cleared_invariant:
  assumes "primary_invariant s"
  shows "primary_invariant
           ((if isSecondary then clear_secondary w productId else (\<lambda>st. st))
              ((if isPrimary then clear_primary w productId else (\<lambda>st. st))
                 (issue (Select ''product_assets'') s)))"
  using assms by (simp add: clear_primary_invariant clear_secondary_invariant)

lemma cleared_next_id [simp]:
  "next_id ((if isSecondary then clear_secondary w productId else (\<lambda>st. st))
              ((if isPrimary then clear_primary w productId else (\<lambda>st. st))
                 (issue (Select ''product_assets'') s))) = next_id s"
  by simp

lemma cleared_no_primaries:
  assumes "isPrimary" and "failure w (Suc (length (calls s))) = None"
  shows "gallery_primaries productId
           (product_assets
              ((if isSecondary then clear_secondary w productId else (\<lambda>st. st))
                 ((if isPrimary then clear_primary w productId else (\<lambda>st. st))
                    (issue (Select ''product_assets'') s)))) = []"
  using assms by (simp add: assets_clear answered_def answer_error_def)

lemma cleared_no_secondaries:
  assumes "isSecondary"
    and "failure w (if isPrimary then Suc (Suc (length (calls s))) else Suc (length (calls s))) = None"
  shows "gallery_secondaries productId
           (product_assets
              ((if isSecondary then clear_secondary w productId else (\<lambda>st. st))
                 ((if isPrimary then clear_primary w productId else (\<lambda>st. st))
                    (issue (Select ''product_assets'') s)))) = []"
  using assms by (cases isPrimary) (auto simp: assets_clear answered_def answer_error_def)

lemma create_asset_record_invariant:
  assumes "primary_invariant s"
    and "isPrimary \<longrightarrow> failure w (Suc (length (calls s))) = None"
  shows "primary_invariant
           (snd (create_asset_record w productId productName fl sec newPath isPrimary isSecondary s))"
proof -
  let ?c = "(if isSecondary then clear_secondary w productId else (\<lambda>st. st))
              ((if isPrimary then clear_primary w productId else (\<lambda>st. st))
                 (issue (Select ''product_assets'') s))"
  have inv: "primary_invariant ?c" using assms(1) by (rule cleared_invariant)
  then have ok: "assets_ok (next_id s) (product_assets ?c)"
    by (simp add: primary_invariant_def)
  have new: "assets_ok (next_id s + 1) (product_assets ?c @ [a])"
    if "a_product_id a = productId" "a_id a = next_id s" "a_is_primary a = isPrimary" for a
    using ok that(2)
  proof (rule assets_ok_append)
    show "a_section a = Gallery \<and> a_is_primary a \<longrightarrow>
        gallery_primaries (a_product_id a) (product_assets ?c) = []"
      using cleared_no_primaries [of isPrimary w s productId isSecondary] assms(2) that
      by auto
  qed
  show ?thesis
    using create_asset_record_result [where w = w and productId = productId
        and productName = productName and fl = fl and sec = sec and newPath = newPath
        and isPrimary = isPrimary and isSecondary = isSecondary and s = s]
      ok new
    unfolding primary_invariant_def by (elim disjE exE conjE) simp_all
qed

lemma moveFileAndCreateAsset_moved:
  "moveFileAndCreateAsset w productId productName fl sec isPrimary isSecondary s =
     (case fst (move_file w (uf_storage_path fl) (final_path w productId fl sec s)
                  (uf_filename fl) (snd (Date_now w s))) of
        Inl e \<Rightarrow> (Inl e, moved w productId fl sec s)
      | Inr u \<Rightarrow>
          create_asset_record w productId productName fl sec (final_path w productId fl sec s)
            isPrimary isSecondary (moved w productId fl sec s))"
  unfolding moveFileAndCreateAsset_unfold moved_def
  by (simp split: prod.splits sum.splits)

lemma moved_invariant [simp]:
  "primary_invariant (moved w productId fl sec s) = primary_invariant s"
  by (simp add: primary_invariant_def)

lemma moveFileAndCreateAsset_invariant:
  assumes "primary_invariant s"
    and "isPrimary \<longrightarrow> failure w (Suc (length (calls (moved w productId fl sec s)))) = None"
  shows "primary_invariant
           (snd (moveFileAndCreateAsset w productId productName fl sec isPrimary isSecondary s))"
proof -
  have m: "primary_invariant (moved w productId fl sec s)" using assms(1) by simp
  show ?thesis
    unfolding moveFileAndCreateAsset_moved
    using m create_asset_record_invariant [OF m assms(2)]
    by (simp split: sum.splits)
qed


lemma invariant_unique:
  assumes "primary_invariant s" "a \<in> set (product_assets s)" "a_id a = assetId"
  shows "filter (\<lambda>x. a_id x = assetId) (product_assets s) = [a]"
proof -
  from assms(1) have "distinct (map a_id (product_assets s))"
    by (simp add: primary_invariant_def assets_ok_def)
  from filter_unique_key [OF this assms(2)] assms(3) show ?thesis by simp
qed

lemma setAssetAsPrimary_not_gallery:
  assumes "primary_invariant s"
    and "a \<in> set (product_assets s)" "a_id a = assetId" "a_section a \<noteq> Gallery"
  shows "fst (setAssetAsPrimary w assetId s) =
           Inl (Error (if failure w (length (calls s)) = None
                       then ''Only gallery assets can be primary'' else ''Asset not found'')) \<and>
         snd (setAssetAsPrimary w assetId s) = issue (Select ''product_assets'') s"
proof -
  have "single (filter (\<lambda>x. a_id x = assetId) (product_assets s)) = Some a"
    using invariant_unique [OF assms(1,2,3)] by simp
  from setAssetAsPrimary_refused [OF this, of w] assms(4) show ?thesis by simp
qed

lemma setAssetAsPrimary_calls:
  assumes "primary_invariant s"
    and "a \<in> set (product_assets s)" "a_id a = assetId" "a_section a = Gallery"
    and "failure w (length (calls s)) = None"
  shows "calls (snd (setAssetAsPrimary w assetId s)) =
           calls s @ [Select ''product_assets'', Update ''product_assets'',
                      Update ''product_assets'']"
  using setAssetAsPrimary_found [OF invariant_unique [OF assms(1,2,3)] assms(5,4)]
  by (simp add: Let_def split: option.splits)

lemma setAssetAsPrimary_sets_one:
  assumes "primary_invariant s"
    and "a \<in> set (product_assets s)" "a_id a = assetId" "a_section a = Gallery"
    and "failure w (Suc (length (calls s))) = None"
    and "fst (setAssetAsPrimary w assetId s) = Inr ()"
  shows "gallery_primaries (a_product_id a) (product_assets (snd (setAssetAsPrimary w assetId s))) =
           [a\<lparr>a_is_primary := True\<rparr>]"
proof -
  note f = invariant_unique [OF assms(1,2,3)]
  have g: "failure w (length (calls s)) = None"
  proof (rule ccontr)
    assume "failure w (length (calls s)) \<noteq> None"
    then have "failure w (length (calls s)) \<noteq> None \<or> a_section a \<noteq> Gallery" by simp
    from setAssetAsPrimary_refused [OF _ this, of assetId] f assms(6) show False by simp
  qed
  from assms(1) have d: "distinct (map a_id (product_assets s))"
    by (simp add: primary_invariant_def assets_ok_def)
  have "product_assets (snd (setAssetAsPrimary w assetId s)) =
      set_primary assetId (unset_primary (a_product_id a) (product_assets s))"
    using assms(5,6)
    by (simp add: setAssetAsPrimary_found [OF f g assms(4)] Let_def assets_clear answered_def
        answer_error_def split: option.splits)
  with primaries_after_set [OF d assms(2,3,4)] show ?thesis by simp
qed

lemma moveFileAndCreateAsset_success:
  assumes "fst (moveFileAndCreateAsset w productId productName fl sec isPrimary isSecondary s) = Inr ()"
  shows "\<exists>a. product_assets
               (snd (moveFileAndCreateAsset w productId productName fl sec isPrimary isSecondary s)) =
             product_assets
               ((if isSecondary then clear_secondary w productId else (\<lambda>st. st))
                  ((if isPrimary then clear_primary w productId else (\<lambda>st. st))
                     (issue (Select ''product_assets'') (moved w productId fl sec s)))) @ [a] \<and>
             a_id a = next_id s \<and> a_product_id a = productId \<and> a_section a = sec \<and>
             a_is_primary a = isPrimary \<and> a_is_secondary a = isSecondary \<and>
             a_storage_path a = final_path w productId fl sec s"
proof (cases "fst (move_file w (uf_storage_path fl) (final_path w productId fl sec s)
                  (uf_filename fl) (snd (Date_now w s)))")
  case (Inl e)
  with assms show ?thesis by (simp add: moveFileAndCreateAsset_moved)
next
  case (Inr u)
  then have eq: "moveFileAndCreateAsset w productId productName fl sec isPrimary isSecondary s =
      create_asset_record w productId productName fl sec (final_path w productId fl sec s)
        isPrimary isSecondary (moved w productId fl sec s)"
    by (simp add: moveFileAndCreateAsset_moved)
  show ?thesis
    using assms
      create_asset_record_result [where w = w and productId = productId
        and productName = productName and fl = fl and sec = sec
        and newPath = "final_path w productId fl sec s"
        and isPrimary = isPrimary and isSecondary = isSecondary
        and s = "moved w productId fl sec s"]
    unfolding eq by auto
qed

lemma moveFileAndCreateAsset_new_primary:
  assumes "fst (moveFileAndCreateAsset w productId productName fl Gallery True isSecondary s) = Inr ()"
    and "failure w (Suc (length (calls (moved w productId fl Gallery s)))) = None"
  shows "map a_id (gallery_primaries productId
           (product_assets
              (snd (moveFileAndCreateAsset w productId productName fl Gallery True isSecondary s)))) =
         [next_id s] \<and>
         map a_storage_path (gallery_primaries productId
           (product_assets
              (snd (moveFileAndCreateAsset w productId productName fl Gallery True isSecondary s)))) =
         [final_path w productId fl Gallery s]"
proof -
  from moveFileAndCreateAsset_success [OF assms(1)] obtain a where a:
    "product_assets
       (snd (moveFileAndCreateAsset w productId productName fl Gallery True isSecondary s)) =
     product_assets
       ((if isSecondary then clear_secondary w productId else (\<lambda>st. st))
          ((if True then clear_primary w productId else (\<lambda>st. st))
             (issue (Select ''product_assets'') (moved w productId fl Gallery s)))) @ [a]"
    "a_id a = next_id s" "a_product_id a = productId" "a_section a = Gallery"
    "a_is_primary a = True" "a_storage_path a = final_path w productId fl Gallery s"
    by blast
  have none: "gallery_primaries productId
      (product_assets
        ((if isSecondary then clear_secondary w productId else (\<lambda>st. st))
           ((if True then clear_primary w productId else (\<lambda>st. st))
              (issue (Select ''product_assets'') (moved w productId fl Gallery s))))) = []"
    by (rule cleared_no_primaries) (simp_all add: assms(2))
  have one: "gallery_primaries productId [a] = [a]"
    using a(3,4,5) by (simp add: gallery_primaries_def)
  show ?thesis
    unfolding a(1) primaries_append none one using a(2,6) by simp
qed

lemma secondaries_append [simp]:
  "gallery_secondaries q (xs @ ys) = gallery_secondaries q xs @ gallery_secondaries q ys"
  by (simp add: gallery_secondaries_def)

lemma moveFileAndCreateAsset_new_secondary:
  assumes "fst (moveFileAndCreateAsset w productId productName fl Gallery isPrimary True s) = Inr ()"
    and "failure w (if isPrimary then Suc (Suc (length (calls (moved w productId fl Gallery s))))
                    else Suc (length (calls (moved w productId fl Gallery s)))) = None"
  shows "map a_id (gallery_secondaries productId
           (product_assets
              (snd (moveFileAndCreateAsset w productId productName fl Gallery isPrimary True s)))) =
         [next_id s]"
proof -
  from moveFileAndCreateAsset_success [OF assms(1)] obtain a where a:
    "product_assets
       (snd (moveFileAndCreateAsset w productId productName fl Gallery isPrimary True s)) =
     product_assets
       ((if True then clear_secondary w productId else (\<lambda>st. st))
          ((if isPrimary then clear_primary w productId else (\<lambda>st. st))
             (issue (Select ''product_assets'') (moved w productId fl Gallery s)))) @ [a]"
    "a_id a = next_id s" "a_product_id a = productId" "a_section a = Gallery"
    "a_is_secondary a = True"
    by blast
  have none: "gallery_secondaries productId
      (product_assets
        ((if True then clear_secondary w productId else (\<lambda>st. st))
           ((if isPrimary then clear_primary w productId else (\<lambda>st. st))
              (issue (Select ''product_assets'') (moved w productId fl Gallery s))))) = []"
    by (rule cleared_no_secondaries) (simp_all add: assms(2))
  have one: "gallery_secondaries productId [a] = [a]"
    using a(3,4,5) by (simp add: gallery_secondaries_def)
  show ?thesis
    unfolding a(1) secondaries_append none one using a(2) by simp
qed

lemma moveFileAndCreateAsset_calls:
  assumes "fst (moveFileAndCreateAsset w productId productName fl sec isPrimary isSecondary s) = Inr ()"
  shows "calls (snd (moveFileAndCreateAsset w productId productName fl sec isPrimary isSecondary s)) =
           calls (moved w productId fl sec s) @ [Select ''product_assets''] @
           (if isPrimary then [Update ''product_assets''] else []) @
           (if isSecondary then [Update ''product_assets''] else []) @
           [Insert ''product_assets'']"
proof (cases "fst (move_file w (uf_storage_path fl) (final_path w productId fl sec s)
                  (uf_filename fl) (snd (Date_now w s)))")
  case (Inl e)
  with assms show ?thesis by (simp add: moveFileAndCreateAsset_moved)
next
  case (Inr u)
  then show ?thesis
    by (simp add: moveFileAndCreateAsset_moved create_asset_record_calls)
qed


text \<open>
  Claim C8, as amended. For every product, at most one of its gallery assets has
  \<open>is_primary = true\<close> after an asset operation whose clearing update the platform carries
  out. The store invariant \<open>primary_invariant\<close> says that asset ids are unique and below
  the next id to be given, and that every product has at most one primary gallery asset.
  \<open>setAssetAsPrimary\<close> keeps it when the platform answers the clearing update, its second
  call, and also whenever it throws; \<open>uploadProductAsset\<close> and \<open>moveFileAndCreateAsset\<close>
  keep it when the platform answers the clearing update they issue for a primary asset;
  \<open>setAssetAsSecondary\<close>, \<open>deleteProductAsset\<close>, \<open>updateAssetOrder\<close> and
  \<open>deleteProduct\<close> keep it whatever the platform answers. \<open>setAssetAsPrimary\<close> throws on
  an asset outside the gallery after its lookup alone; on a gallery asset it issues the
  lookup, the clearing update and the setting update in this order, and when it returns
  after an answered clearing, the chosen asset is the only primary one of its product.
  \<open>moveFileAndCreateAsset\<close> issues, once the file is moved, a lookup, the clearing updates
  asked for and the insert, in this order; when it returns for a primary (secondary)
  gallery asset after an answered clearing, the only primary (secondary) gallery asset of
  the product is the new row, with the next id and the new path.
\<close>

theorem one_primary_preserved:
  assumes "primary_invariant s"
  shows
    "one_primary (product_assets s) \<and>
     (failure w (Suc (length (calls s))) = None \<or> fst (setAssetAsPrimary w assetId s) \<noteq> Inr () \<longrightarrow>
        primary_invariant (snd (setAssetAsPrimary w assetId s))) \<and>
     ((uo_is_primary opts = Some True \<and> uo_section opts = Gallery \<longrightarrow>
         failure w (Suc (length (calls s))) = None) \<longrightarrow>
        primary_invariant (snd (uploadProductAsset w productId fl opts s))) \<and>
     ((isPrimary \<longrightarrow> failure w (Suc (length (calls (moved w productId upl sec s)))) = None) \<longrightarrow>
        primary_invariant
          (snd (moveFileAndCreateAsset w productId productName upl sec isPrimary isSecondary s))) \<and>
     primary_invariant (snd (setAssetAsSecondary w secondaryId productId s)) \<and>
     primary_invariant (snd (deleteProductAsset w assetId s)) \<and>
     primary_invariant (snd (updateAssetOrder w productId sec ids s)) \<and>
     primary_invariant (snd (deleteProduct w productId s)) \<and>
     (a \<in> set (product_assets s) \<and> a_id a = assetId \<and> a_section a \<noteq> Gallery \<longrightarrow>
        setAssetAsPrimary w assetId s =
          (Inl (Error (if failure w (length (calls s)) = None
                       then ''Only gallery assets can be primary'' else ''Asset not found'')),
           issue (Select ''product_assets'') s)) \<and>
     (a \<in> set (product_assets s) \<and> a_id a = assetId \<and> a_section a = Gallery \<and>
      failure w (length (calls s)) = None \<longrightarrow>
        calls_since s (snd (setAssetAsPrimary w assetId s)) =
          [Select ''product_assets'', Update ''product_assets'', Update ''product_assets'']) \<and>
     (a \<in> set (product_assets s) \<and> a_id a = assetId \<and> a_section a = Gallery \<and>
      failure w (Suc (length (calls s))) = None \<and>
      fst (setAssetAsPrimary w assetId s) = Inr () \<longrightarrow>
        gallery_primaries (a_product_id a) (product_assets (snd (setAssetAsPrimary w assetId s))) =
          [a\<lparr>a_is_primary := True\<rparr>]) \<and>
     (fst (moveFileAndCreateAsset w productId productName upl sec isPrimary isSecondary s) = Inr () \<longrightarrow>
        calls_since (moved w productId upl sec s)
          (snd (moveFileAndCreateAsset w productId productName upl sec isPrimary isSecondary s)) =
          [Select ''product_assets''] @
          (if isPrimary then [Update ''product_assets''] else []) @
          (if isSecondary then [Update ''product_assets''] else []) @
          [Insert ''product_assets'']) \<and>
     (fst (moveFileAndCreateAsset w productId productName upl Gallery True isSecondary s) = Inr () \<and>
      failure w (Suc (length (calls (moved w productId upl Gallery s)))) = None \<longrightarrow>
        map a_id (gallery_primaries productId
          (product_assets
             (snd (moveFileAndCreateAsset w productId productName upl Gallery True isSecondary s)))) =
          [next_id s] \<and>
        map a_storage_path (gallery_primaries productId
          (product_assets
             (snd (moveFileAndCreateAsset w productId productName upl Gallery True isSecondary s)))) =
          [final_path w productId upl Gallery s]) \<and>
     (fst (moveFileAndCreateAsset w productId productName upl Gallery isPrimary True s) = Inr () \<and>
      failure w (if isPrimary then Suc (Suc (length (calls (moved w productId upl Gallery s))))
                 else Suc (length (calls (moved w productId upl Gallery s)))) = None \<longrightarrow>
        map a_id (gallery_secondaries productId
          (product_assets
             (snd (moveFileAndCreateAsset w productId productName upl Gallery isPrimary True s)))) =
          [next_id s])"
proof (intro conjI impI)
  show "one_primary (product_assets s)"
    using assms by (simp add: primary_invariant_def assets_ok_def)
  show "primary_invariant (snd (setAssetAsSecondary w secondaryId productId s))"
    using assms by (rule setAssetAsSecondary_invariant)
  show "primary_invariant (snd (deleteProductAsset w assetId s))"
    using assms by (rule deleteProductAsset_invariant)
  show "primary_invariant (snd (updateAssetOrder w productId sec ids s))"
    unfolding updateAssetOrder_def using assms by (rule updateAssetOrder_from_invariant)
  show "primary_invariant (snd (deleteProduct w productId s))"
    using assms by (rule deleteProduct_invariant)
next
  assume "failure w (Suc (length (calls s))) = None \<or> fst (setAssetAsPrimary w assetId s) \<noteq> Inr ()"
  with assms show "primary_invariant (snd (setAssetAsPrimary w assetId s))"
    by (rule setAssetAsPrimary_invariant)
next
  assume "uo_is_primary opts = Some True \<and> uo_section opts = Gallery \<longrightarrow>
         failure w (Suc (length (calls s))) = None"
  with assms show "primary_invariant (snd (uploadProductAsset w productId fl opts s))"
    by (rule uploadProductAsset_invariant)
next
  assume "isPrimary \<longrightarrow> failure w (Suc (length (calls (moved w productId upl sec s)))) = None"
  with assms show "primary_invariant
          (snd (moveFileAndCreateAsset w productId productName upl sec isPrimary isSecondary s))"
    by (rule moveFileAndCreateAsset_invariant)
next
  assume "a \<in> set (product_assets s) \<and> a_id a = assetId \<and> a_section a \<noteq> Gallery"
  then have h: "a \<in> set (product_assets s)" "a_id a = assetId" "a_section a \<noteq> Gallery"
    by blast+
  from setAssetAsPrimary_not_gallery [OF assms h, of w]
  show "setAssetAsPrimary w assetId s =
          (Inl (Error (if failure w (length (calls s)) = None
                       then ''Only gallery assets can be primary'' else ''Asset not found'')),
           issue (Select ''product_assets'') s)"
    by (simp add: prod_eq_iff)
next
  assume "a \<in> set (product_assets s) \<and> a_id a = assetId \<and> a_section a = Gallery \<and>
      failure w (length (calls s)) = None"
  then have h: "a \<in> set (product_assets s)" "a_id a = assetId" "a_section a = Gallery"
    "failure w (length (calls s)) = None"
    by blast+
  show "calls_since s (snd (setAssetAsPrimary w assetId s)) =
          [Select ''product_assets'', Update ''product_assets'', Update ''product_assets'']"
    by (simp add: calls_since_def setAssetAsPrimary_calls [OF assms h])
next
  assume "a \<in> set (product_assets s) \<and> a_id a = assetId \<and> a_section a = Gallery \<and>
      failure w (Suc (length (calls s))) = None \<and>
      fst (setAssetAsPrimary w assetId s) = Inr ()"
  then have h: "a \<in> set (product_assets s)" "a_id a = assetId" "a_section a = Gallery"
    "failure w (Suc (length (calls s))) = None" "fst (setAssetAsPrimary w assetId s) = Inr ()"
    by blast+
  show "gallery_primaries (a_product_id a) (product_assets (snd (setAssetAsPrimary w assetId s))) =
          [a\<lparr>a_is_primary := True\<rparr>]"
    by (rule setAssetAsPrimary_sets_one [OF assms h])
next
  assume ok: "fst (moveFileAndCreateAsset w productId productName upl sec isPrimary isSecondary s) =
      Inr ()"
  show "calls_since (moved w productId upl sec s)
          (snd (moveFileAndCreateAsset w productId productName upl sec isPrimary isSecondary s)) =
          [Select ''product_assets''] @
          (if isPrimary then [Update ''product_assets''] else []) @
          (if isSecondary then [Update ''product_assets''] else []) @
          [Insert ''product_assets'']"
    by (simp add: calls_since_def moveFileAndCreateAsset_calls [OF ok])
next
  assume "fst (moveFileAndCreateAsset w productId productName upl Gallery True isSecondary s) = Inr () \<and>
      failure w (Suc (length (calls (moved w productId upl Gallery s)))) = None"
  then have h: "fst (moveFileAndCreateAsset w productId productName upl Gallery True isSecondary s) =
      Inr ()" "failure w (Suc (length (calls (moved w productId upl Gallery s)))) = None"
    by blast+
  note r = moveFileAndCreateAsset_new_primary [OF h]
  from r show "map a_id (gallery_primaries productId
          (product_assets
             (snd (moveFileAndCreateAsset w productId productName upl Gallery True isSecondary s)))) =
          [next_id s]" by blast
  from r show "map a_storage_path (gallery_primaries productId
          (product_assets
             (snd (moveFileAndCreateAsset w productId productName upl Gallery True isSecondary s)))) =
          [final_path w productId upl Gallery s]" by blast
next
  assume "fst (moveFileAndCreateAsset w productId productName upl Gallery isPrimary True s) = Inr () \<and>
      failure w (if isPrimary then Suc (Suc (length (calls (moved w productId upl Gallery s))))
                 else Suc (length (calls (moved w productId upl Gallery s)))) = None"
  then have h: "fst (moveFileAndCreateAsset w productId productName upl Gallery isPrimary True s) =
      Inr ()"
    "failure w (if isPrimary then Suc (Suc (length (calls (moved w productId upl Gallery s))))
                 else Suc (length (calls (moved w productId upl Gallery s)))) = None"
    by blast+
  show "map a_id (gallery_secondaries productId
          (product_assets
             (snd (moveFileAndCreateAsset w productId productName upl Gallery isPrimary True s)))) =
          [next_id s]"
    by (rule moveFileAndCreateAsset_new_secondary [OF h])
qed


lemma asset_store_invariant: "primary_invariant asset_store"
  by (simp add: primary_invariant_def assets_ok_def one_primary_def gallery_primaries_def
      asset_store_def sample_store_def empty_store_def sample_asset_def sample_asset2_def
      sample_manual_def)

lemma asset_store_fields:
  "calls asset_store = []" "next_id asset_store = 10"
  "product_assets asset_store = [sample_asset, sample_asset2, sample_manual]"
  "ticks asset_store = 0"
  by (simp_all add: asset_store_def sample_store_def empty_store_def)

lemma sample_asset_fields:
  "a_id sample_asset = 5" "a_id sample_asset2 = 6" "a_id sample_manual = 7"
  "a_product_id sample_asset = 3" "a_product_id sample_asset2 = 3" "a_product_id sample_manual = 3"
  "a_section sample_asset = Gallery" "a_section sample_asset2 = Gallery"
  "a_section sample_manual = Download"
  "a_is_primary sample_asset" "\<not> a_is_primary sample_asset2" "\<not> a_is_primary sample_manual"
  by (simp_all add: sample_asset_def sample_asset2_def sample_manual_def)

lemma moved_answered:
  "failure w (length (calls s)) = None \<Longrightarrow>
   moved w productId upl sec s =
     issue (Storage_move (uf_storage_path upl) (final_path w productId upl sec s))
       (snd (Date_now w s)) \<and>
   fst (move_file w (uf_storage_path upl) (final_path w productId upl sec s) (uf_filename upl)
          (snd (Date_now w s))) = Inr ()"
  by (simp add: moved_def move_file_def Let_def answer_error_def)

lemma moveFileAndCreateAsset_returns:
  assumes "failure w (length (calls s)) = None"
    and "failure w (length (calls s) + 2 + (if isPrimary then 1 else 0) +
           (if isSecondary then 1 else 0)) = None"
  shows "fst (moveFileAndCreateAsset w productId productName upl sec isPrimary isSecondary s) = Inr ()"
  using assms moved_answered [OF assms(1), of productId upl sec]
  by (cases isPrimary; cases isSecondary)
     (simp_all add: moveFileAndCreateAsset_moved create_asset_record_def Let_def answer_error_def)

theorem one_primary_preserved_witness:
  "primary_invariant asset_store \<and>
   gallery_primaries 3 (product_assets asset_store) = [sample_asset] \<and>
   failure sample_world (Suc (length (calls asset_store))) = None \<and>
   fst (setAssetAsPrimary sample_world 6 asset_store) = Inr () \<and>
   primary_invariant (snd (setAssetAsPrimary sample_world 6 asset_store)) \<and>
   gallery_primaries 3 (product_assets (snd (setAssetAsPrimary sample_world 6 asset_store))) =
     [sample_asset2\<lparr>a_is_primary := True\<rparr>] \<and>
   calls_since asset_store (snd (setAssetAsPrimary sample_world 6 asset_store)) =
     [Select ''product_assets'', Update ''product_assets'', Update ''product_assets''] \<and>
   setAssetAsPrimary sample_world 7 asset_store =
     (Inl (Error ''Only gallery assets can be primary''),
      issue (Select ''product_assets'') asset_store) \<and>
   fst (moveFileAndCreateAsset sample_world 3 ''Silla Eames'' sample_file Gallery True False
          asset_store) = Inr () \<and>
   failure sample_world
     (Suc (length (calls (moved sample_world 3 sample_file Gallery asset_store)))) = None \<and>
   primary_invariant
     (snd (moveFileAndCreateAsset sample_world 3 ''Silla Eames'' sample_file Gallery True False
             asset_store)) \<and>
   map a_id (gallery_primaries 3
     (product_assets
        (snd (moveFileAndCreateAsset sample_world 3 ''Silla Eames'' sample_file Gallery True False
                asset_store)))) = [10] \<and>
   map a_storage_path (gallery_primaries 3
     (product_assets
        (snd (moveFileAndCreateAsset sample_world 3 ''Silla Eames'' sample_file Gallery True False
                asset_store)))) = [final_path sample_world 3 sample_file Gallery asset_store]"
proof -
  have f: "failure sample_world n = None" for n
    by (simp add: sample_world_def)
  have g: "gallery_primaries 3 (product_assets asset_store) = [sample_asset]"
    by (simp add: gallery_primaries_def asset_store_fields sample_asset_fields)
  have m: "sample_asset2 \<in> set (product_assets asset_store)"
    "sample_manual \<in> set (product_assets asset_store)"
    by (simp_all add: asset_store_fields)
  have s: "fst (setAssetAsPrimary sample_world 6 asset_store) = Inr ()"
    by (simp add: setAssetAsPrimary_def Let_def answer_error_def f asset_store_fields
        sample_asset_fields)
  have r: "fst (moveFileAndCreateAsset sample_world 3 ''Silla Eames'' sample_file Gallery True
      False asset_store) = Inr ()"
    by (rule moveFileAndCreateAsset_returns) (simp_all add: f)
  show ?thesis
    using asset_store_invariant f g m s r
      one_primary_preserved [OF asset_store_invariant, where w = sample_world and assetId = 6
        and a = sample_asset2 and productId = 3 and productName = "''Silla Eames''"
        and upl = sample_file and sec = Gallery and isPrimary = True and isSecondary = False]
      one_primary_preserved [OF asset_store_invariant, where w = sample_world and assetId = 7
        and a = sample_manual]
    by (simp add: sample_asset_fields asset_store_fields)
qed

text \<open>
  The claim without its amendment fails: the code discards the answer of the clearing
  update, and when the platform refuses it the old primary asset keeps its flag while the
  chosen asset, or the new row, gets the flag too. The gallery of product 3 then has two
  primary assets.
\<close>

theorem second_primary_left:
  "primary_invariant asset_store \<and>
   map a_id (gallery_primaries 3 (product_assets asset_store)) = [5] \<and>
   failure late_failing_world (Suc (length (calls asset_store))) = Some ''connection reset'' \<and>
   fst (setAssetAsPrimary late_failing_world 6 asset_store) = Inr () \<and>
   map a_id (gallery_primaries 3
     (product_assets (snd (setAssetAsPrimary late_failing_world 6 asset_store)))) = [5, 6] \<and>
   \<not> one_primary (product_assets (snd (setAssetAsPrimary late_failing_world 6 asset_store))) \<and>
   fst (moveFileAndCreateAsset third_failing_world 3 ''Silla Eames'' sample_file Gallery True
          False asset_store) = Inr () \<and>
   map a_id (gallery_primaries 3
     (product_assets
        (snd (moveFileAndCreateAsset third_failing_world 3 ''Silla Eames'' sample_file Gallery
                True False asset_store)))) = [5, 10] \<and>
   \<not> one_primary
       (product_assets
          (snd (moveFileAndCreateAsset third_failing_world 3 ''Silla Eames'' sample_file Gallery
                  True False asset_store)))"
proof -
  have f: "failure late_failing_world 0 = None"
    "failure late_failing_world (Suc 0) = Some ''connection reset''"
    "failure late_failing_world (Suc (Suc 0)) = None"
    "failure third_failing_world 0 = None" "failure third_failing_world (Suc 0) = None"
    "failure third_failing_world (Suc (Suc 0)) = Some ''connection reset''"
    "failure third_failing_world (Suc (Suc (Suc 0))) = None"
    by (simp_all add: late_failing_world_def third_failing_world_def)
  have a: "product_assets (snd (setAssetAsPrimary late_failing_world 6 asset_store)) =
      [sample_asset, sample_asset2\<lparr>a_is_primary := True\<rparr>, sample_manual]"
    "fst (setAssetAsPrimary late_failing_world 6 asset_store) = Inr ()"
    by (simp_all add: setAssetAsPrimary_def Let_def answer_error_def answered_def f
        asset_store_fields sample_asset_fields clear_primary_def set_primary_def)
  have mv: "moved third_failing_world 3 sample_file Gallery asset_store =
      issue (Storage_move (uf_storage_path sample_file)
               (final_path third_failing_world 3 sample_file Gallery asset_store))
        (snd (Date_now third_failing_world asset_store))"
    "fst (move_file third_failing_world (uf_storage_path sample_file)
            (final_path third_failing_world 3 sample_file Gallery asset_store)
            (uf_filename sample_file) (snd (Date_now third_failing_world asset_store))) = Inr ()"
    using moved_answered [of third_failing_world asset_store 3 sample_file Gallery]
    by (simp_all add: f asset_store_fields)
  have b: "fst (moveFileAndCreateAsset third_failing_world 3 ''Silla Eames'' sample_file Gallery
        True False asset_store) = Inr ()"
    "map a_id (product_assets
        (snd (moveFileAndCreateAsset third_failing_world 3 ''Silla Eames'' sample_file Gallery
                True False asset_store))) = [5, 6, 7, 10]"
    "map a_is_primary (product_assets
        (snd (moveFileAndCreateAsset third_failing_world 3 ''Silla Eames'' sample_file Gallery
                True False asset_store))) = [True, False, False, True]"
    "map a_section (product_assets
        (snd (moveFileAndCreateAsset third_failing_world 3 ''Silla Eames'' sample_file Gallery
                True False asset_store))) = [Gallery, Gallery, Download, Gallery]"
    "map a_product_id (product_assets
        (snd (moveFileAndCreateAsset third_failing_world 3 ''Silla Eames'' sample_file Gallery
                True False asset_store))) = [3, 3, 3, 3]"
    unfolding moveFileAndCreateAsset_moved mv
    by (simp_all add: create_asset_record_def Let_def answer_error_def answered_def f
        asset_store_fields sample_asset_fields clear_primary_def)
  have two: "\<not> one_primary xs"
    if "map a_id (gallery_primaries 3 xs) = [i, j]" for xs i j
  proof -
    from that have "length (gallery_primaries 3 xs) = 2"
      by (metis length_map length_Cons list.size(3) numeral_2_eq_2)
    then have "\<not> length (gallery_primaries 3 xs) \<le> 1" by simp
    then show ?thesis unfolding one_primary_iff by blast
  qed
  have p1: "map a_id (gallery_primaries 3
     (product_assets (snd (setAssetAsPrimary late_failing_world 6 asset_store)))) = [5, 6]"
    by (simp add: a gallery_primaries_def sample_asset_fields)
  obtain w x y z where l: "product_assets
        (snd (moveFileAndCreateAsset third_failing_world 3 ''Silla Eames'' sample_file Gallery
                True False asset_store)) = [w, x, y, z]"
    using b(2) by (auto simp: map_eq_Cons_conv)
  have p2: "map a_id (gallery_primaries 3
     (product_assets
        (snd (moveFileAndCreateAsset third_failing_world 3 ''Silla Eames'' sample_file Gallery
                True False asset_store)))) = [5, 10]"
    using b(2,3,4,5) unfolding l by (simp add: gallery_primaries_def)
  have g: "map a_id (gallery_primaries 3 (product_assets asset_store)) = [5]"
    by (simp add: gallery_primaries_def asset_store_fields sample_asset_fields)
  show ?thesis
    using asset_store_invariant g f(2) a(2) p1 two [OF p1] b(1) p2 two [OF p2]
    by (simp add: asset_store_fields)
qed

section \<open>What the handlers do with an exception\<close>

lemma error_message_failure_body [simp]: "error_message (failure_body m) = Some m"
  by (simp add: error_message_def failure_body_def text_field_def)

lemma error_message_error_only [simp]: "error_message (error_only m) = Some m"
  by (simp add: error_message_def error_only_def text_field_def)

lemma error_message_signin_body [simp]: "error_message (signin_body ok m) = Some m"
  by (simp add: error_message_def signin_body_def text_field_def)

lemma response_fields [simp]:
  "status (json_response st b) = st" "body (json_response st b) = b"
  "status (text_response st b) = st" "body (text_response st b) = b"
  by (simp_all add: json_response_def text_response_def)













end
